theory Spec2Isabelle
  imports Main "HOL-Library.Sublist"
begin

section \<open>Strings\<close>

text \<open>
  A JavaScript string is modelled as a HOL \<open>string\<close>, one \<open>char\<close> per code unit
  (code units below 256). \<open>s.includes(t)\<close> is \<open>sublist t s\<close>, \<open>s.startsWith(t)\<close> is
  \<open>prefix t s\<close>, template literals and \<open>+\<close> are \<open>@\<close>.
\<close>

definition str_includes :: "string \<Rightarrow> string \<Rightarrow> bool" where
  "str_includes s t = sublist t s"

definition startsWith :: "string \<Rightarrow> string \<Rightarrow> bool" where
  "startsWith s t = prefix t s"

abbreviation nl :: char where
  "nl \<equiv> CHR 0x0A"

section \<open>Environment file (copy-template.ts)\<close>

text \<open>
  \<open>writeEnvFile(targetDir, supabaseUrl, supabaseAnonKey)\<close> builds the content below and
  writes it to \<open>join(targetDir, '.env.local')\<close>. \<open>envContent\<close> is the template literal
  of the source, line by line.
\<close>

definition envContent :: "string \<Rightarrow> string \<Rightarrow> string" where
  "envContent supabaseUrl supabaseAnonKey =
     ''# Supabase Configuration'' @ [nl] @
     ''# Get these from https://app.supabase.com/project/_/settings/api'' @ [nl] @
     ''NEXT_PUBLIC_SUPABASE_URL='' @ supabaseUrl @ [nl] @
     ''NEXT_PUBLIC_SUPABASE_ANON_KEY='' @ supabaseAnonKey @ [nl] @
     [nl] @
     ''# Note: Service role key NOT needed for runtime'' @ [nl] @
     ''# Only used during initial setup by create-supalite CLI'' @ [nl]"

text \<open>The fixed comment lines of the template, and the two variable names.\<close>

definition commentLines :: "string list" where
  "commentLines =
     [''# Supabase Configuration'',
      ''# Get these from https://app.supabase.com/project/_/settings/api'',
      ''# Note: Service role key NOT needed for runtime'',
      ''# Only used during initial setup by create-supalite CLI'']"

definition variableNames :: "string list" where
  "variableNames = [''NEXT_PUBLIC_SUPABASE_URL'', ''NEXT_PUBLIC_SUPABASE_ANON_KEY'']"

section \<open>The host, the trace and the state\<close>

text \<open>
  Everything outside the program is a field of \<open>world\<close>: the platform, the answers of the
  package-manager probes, the result of every external command (\<open>run w n cmd\<close> is what
  the command line \<open>cmd\<close> returns when it is started after \<open>n\<close> earlier events), the file
  system operations that can fail, and the library functions \<open>new URL(s).hostname\<close>,
  \<open>parseInt\<close>, \<open>createClient\<close> and \<open>JSON.parse\<close>, whose result is \<open>None\<close> (or an error
  message) when they throw. \<open>JSON.parse\<close> is read at the type the source declares for
  its result: \<open>json_orgs w s\<close> is \<open>JsonThrows\<close> when \<open>JSON.parse(s)\<close> throws or an element
  of the array is \<open>null\<close>, \<open>JsonOther\<close> when the value is not an array, and \<open>JsonArray\<close> of
  the elements (\<open>CLIOrganization[]\<close>) otherwise; likewise for the project list and the
  API keys; \<open>json_project w s\<close> is the created project, or \<open>None\<close> when parsing or reading
  its fields throws. \<open>json_error w s\<close> is the \<open>message\<close> of the error that is caught when
  \<open>JSON.parse(s)\<close>, or the use of its value, throws. \<open>check_lag w k\<close> is the time in
  milliseconds by which the clock, read at the end of the \<open>k\<close>-th readiness check, is
  past the time \<open>k * PROJECT_CHECK_INTERVAL_MS\<close> for which the timer has scheduled that
  check.

  The state carries the answers the user will give to the prompts, in order, and the
  trace of what the program did: commands started, waits, files written and the outcome
  messages printed (\<open>p.note\<close>, \<open>p.cancel\<close>, \<open>p.outro\<close>, \<open>p.log.error\<close>, \<open>p.log.warn\<close>,
  \<open>spinner.stop(msg)\<close>, \<open>console.error\<close>). Progress text (\<open>spinner.start\<close>,
  \<open>p.log.info\<close>, \<open>p.log.success\<close>) and \<open>debug\<close> output are not recorded. An asynchronous
  \<open>spawn\<close> is followed to its \<open>close\<close> event; a child that cannot be started is the
  \<open>spawn_error\<close> of its result, read only where the source listens for \<open>error\<close>.
\<close>

datatype PackageManager = npm | pnpm | bun

datatype error = Error string

fun message :: "error \<Rightarrow> string" where
  "message (Error m) = m"

record proc_result =
  status :: "int option"
  stdout :: string
  stderr :: string
  spawn_error :: "string option"

datatype os = macos | linux | windows | unknown

record SupabaseOrganization =
  org_id :: string
  org_name :: string

record SupabaseProject =
  project_id :: string
  project_name :: string
  organization_id :: string
  project_region :: string
  created_at :: string

record CLIAPIKey =
  key_name :: string
  api_key :: string

datatype 'a json = JsonThrows | JsonOther | JsonArray "'a list"

datatype path = EnvLocal | PackageJson | DatabaseTs | MigrationSql

datatype channel = Note | CancelMsg | Outro | LogError | LogWarn | SpinnerStop | ConsoleError

datatype event =
    Spawn "string list"
  | Sleep nat
  | CopyTemplate string
  | PatchPackageJson PackageManager "int option"
  | WriteFile string path string
  | ApiQuery
  | Say channel string

datatype answer = Cancel | Input string | Confirm bool

record world =
  platform :: os
  which_status :: "PackageManager \<Rightarrow> int option"
  version_status :: "PackageManager \<Rightarrow> int option"
  run :: "nat \<Rightarrow> string list \<Rightarrow> proc_result"
  exists_dir :: "string \<Rightarrow> bool"
  resolve_path :: "string \<Rightarrow> string"
  copy_error :: "string \<Rightarrow> string option"
  patch_error :: "string \<Rightarrow> string option"
  write_error :: "string \<Rightarrow> path \<Rightarrow> string option"
  migration_sql :: "string \<Rightarrow> error + string"
  url_hostname :: "string \<Rightarrow> string option"
  json_orgs :: "string \<Rightarrow> SupabaseOrganization json"
  json_projects :: "string \<Rightarrow> SupabaseProject json"
  json_project :: "string \<Rightarrow> SupabaseProject option"
  json_api_keys :: "string \<Rightarrow> CLIAPIKey json"
  json_error :: "string \<Rightarrow> string"
  check_lag :: "nat \<Rightarrow> nat"
  parse_int :: "string \<Rightarrow> int option"
  create_client_error :: "string \<Rightarrow> string \<Rightarrow> string option"

record state =
  script :: "answer list"
  trace :: "event list"

definition emit :: "event \<Rightarrow> state \<Rightarrow> state" where
  "emit e st = st\<lparr>trace := trace st @ [e]\<rparr>"

definition say :: "channel \<Rightarrow> string \<Rightarrow> state \<Rightarrow> state" where
  "say ch m st = emit (Say ch m) st"

definition spawn :: "world \<Rightarrow> string list \<Rightarrow> state \<Rightarrow> proc_result \<times> state" where
  "spawn w cmd st = (run w (length (trace st)) cmd, emit (Spawn cmd) st)"

definition writeFile :: "world \<Rightarrow> string \<Rightarrow> path \<Rightarrow> string \<Rightarrow> state \<Rightarrow> (error + unit) \<times> state" where
  "writeFile w dir f content st =
     (case write_error w dir f of
        Some m \<Rightarrow> (Inl (Error m), st)
      | None \<Rightarrow> (Inr (), emit (WriteFile dir f content) st))"

section \<open>More string functions\<close>

text \<open>
  \<open>s.split(c)\<close> for a one-character separator: the pieces between the separators, at
  least one piece. \<open>s.trim()\<close> removes the white space of ECMAScript that has a code unit
  below 256 (tab, line feed, vertical tab, form feed, carriage return, space, no-break
  space) from both ends.

  A \<open>char\<close> is a code unit below 256. \<open>toLowerCase\<close> maps the capitals A-Z and the
  capitals from 0xC0 to 0xDE (without the multiplication sign 0xD7) to their small
  letters, 0x20 higher. \<open>toUpperCase\<close> maps the small letters a-z and those from 0xE0 to
  0xFE (without the division sign 0xF7) to their capitals and the sharp s (0xDF) to
  \<open>SS\<close>. The capitals of the micro sign (0xB5) and of y with diaeresis (0xFF) have code
  units above 255; \<open>toUpperCase\<close> leaves these two as they are, which keeps what its
  result is tested for (inclusion of \<open>ID\<close> and of \<open>NAME\<close>).
\<close>

fun split_on :: "char \<Rightarrow> string \<Rightarrow> string list" where
  "split_on c [] = [[]]"
| "split_on c (x # xs) =
     (if x = c then [] # split_on c xs
      else (case split_on c xs of [] \<Rightarrow> [[x]] | p # ps \<Rightarrow> (x # p) # ps))"

definition is_space :: "char \<Rightarrow> bool" where
  "is_space c =
     (c \<in> {CHR 0x09, CHR 0x0A, CHR 0x0B, CHR 0x0C, CHR 0x0D, CHR 0x20, CHR 0xA0})"

definition trim :: "string \<Rightarrow> string" where
  "trim s = rev (dropWhile is_space (rev (dropWhile is_space s)))"

definition lower_letters :: string where
  "lower_letters = ''abcdefghijklmnopqrstuvwxyz''"

definition upper_letters :: string where
  "upper_letters = ''ABCDEFGHIJKLMNOPQRSTUVWXYZ''"

definition lower_latin :: string where
  "lower_latin =
     [CHR 0xE0, CHR 0xE1, CHR 0xE2, CHR 0xE3, CHR 0xE4, CHR 0xE5, CHR 0xE6, CHR 0xE7,
      CHR 0xE8, CHR 0xE9, CHR 0xEA, CHR 0xEB, CHR 0xEC, CHR 0xED, CHR 0xEE, CHR 0xEF,
      CHR 0xF0, CHR 0xF1, CHR 0xF2, CHR 0xF3, CHR 0xF4, CHR 0xF5, CHR 0xF6, CHR 0xF8,
      CHR 0xF9, CHR 0xFA, CHR 0xFB, CHR 0xFC, CHR 0xFD, CHR 0xFE]"

definition upper_latin :: string where
  "upper_latin =
     [CHR 0xC0, CHR 0xC1, CHR 0xC2, CHR 0xC3, CHR 0xC4, CHR 0xC5, CHR 0xC6, CHR 0xC7,
      CHR 0xC8, CHR 0xC9, CHR 0xCA, CHR 0xCB, CHR 0xCC, CHR 0xCD, CHR 0xCE, CHR 0xCF,
      CHR 0xD0, CHR 0xD1, CHR 0xD2, CHR 0xD3, CHR 0xD4, CHR 0xD5, CHR 0xD6, CHR 0xD8,
      CHR 0xD9, CHR 0xDA, CHR 0xDB, CHR 0xDC, CHR 0xDD, CHR 0xDE]"

definition upper_char :: "char \<Rightarrow> char" where
  "upper_char c =
     (case map_of (zip (lower_letters @ lower_latin) (upper_letters @ upper_latin)) c of
        None \<Rightarrow> c | Some u \<Rightarrow> u)"

definition lower_char :: "char \<Rightarrow> char" where
  "lower_char c =
     (case map_of (zip (upper_letters @ upper_latin) (lower_letters @ lower_latin)) c of
        None \<Rightarrow> c | Some l \<Rightarrow> l)"

definition upper_chars :: "char \<Rightarrow> string" where
  "upper_chars c = (if c = CHR 0xDF then ''SS'' else [upper_char c])"

definition toUpperCase :: "string \<Rightarrow> string" where
  "toUpperCase s = concat (map upper_chars s)"

definition toLowerCase :: "string \<Rightarrow> string" where
  "toLowerCase s = map lower_char s"

section \<open>Constants (constants.ts)\<close>

definition DEFAULT_PORT :: int where
  "DEFAULT_PORT = 3000"

definition MIN_PORT :: int where
  "MIN_PORT = 1"

definition MAX_PORT :: int where
  "MAX_PORT = 65535"

definition MIGRATION_RETRY_BASE_DELAY_MS :: nat where
  "MIGRATION_RETRY_BASE_DELAY_MS = 10000"

definition MAX_MIGRATION_RETRIES :: nat where
  "MAX_MIGRATION_RETRIES = 3"

definition MIN_DB_PASSWORD_LENGTH :: nat where
  "MIN_DB_PASSWORD_LENGTH = 12"

section \<open>Migration Applier (supabase-setup.ts)\<close>

datatype migration_method = cli | api | manual

text \<open>\<open>hasSupabaseCLI()\<close>: \<open>spawnSync('supabase', ['--version'])\<close>, true iff the status is 0.\<close>

definition hasSupabaseCLI :: "world \<Rightarrow> state \<Rightarrow> bool \<times> state" where
  "hasSupabaseCLI w st =
     (let (result, st1) = spawn w [''supabase'', ''--version''] st
      in (status result = Some 0, st1))"

text \<open>
  \<open>applyMigrationsViaCLI(targetDir, projectRef, dbPassword, retryCount = 0)\<close>: step 1
  links, step 2 pushes; a push that fails with a provisioning message is retried by
  calling the whole function again with \<open>retryCount + 1\<close>, after
  \<open>setTimeout(r, delayMs)\<close>.
\<close>

definition isProvisioningIssue :: "string \<Rightarrow> bool" where
  "isProvisioningIssue errorOutput =
     (str_includes errorOutput ''Tenant or user not found'' \<or>
      str_includes errorOutput ''no route to host'')"

definition link_cmd :: "string \<Rightarrow> string \<Rightarrow> string list" where
  "link_cmd projectRef dbPassword =
     [''supabase'', ''link'', ''--project-ref'', projectRef, ''--password'', dbPassword]"

definition push_cmd :: "string list" where
  "push_cmd = [''supabase'', ''db'', ''push'']"

function applyMigrationsViaCLI ::
  "world \<Rightarrow> string \<Rightarrow> string \<Rightarrow> string \<Rightarrow> nat \<Rightarrow> state \<Rightarrow> (error + unit) \<times> state" where
  "applyMigrationsViaCLI w targetDir projectRef dbPassword retryCount st =
     (let (linkResult, st1) = spawn w (link_cmd projectRef dbPassword) st in
      if status linkResult \<noteq> Some 0 then (Inl (Error ''Failed to link project''), st1)
      else
        let (push, st2) = spawn w push_cmd st1 in
        if status push = Some 0 then (Inr (), st2)
        else if isProvisioningIssue (stderr push) \<and> retryCount < MAX_MIGRATION_RETRIES then
          let delayMs = (retryCount + 1) * MIGRATION_RETRY_BASE_DELAY_MS
          in applyMigrationsViaCLI w targetDir projectRef dbPassword (retryCount + 1)
               (emit (Sleep delayMs) st2)
        else (Inl (Error (''Migration push failed: '' @ stderr push)), st2))"
  by pat_completeness auto
termination
  by (relation "measure (\<lambda>(w, t, p, d, retryCount, st). MAX_MIGRATION_RETRIES - retryCount)")
     auto

declare applyMigrationsViaCLI.simps [simp del]

text \<open>
  \<open>applyMigrationsViaAPI(supabaseUrl, serviceKey, migrationSQL)\<close>. The statements are
  \<open>migrationSQL.split(/;(?![^$]*\$\$)/g)\<close>, trimmed, without the empty ones and the ones
  starting with \<open>--\<close>. The regular expression matches a semicolon unless the text after
  it, up to its first dollar sign, is followed by two dollar signs (\<open>dollarAhead\<close>).
\<close>

definition dollarAhead :: "string \<Rightarrow> bool" where
  "dollarAhead rest = prefix ''$$'' (dropWhile (\<lambda>c. c \<noteq> CHR ''$'') rest)"

fun splitStatements :: "string \<Rightarrow> string list" where
  "splitStatements [] = [[]]"
| "splitStatements (x # xs) =
     (if x = CHR '';'' \<and> \<not> dollarAhead xs then [] # splitStatements xs
      else (case splitStatements xs of [] \<Rightarrow> [[x]] | p # ps \<Rightarrow> (x # p) # ps))"

definition statements_of :: "string \<Rightarrow> string list" where
  "statements_of migrationSQL =
     filter (\<lambda>s. length s > 0 \<and> \<not> startsWith s ''--'') (map trim (splitStatements migrationSQL))"

fun apiLoop :: "string list \<Rightarrow> state \<Rightarrow> (error + unit) \<times> state" where
  "apiLoop [] st = (Inr (), st)"
| "apiLoop (statement # rest) st =
     (if statement = [] then apiLoop rest st
      else (Inl (Error ''Direct SQL execution not supported via API''), emit ApiQuery st))"

definition applyMigrationsViaAPI ::
  "world \<Rightarrow> string \<Rightarrow> string \<Rightarrow> string \<Rightarrow> state \<Rightarrow> (error + unit) \<times> state" where
  "applyMigrationsViaAPI w supabaseUrl serviceKey migrationSQL st =
     (case create_client_error w supabaseUrl serviceKey of
        Some m \<Rightarrow> (Inl (Error m), st)
      | None \<Rightarrow> apiLoop (statements_of migrationSQL) st)"

text \<open>
  \<open>applyMigrations(targetDir, supabaseUrl, serviceKey, dbPassword?)\<close>. \<open>readFile\<close> and
  \<open>new URL\<close> are outside the \<open>try\<close>; the \<open>catch\<close> around the CLI strategy logs the
  error with \<open>debugError\<close> and falls through to \<open>return { method: 'manual' }\<close>.
  \<open>hasCLI && dbPassword\<close> holds when the password is present and not empty.
\<close>

definition first_label :: "string \<Rightarrow> string" where
  "first_label hostname = (case split_on CHR ''.'' hostname of [] \<Rightarrow> [] | p # _ \<Rightarrow> p)"

definition applyMigrations ::
  "world \<Rightarrow> string \<Rightarrow> string \<Rightarrow> string \<Rightarrow> string option \<Rightarrow> state
     \<Rightarrow> (error + migration_method) \<times> state" where
  "applyMigrations w targetDir supabaseUrl serviceKey dbPassword st =
     (case migration_sql w targetDir of
        Inl e \<Rightarrow> (Inl e, st)
      | Inr migrationSQL \<Rightarrow>
          (case url_hostname w supabaseUrl of
             None \<Rightarrow> (Inl (Error ''Invalid URL''), st)
           | Some hostname \<Rightarrow>
               (let projectRef = first_label hostname;
                    (hasCLI, st1) = hasSupabaseCLI w st
                in case dbPassword of
                     None \<Rightarrow> (Inr manual, st1)
                   | Some password \<Rightarrow>
                       if hasCLI \<and> password \<noteq> [] then
                         (case applyMigrationsViaCLI w targetDir projectRef password 0 st1 of
                            (Inr _, st2) \<Rightarrow> (Inr cli, st2)
                          | (Inl _, st2) \<Rightarrow> (Inr manual, st2))
                       else (Inr manual, st1))))"

section \<open>Package Manager Detector (detect-package-managers.ts)\<close>

record pm_option =
  opt_value :: PackageManager
  label :: string
  priority :: int

definition isWindows :: "world \<Rightarrow> bool" where
  "isWindows w = (platform w = windows)"

text \<open>
  \<open>isPackageManagerInstalled(pm)\<close>: on Windows the status of \<open>pm --version\<close>, elsewhere
  the status of \<open>which pm\<close>. The probes only read the host; their answers are fields of
  the world and stay the same during a run.
\<close>

definition isPackageManagerInstalled :: "world \<Rightarrow> PackageManager \<Rightarrow> bool" where
  "isPackageManagerInstalled w pm =
     (if isWindows w then version_status w pm = Some 0 else which_status w pm = Some 0)"

definition allOptions :: "pm_option list" where
  "allOptions =
     [\<lparr>opt_value = npm, label = ''npm (default)'', priority = 3\<rparr>,
      \<lparr>opt_value = pnpm, label = ''pnpm (fast, efficient)'', priority = 1\<rparr>,
      \<lparr>opt_value = bun, label = ''bun (fastest)'', priority = 2\<rparr>]"

text \<open>\<open>Array.prototype.sort\<close> with the comparator \<open>a.priority - b.priority\<close> is a stable sort.\<close>

definition getAvailablePackageManagers :: "world \<Rightarrow> pm_option list" where
  "getAvailablePackageManagers w =
     (if isWindows w then
        sort_key priority
          (filter (\<lambda>option. if opt_value option = npm then True
                            else isPackageManagerInstalled w (opt_value option)) allOptions)
      else
        sort_key priority
          (filter (\<lambda>option. isPackageManagerInstalled w (opt_value option)) allOptions))"

definition getDefaultPackageManager :: "world \<Rightarrow> error + PackageManager" where
  "getDefaultPackageManager w =
     (let available = getAvailablePackageManagers w
      in case available of
           [] \<Rightarrow> Inl (Error ''No package manager found. Please install npm, pnpm, or bun.'')
         | first # _ \<Rightarrow> Inr (opt_value first))"

section \<open>Platform CLI Adapter (supabase-cli.ts)\<close>

text \<open>\<open>isAuthenticated()\<close>: \<open>supabase projects list\<close> exits with 0.\<close>

definition isAuthenticated :: "world \<Rightarrow> state \<Rightarrow> bool \<times> state" where
  "isAuthenticated w st =
     (let (result, st1) = spawn w [''supabase'', ''projects'', ''list''] st
      in (status result = Some 0, st1))"

definition detectOS :: "world \<Rightarrow> os" where
  "detectOS w = platform w"

text \<open>
  The installers. The shell and PowerShell scripts of the source are long literals; the
  model names them and keeps the program that runs them. An asynchronous child resolves
  to \<open>code === 0\<close> on \<open>close\<close> and to false on \<open>error\<close>.
\<close>

definition linux_install_script :: string where
  "linux_install_script = ''curl supabase_linux_amd64.tar.gz | tar -xz && mv supabase (PATH)''"

definition windows_install_script :: string where
  "windows_install_script = ''Invoke-WebRequest supabase_windows_amd64.tar.gz; tar -xzf; Copy-Item''"

definition run_installer :: "world \<Rightarrow> string list \<Rightarrow> state \<Rightarrow> bool \<times> state" where
  "run_installer w cmd st =
     (let (r, st1) = spawn w cmd st
      in (spawn_error r = None \<and> status r = Some 0, st1))"

definition installViaBrew :: "world \<Rightarrow> state \<Rightarrow> bool \<times> state" where
  "installViaBrew w st = run_installer w [''brew'', ''install'', ''supabase/tap/supabase''] st"

definition installViaDirectDownload :: "world \<Rightarrow> state \<Rightarrow> bool \<times> state" where
  "installViaDirectDownload w st = run_installer w [''sh'', ''-c'', linux_install_script] st"

definition installViaWindows :: "world \<Rightarrow> state \<Rightarrow> bool \<times> state" where
  "installViaWindows w st =
     run_installer w [''powershell'', ''-Command'', windows_install_script] st"

definition installCLI :: "world \<Rightarrow> state \<Rightarrow> bool \<times> state" where
  "installCLI w st =
     (case detectOS w of
        macos \<Rightarrow>
          (let (brew, st1) = spawn w [''which'', ''brew''] st in
           if status brew \<noteq> Some 0
           then (False, say LogError ''Homebrew is not installed. Please install Homebrew first:'' st1)
           else run_installer w [''brew'', ''install'', ''supabase/tap/supabase''] st1)
      | linux \<Rightarrow>
          (let (r, st1) = spawn w [''sh'', ''-c'', linux_install_script] st in
           if spawn_error r \<noteq> None then (False, st1)
           else if status r = Some 0 then (True, st1)
           else (False, say LogError ''Automatic installation failed. You can install manually:''
                          (say LogError [] st1)))
      | windows \<Rightarrow> installViaWindows w st
      | unknown \<Rightarrow> (False, say LogError ''Unsupported operating system'' st))"

definition installCLIManual :: "world \<Rightarrow> state \<Rightarrow> bool \<times> state" where
  "installCLIManual w st =
     (case detectOS w of
        macos \<Rightarrow> installViaBrew w st
      | linux \<Rightarrow> installViaDirectDownload w st
      | windows \<Rightarrow> installViaWindows w st
      | unknown \<Rightarrow> (False, st))"

definition login :: "world \<Rightarrow> state \<Rightarrow> bool \<times> state" where
  "login w st =
     (let (r, st1) = spawn w [''supabase'', ''login''] st
      in (spawn_error r = None \<and> status r = Some 0, st1))"

text \<open>
  \<open>getOrganizations()\<close>. A JSON array is returned as it is. Otherwise the output is read
  as a table: \<open>table_row\<close> is the condition of the \<open>if\<close> in the loop over the lines, and
  \<open>parse_table\<close> is the loop, pushing an organization for every line that passes it and
  has two non-empty trimmed parts.
\<close>

definition table_row :: "string \<Rightarrow> bool" where
  "table_row line =
     (str_includes line ''|'' \<and>
      \<not> str_includes line ''---'' \<and>
      \<not> str_includes (toUpperCase line) ''ID'' \<and>
      \<not> str_includes (toUpperCase line) ''NAME'')"

fun parse_table :: "string list \<Rightarrow> SupabaseOrganization list" where
  "parse_table [] = []"
| "parse_table (line # lines) =
     (if table_row line then
        (case map trim (split_on CHR ''|'' line) of
           p0 # p1 # _ \<Rightarrow>
             if p0 \<noteq> [] \<and> p1 \<noteq> []
             then \<lparr>org_id = p0, org_name = p1\<rparr> # parse_table lines
             else parse_table lines
         | _ \<Rightarrow> parse_table lines)
      else parse_table lines)"

definition orgs_list_cmd :: "string list" where
  "orgs_list_cmd = [''supabase'', ''orgs'', ''list'', ''--output'', ''json'']"

definition getOrganizations :: "world \<Rightarrow> state \<Rightarrow> (error + SupabaseOrganization list) \<times> state" where
  "getOrganizations w st =
     (let (result, st1) = spawn w orgs_list_cmd st in
      if status result \<noteq> Some 0
      then (Inl (Error (''Failed to get organizations: '' @ stderr result)), st1)
      else
        let output = trim (stdout result) in
        case json_orgs w output of
          JsonArray orgs \<Rightarrow> (Inr orgs, st1)
        | _ \<Rightarrow>
            (let orgs = parse_table (split_on nl output) in
             if orgs = [] then (Inl (Error ''Failed to parse organizations list''), st1)
             else (Inr orgs, st1)))"

definition projects_list_cmd :: "string list" where
  "projects_list_cmd = [''supabase'', ''projects'', ''list'', ''--output'', ''json'']"

definition listProjects :: "world \<Rightarrow> state \<Rightarrow> (error + SupabaseProject list) \<times> state" where
  "listProjects w st =
     (let (result, st1) = spawn w projects_list_cmd st in
      if status result \<noteq> Some 0
      then (Inl (Error (''Failed to list projects: '' @ stderr result)), st1)
      else
        case json_projects w (stdout result) of
          JsonArray projects \<Rightarrow> (Inr projects, st1)
        | _ \<Rightarrow> (Inl (Error ''Failed to parse projects list''), st1))"

text \<open>
  \<open>createProject(name, orgId, region, dbPassword)\<close> of the adapter. The flow always
  passes a password, so the generated one is not modelled.
\<close>

definition projects_create_cmd :: "string \<Rightarrow> string \<Rightarrow> string \<Rightarrow> string \<Rightarrow> string list" where
  "projects_create_cmd name orgId rgn password =
     [''supabase'', ''projects'', ''create'', name, ''--org-id'', orgId,
      ''--db-password'', password, ''--region'', rgn, ''--output'', ''json'']"

definition or_else :: "string \<Rightarrow> string \<Rightarrow> string" where
  "or_else a b = (if a \<noteq> [] then a else b)"

definition supabase_createProject ::
  "world \<Rightarrow> string \<Rightarrow> string \<Rightarrow> string \<Rightarrow> string \<Rightarrow> state \<Rightarrow> (error + SupabaseProject) \<times> state" where
  "supabase_createProject w name orgId rgn password st =
     (let (result, st1) = spawn w (projects_create_cmd name orgId rgn password) st in
      if status result \<noteq> Some 0
      then (Inl (Error (''Failed to create project: '' @
                        or_else (stderr result) (or_else (stdout result) ''Unknown error''))), st1)
      else
        case json_project w (stdout result) of
          Some project \<Rightarrow> (Inr project, st1)
        | None \<Rightarrow>
            (Inl (Error (''Failed to parse project creation response: '' @
                         json_error w (stdout result))), st1))"

record ProjectCredentials =
  cred_url :: string
  anonKey :: string
  serviceKey :: string

definition api_keys_json_cmd :: "string \<Rightarrow> string list" where
  "api_keys_json_cmd projectRef =
     [''supabase'', ''projects'', ''api-keys'', ''--project-ref'', projectRef, ''--output'', ''json'']"

definition find_key :: "string \<Rightarrow> CLIAPIKey list \<Rightarrow> string" where
  "find_key n apiKeys = (case find (\<lambda>k. key_name k = n) apiKeys of None \<Rightarrow> [] | Some k \<Rightarrow> api_key k)"

definition getProjectCredentials :: "world \<Rightarrow> string \<Rightarrow> state \<Rightarrow> (error + ProjectCredentials) \<times> state" where
  "getProjectCredentials w projectRef st =
     (let (result, st1) = spawn w (api_keys_json_cmd projectRef) st in
      if status result \<noteq> Some 0
      then (Inl (Error (''Failed to get project credentials: '' @
                        or_else (stderr result) (stdout result))), st1)
      else
        case json_api_keys w (stdout result) of
          JsonArray apiKeys \<Rightarrow>
            if find_key ''anon'' apiKeys = [] \<or> find_key ''service_role'' apiKeys = []
            then (Inl (Error ''Could not find required API keys''), st1)
            else (Inr \<lparr>cred_url = ''https://'' @ projectRef @ ''.supabase.co'',
                        anonKey = find_key ''anon'' apiKeys,
                        serviceKey = find_key ''service_role'' apiKeys\<rparr>, st1)
        | _ \<Rightarrow>
            if str_includes (json_error w (stdout result)) ''required API keys''
            then (Inl (Error (json_error w (stdout result))), st1)
            else (Inl (Error (''Failed to parse project credentials: '' @
                              json_error w (stdout result))), st1))"

text \<open>
  \<open>waitForProjectReady(projectRef)\<close>: every \<open>PROJECT_CHECK_INTERVAL_MS\<close> the API keys are
  listed; the first success resolves to true, and a failure later than
  \<open>MAX_PROJECT_WAIT_TIME_MS\<close> after the start resolves to false. The callback of
  \<open>setInterval\<close> increments \<open>checkCount\<close> first, so the check that follows \<open>checkCount\<close>
  earlier ones has the number \<open>checkCount + 1\<close>; \<open>Date.now() - startTime\<close>, read after
  its command has returned, is the scheduled time of that check plus its \<open>check_lag\<close>.
\<close>

definition MAX_PROJECT_WAIT_TIME_MS :: nat where
  "MAX_PROJECT_WAIT_TIME_MS = 300000"

definition PROJECT_CHECK_INTERVAL_MS :: nat where
  "PROJECT_CHECK_INTERVAL_MS = 10000"

definition api_keys_cmd :: "string \<Rightarrow> string list" where
  "api_keys_cmd projectRef = [''supabase'', ''projects'', ''api-keys'', ''--project-ref'', projectRef]"

function readyLoop :: "world \<Rightarrow> string \<Rightarrow> nat \<Rightarrow> state \<Rightarrow> bool \<times> state" where
  "readyLoop w projectRef checkCount st =
     (let (result, st1) = spawn w (api_keys_cmd projectRef) (emit (Sleep PROJECT_CHECK_INTERVAL_MS) st) in
      if status result = Some 0 then (True, say SpinnerStop ''Project is ready!'' st1)
      else if (checkCount + 1) * PROJECT_CHECK_INTERVAL_MS + check_lag w (checkCount + 1)
                > MAX_PROJECT_WAIT_TIME_MS
      then (False, say SpinnerStop ''Project provisioning timed out'' st1)
      else readyLoop w projectRef (checkCount + 1) st1)"
  by pat_completeness auto
termination
  by (relation "measure (\<lambda>(w, p, checkCount, st). 31 - checkCount)")
     (auto simp: PROJECT_CHECK_INTERVAL_MS_def MAX_PROJECT_WAIT_TIME_MS_def)

declare readyLoop.simps [simp del]

definition waitForProjectReady :: "world \<Rightarrow> string \<Rightarrow> state \<Rightarrow> bool \<times> state" where
  "waitForProjectReady w projectRef st = readyLoop w projectRef 0 st"

definition getAvailableRegions :: "string list" where
  "getAvailableRegions =
     [''us-east-1'', ''us-west-1'', ''ap-southeast-1'', ''ap-northeast-1'', ''eu-west-1'',
      ''eu-central-1'']"

section \<open>Prompts\<close>

text \<open>
  The prompt library returns the cancel symbol, or a value that its \<open>validate\<close> callback
  accepted (\<open>validate\<close> returns an error text, or nothing when the value is accepted):
  a rejected value is shown with the error and the prompt keeps waiting. The user's
  answers are read from the script; an answer of the wrong kind is passed over, and a
  script that runs out stands for the user cancelling.
\<close>

fun ask_text :: "(string \<Rightarrow> string option) \<Rightarrow> answer list \<Rightarrow> string option \<times> answer list" where
  "ask_text validate [] = (None, [])"
| "ask_text validate (Cancel # rest) = (None, rest)"
| "ask_text validate (Input v # rest) =
     (case validate v of None \<Rightarrow> (Some v, rest) | Some msg \<Rightarrow> ask_text validate rest)"
| "ask_text validate (Confirm b # rest) = ask_text validate rest"

fun ask_confirm :: "answer list \<Rightarrow> bool option \<times> answer list" where
  "ask_confirm [] = (None, [])"
| "ask_confirm (Cancel # rest) = (None, rest)"
| "ask_confirm (Confirm b # rest) = (Some b, rest)"
| "ask_confirm (Input v # rest) = ask_confirm rest"

definition text_prompt :: "(string \<Rightarrow> string option) \<Rightarrow> state \<Rightarrow> string option \<times> state" where
  "text_prompt validate st =
     (let (r, rest) = ask_text validate (script st) in (r, st\<lparr>script := rest\<rparr>))"

definition select_prompt :: "string list \<Rightarrow> state \<Rightarrow> string option \<times> state" where
  "select_prompt options st =
     text_prompt (\<lambda>v. if v \<in> set options then None else Some ''not an option'') st"

definition confirm_prompt :: "state \<Rightarrow> bool option \<times> state" where
  "confirm_prompt st =
     (let (r, rest) = ask_confirm (script st) in (r, st\<lparr>script := rest\<rparr>))"

section \<open>Project Materializer (copy-template.ts, install-deps.ts, create-project.ts)\<close>

fun pm_name :: "PackageManager \<Rightarrow> string" where
  "pm_name npm = ''npm''"
| "pm_name pnpm = ''pnpm''"
| "pm_name bun = ''bun''"

definition copyTemplate :: "world \<Rightarrow> string \<Rightarrow> state \<Rightarrow> (error + unit) \<times> state" where
  "copyTemplate w dir st =
     (let st1 = emit (CopyTemplate dir) st
      in case copy_error w dir of Some m \<Rightarrow> (Inl (Error m), st1) | None \<Rightarrow> (Inr (), st1))"

text \<open>
  \<open>setPackageManager\<close> reads, patches and rewrites \<open>package.json\<close>; the model records the
  patch and lets the world decide whether reading, parsing or writing fails.
\<close>

definition setPackageManager ::
  "world \<Rightarrow> string \<Rightarrow> PackageManager \<Rightarrow> int option \<Rightarrow> state \<Rightarrow> (error + unit) \<times> state" where
  "setPackageManager w dir pm prt st =
     (case patch_error w dir of
        Some m \<Rightarrow> (Inl (Error m), st)
      | None \<Rightarrow> (Inr (), emit (PatchPackageJson pm prt) st))"

definition writeEnvFile :: "world \<Rightarrow> string \<Rightarrow> string \<Rightarrow> string \<Rightarrow> state \<Rightarrow> (error + unit) \<times> state" where
  "writeEnvFile w dir url anon st = writeFile w dir EnvLocal (envContent url anon) st"

definition gen_types_cmd :: "string \<Rightarrow> string list" where
  "gen_types_cmd projectRef =
     [''supabase'', ''gen'', ''types'', ''typescript'', ''--project-id'', projectRef]"

definition generateTypes :: "world \<Rightarrow> string \<Rightarrow> string \<Rightarrow> state \<Rightarrow> bool \<times> state" where
  "generateTypes w dir projectRef st =
     (let (hasCLI, st1) = hasSupabaseCLI w st in
      if \<not> hasCLI then (False, st1)
      else
        let (r, st2) = spawn w (gen_types_cmd projectRef) st1 in
        if status r = Some 0 \<and> stdout r \<noteq> [] then
          (case writeFile w dir DatabaseTs (stdout r) st2 of
             (Inr _, st3) \<Rightarrow> (True, st3)
           | (Inl _, st3) \<Rightarrow> (False, st3))
        else (False, st2))"

definition installDependencies ::
  "world \<Rightarrow> string \<Rightarrow> PackageManager \<Rightarrow> state \<Rightarrow> (error + unit) \<times> state" where
  "installDependencies w dir pm st =
     (let (r, st1) = spawn w [pm_name pm, ''install''] st in
      case spawn_error r of
        Some m \<Rightarrow> (Inl (Error (''Failed to run '' @ pm_name pm @ '': '' @ m)), st1)
      | None \<Rightarrow>
          if status r \<noteq> Some 0 then (Inl (Error (pm_name pm @ '' install failed'')), st1)
          else (Inr (), st1))"

record ProjectConfig =
  projectName :: string
  supabaseUrl :: string
  supabaseAnonKey :: string
  supabaseServiceKey :: string
  targetDir :: string
  packageManager :: PackageManager
  port :: "int option"
  dbPassword :: "string option"

text \<open>
  \<open>createProject(config)\<close>: the six steps inside the \<open>try\<close>, one definition per step,
  each continuing with the next. A \<open>p.note(message, title)\<close> is recorded by its title.
\<close>

definition createProject_step6 :: "world \<Rightarrow> ProjectConfig \<Rightarrow> state \<Rightarrow> (error + unit) \<times> state" where
  "createProject_step6 w config st =
     (case installDependencies w (targetDir config) (packageManager config) st of
        (Inl e, st1) \<Rightarrow> (Inl e, st1)
      | (Inr _, st1) \<Rightarrow> (Inr (), say Note ''Security Note'' (say SpinnerStop ''Dependencies installed'' st1)))"

definition createProject_step5 :: "world \<Rightarrow> ProjectConfig \<Rightarrow> state \<Rightarrow> (error + unit) \<times> state" where
  "createProject_step5 w config st =
     (let (projectRef, st0) =
            (case url_hostname w (supabaseUrl config) of
               None \<Rightarrow> ([], say SpinnerStop ''Types generation skipped (invalid Supabase URL)'' st)
             | Some hostname \<Rightarrow>
                 if first_label hostname = []
                 then ([], say SpinnerStop ''Types generation skipped (invalid Supabase URL)'' st)
                 else (first_label hostname, st));
          (typesGenerated, st1) =
            (if projectRef \<noteq> [] then generateTypes w (targetDir config) projectRef st0
             else (False, st0));
          st2 =
            (if \<not> typesGenerated
             then say Note ''Type Generation''
                    (say SpinnerStop ''Types generation skipped (template includes placeholder)'' st1)
             else say SpinnerStop ''Types generated'' st1)
      in createProject_step6 w config st2)"

definition createProject_step4 :: "world \<Rightarrow> ProjectConfig \<Rightarrow> state \<Rightarrow> (error + unit) \<times> state" where
  "createProject_step4 w config st =
     (case applyMigrations w (targetDir config) (supabaseUrl config) (supabaseServiceKey config)
             (dbPassword config) st of
        (Inl e, st1) \<Rightarrow> (Inl e, st1)
      | (Inr migrationResult, st1) \<Rightarrow>
          createProject_step5 w config
            (if migrationResult = manual
             then say Note ''Manual Migration Required''
                    (say SpinnerStop ''Database migrations require manual setup'' st1)
             else say SpinnerStop
                    (''Database migrations applied ('' @
                       (if migrationResult = cli then ''CLI'' else ''API'') @ '')'') st1))"

definition createProject_step3 :: "world \<Rightarrow> ProjectConfig \<Rightarrow> state \<Rightarrow> (error + unit) \<times> state" where
  "createProject_step3 w config st =
     (case writeEnvFile w (targetDir config) (supabaseUrl config) (supabaseAnonKey config) st of
        (Inl e, st1) \<Rightarrow> (Inl e, st1)
      | (Inr _, st1) \<Rightarrow>
          createProject_step4 w config (say SpinnerStop ''Environment variables written'' st1))"

definition createProject_step2 :: "world \<Rightarrow> ProjectConfig \<Rightarrow> state \<Rightarrow> (error + unit) \<times> state" where
  "createProject_step2 w config st =
     (case setPackageManager w (targetDir config) (packageManager config) (port config) st of
        (Inl e, st1) \<Rightarrow> (Inl e, st1)
      | (Inr _, st1) \<Rightarrow> createProject_step3 w config st1)"

definition createProject_step1 :: "world \<Rightarrow> ProjectConfig \<Rightarrow> state \<Rightarrow> (error + unit) \<times> state" where
  "createProject_step1 w config st =
     (case copyTemplate w (targetDir config) st of
        (Inl e, st1) \<Rightarrow> (Inl e, st1)
      | (Inr _, st1) \<Rightarrow>
          createProject_step2 w config (say SpinnerStop ''Project directory created'' st1))"

text \<open>
  The result of \<open>createProject\<close>: it returns, it throws (after \<open>spinner.stop('Setup
  failed')\<close>), or it ends the process with \<open>process.exit(0)\<close> when the directory exists and
  the user does not confirm overwriting it.
\<close>

datatype 'a outcome = Returned 'a | Thrown error | Exited nat

definition createProject :: "world \<Rightarrow> ProjectConfig \<Rightarrow> state \<Rightarrow> unit outcome \<times> state" where
  "createProject w config st =
     (let (proceed, st0) =
            (if exists_dir w (targetDir config) then
               (case confirm_prompt st of
                  (Some True, st') \<Rightarrow> (True, st')
                | (_, st') \<Rightarrow> (False, say CancelMsg ''Operation cancelled'' st'))
             else (True, st))
      in if \<not> proceed then (Exited 0, st0)
         else
           (case createProject_step1 w config st0 of
              (Inl e, st1) \<Rightarrow> (Thrown e, say SpinnerStop ''Setup failed'' st1)
            | (Inr _, st1) \<Rightarrow> (Returned (), st1)))"

section \<open>Interactive Flow Controller (setup-method.ts, collect-info.ts)\<close>

datatype setup_method = CliAuto | Manual | Cancelled

type_synonym SetupResult = "ProjectConfig option \<times> setup_method"

text \<open>\<open>/^[a-z0-9-]+$/.test(value)\<close>: at least one character, each a-z, 0-9 or a hyphen.\<close>

definition name_char :: "char \<Rightarrow> bool" where
  "name_char c = (c \<in> set lower_letters \<or> c \<in> set ''0123456789'' \<or> c = CHR ''-'')"

definition valid_name :: "string \<Rightarrow> bool" where
  "valid_name v = (v \<noteq> [] \<and> list_all name_char v)"

text \<open>The \<open>validate\<close> callbacks of the prompts.\<close>

definition validateProjectName :: "string \<Rightarrow> string option" where
  "validateProjectName v =
     (if v = [] then Some ''Project name is required''
      else if \<not> valid_name v then Some ''Project name must be lowercase alphanumeric with hyphens''
      else None)"

definition validateManualName :: "string \<Rightarrow> string option" where
  "validateManualName v =
     (if v = [] then Some ''Project name is required''
      else if \<not> valid_name (trim v) then Some ''Project name must be lowercase alphanumeric with hyphens''
      else None)"

definition validateUrl :: "string \<Rightarrow> string option" where
  "validateUrl v =
     (if v = [] then Some ''Supabase URL is required''
      else if \<not> startsWith v ''https://'' \<or> \<not> str_includes v ''supabase.co''
      then Some ''Must be a valid Supabase URL (https://xxxxx.supabase.co)''
      else None)"

definition validateAnonKey :: "string \<Rightarrow> string option" where
  "validateAnonKey v =
     (if v = [] then Some ''Anon key is required''
      else if length v < 100 then Some ''Key appears invalid (too short)''
      else None)"

definition validateServiceKey :: "string \<Rightarrow> string option" where
  "validateServiceKey v =
     (if v = [] then Some ''Service role key is required for setup''
      else if length v < 100 then Some ''Key appears invalid (too short)''
      else None)"

definition validatePassword :: "string \<Rightarrow> string option" where
  "validatePassword v =
     (if v = [] then Some ''Password is required''
      else if length v < MIN_DB_PASSWORD_LENGTH then Some ''Password must be at least 12 characters''
      else None)"

definition validatePort :: "world \<Rightarrow> string \<Rightarrow> string option" where
  "validatePort w v =
     (case parse_int w v of
        None \<Rightarrow> Some ''Port must be a number''
      | Some p \<Rightarrow>
          if p < MIN_PORT \<or> p > MAX_PORT then Some ''Port must be between 1 and 65535''
          else None)"

text \<open>\<open>p.cancel(msg); return { config: null, method: 'cancelled' }\<close>.\<close>

definition cancelled :: "string \<Rightarrow> state \<Rightarrow> (error + SetupResult) \<times> state" where
  "cancelled msg st = (Inr (None, Cancelled), say CancelMsg msg st)"

text \<open>
  The three flows end with the same prompts: the check that a package manager exists,
  the choice of the package manager (with \<open>getDefaultPackageManager()\<close> as initial value)
  and the port. The result is \<open>None\<close> when the flow ends there without a configuration.
\<close>

definition pm_of :: "string \<Rightarrow> PackageManager" where
  "pm_of v = (if v = ''pnpm'' then pnpm else if v = ''bun'' then bun else npm)"

definition trailing_prompts ::
  "world \<Rightarrow> state \<Rightarrow> (error + (PackageManager \<times> int option) option) \<times> state" where
  "trailing_prompts w st =
     (let availablePackageManagers = getAvailablePackageManagers w in
      if availablePackageManagers = []
      then (Inr None, say CancelMsg ''No package manager found. Please install npm, pnpm, or bun.'' st)
      else
        case getDefaultPackageManager w of
          Inl e \<Rightarrow> (Inl e, st)
        | Inr initialValue \<Rightarrow>
            (case select_prompt (map (\<lambda>option. pm_name (opt_value option)) availablePackageManagers) st of
               (None, st1) \<Rightarrow> (Inr None, say CancelMsg ''Operation cancelled'' st1)
             | (Some chosen, st1) \<Rightarrow>
                 (case text_prompt (validatePort w) st1 of
                    (None, st2) \<Rightarrow> (Inr None, say CancelMsg ''Operation cancelled'' st2)
                  | (Some portInput, st2) \<Rightarrow>
                      (Inr (Some (pm_of chosen, parse_int w portInput)), st2))))"

text \<open>\<open>collectProjectInfo(initialProjectName?)\<close>: the manual-credentials path.\<close>

definition collectProjectInfo ::
  "world \<Rightarrow> string option \<Rightarrow> state \<Rightarrow> (error + ProjectConfig option) \<times> state" where
  "collectProjectInfo w initialProjectName st =
     (case text_prompt validateManualName (say Note ''Setup Guide'' st) of
        (None, st1) \<Rightarrow> (Inr None, say CancelMsg ''Operation cancelled'' st1)
      | (Some nameInput, st1) \<Rightarrow>
     (case text_prompt validateUrl st1 of
        (None, st2) \<Rightarrow> (Inr None, say CancelMsg ''Operation cancelled'' st2)
      | (Some urlInput, st2) \<Rightarrow>
     (case text_prompt validateAnonKey st2 of
        (None, st3) \<Rightarrow> (Inr None, say CancelMsg ''Operation cancelled'' st3)
      | (Some anonInput, st3) \<Rightarrow>
     (case text_prompt validateServiceKey st3 of
        (None, st4) \<Rightarrow> (Inr None, say CancelMsg ''Operation cancelled'' st4)
      | (Some serviceInput, st4) \<Rightarrow>
     (case trailing_prompts w st4 of
        (Inl e, st5) \<Rightarrow> (Inl e, st5)
      | (Inr None, st5) \<Rightarrow> (Inr None, st5)
      | (Inr (Some (pm, prt)), st5) \<Rightarrow>
          (Inr (Some \<lparr>projectName = trim nameInput,
                      supabaseUrl = urlInput,
                      supabaseAnonKey = anonInput,
                      supabaseServiceKey = serviceInput,
                      targetDir = resolve_path w (trim nameInput),
                      packageManager = pm,
                      port = prt,
                      dbPassword = None\<rparr>), st5))))))"

text \<open>
  \<open>handleProjectCreation(initialProjectName?)\<close>, from its end to its start:
  \<open>hpc_finish\<close> are the trailing prompts and the configuration, \<open>hpc_create\<close> creates the
  project, waits for it and fetches the credentials, \<open>hpc_duplicate\<close> is the check for a
  duplicate project name, \<open>hpc_details\<close> asks for region and password and \<open>hpc_orgs\<close>
  loads and selects the organization.
\<close>

definition hpc_finish ::
  "world \<Rightarrow> string \<Rightarrow> ProjectCredentials \<Rightarrow> string option \<Rightarrow> state
     \<Rightarrow> (error + SetupResult) \<times> state" where
  "hpc_finish w nameInput credentials password st =
     (case trailing_prompts w st of
        (Inl e, st1) \<Rightarrow> (Inl e, st1)
      | (Inr None, st1) \<Rightarrow> (Inr (None, Cancelled), st1)
      | (Inr (Some (pm, prt)), st1) \<Rightarrow>
          (Inr (Some \<lparr>projectName = nameInput,
                      supabaseUrl = cred_url credentials,
                      supabaseAnonKey = anonKey credentials,
                      supabaseServiceKey = serviceKey credentials,
                      targetDir = resolve_path w nameInput,
                      packageManager = pm,
                      port = prt,
                      dbPassword = password\<rparr>, CliAuto), st1))"

definition hpc_create ::
  "world \<Rightarrow> string \<Rightarrow> string \<Rightarrow> string \<Rightarrow> string \<Rightarrow> state \<Rightarrow> (error + SetupResult) \<times> state" where
  "hpc_create w nameInput selectedOrgId regionChoice password st =
     (case supabase_createProject w nameInput selectedOrgId regionChoice password st of
        (Inl e, st1) \<Rightarrow> (Inl e, st1)
      | (Inr project, st1) \<Rightarrow>
          (case waitForProjectReady w (project_id project) (say SpinnerStop ''Project created!'' st1) of
             (False, st2) \<Rightarrow>
               (Inr (None, Cancelled),
                say LogWarn ''Project is still provisioning. You can check status at https://supabase.com/dashboard'' st2)
           | (True, st2) \<Rightarrow>
               (case getProjectCredentials w (project_id project) st2 of
                  (Inl e, st3) \<Rightarrow>
                    (Inl (Error (''Failed to get project credentials: '' @ message e)), st3)
                | (Inr credentials, st3) \<Rightarrow>
                    hpc_finish w nameInput credentials (Some password)
                      (say SpinnerStop ''Credentials retrieved!'' st3))))"

definition duplicate_of :: "string \<Rightarrow> SupabaseProject list \<Rightarrow> SupabaseProject option" where
  "duplicate_of nameInput existingProjects =
     find (\<lambda>p. toLowerCase (project_name p) = toLowerCase nameInput) existingProjects"

definition hpc_duplicate ::
  "world \<Rightarrow> string \<Rightarrow> string \<Rightarrow> string \<Rightarrow> string \<Rightarrow> state \<Rightarrow> (error + SetupResult) \<times> state" where
  "hpc_duplicate w nameInput selectedOrgId regionChoice password st =
     (case listProjects w st of
        (Inl e, st1) \<Rightarrow> (Inl e, st1)
      | (Inr existingProjects, st1) \<Rightarrow>
          (case duplicate_of nameInput existingProjects of
             Some duplicateProject \<Rightarrow>
               (Inr (None, Cancelled),
                say LogError (''A project named '' @ [CHR 0x22] @ nameInput @ [CHR 0x22] @
                              '' already exists in your organization.'') st1)
           | None \<Rightarrow> hpc_create w nameInput selectedOrgId regionChoice password st1))"

definition hpc_details ::
  "world \<Rightarrow> string \<Rightarrow> string \<Rightarrow> state \<Rightarrow> (error + SetupResult) \<times> state" where
  "hpc_details w nameInput selectedOrgId st =
     (case select_prompt getAvailableRegions st of
        (None, st1) \<Rightarrow> cancelled ''Operation cancelled'' st1
      | (Some regionChoice, st1) \<Rightarrow>
          (case text_prompt validatePassword st1 of
             (None, st2) \<Rightarrow> cancelled ''Operation cancelled'' st2
           | (Some password, st2) \<Rightarrow>
               hpc_duplicate w nameInput selectedOrgId regionChoice password st2))"

definition hpc_orgs :: "world \<Rightarrow> string \<Rightarrow> state \<Rightarrow> (error + SetupResult) \<times> state" where
  "hpc_orgs w nameInput st =
     (case getOrganizations w st of
        (Inl e, st1) \<Rightarrow> (Inl (Error ''Failed to fetch organizations''), st1)
      | (Inr orgs, st1) \<Rightarrow>
          (case orgs of
             [] \<Rightarrow>
               (case collectProjectInfo w (Some nameInput)
                       (say LogError ''No organizations found. Please create one at https://supabase.com'' st1) of
                  (Inl e, st2) \<Rightarrow> (Inl e, st2)
                | (Inr config, st2) \<Rightarrow> (Inr (config, Manual), st2))
           | [org] \<Rightarrow> hpc_details w nameInput (org_id org) st1
           | _ \<Rightarrow>
               (case select_prompt (map org_id orgs) st1 of
                  (None, st2) \<Rightarrow> cancelled ''Operation cancelled'' st2
                | (Some orgChoice, st2) \<Rightarrow> hpc_details w nameInput orgChoice st2)))"

definition handleProjectCreation ::
  "world \<Rightarrow> string option \<Rightarrow> state \<Rightarrow> (error + SetupResult) \<times> state" where
  "handleProjectCreation w initialProjectName st =
     (case text_prompt validateProjectName st of
        (None, st1) \<Rightarrow> cancelled ''Operation cancelled'' st1
      | (Some nameInput, st1) \<Rightarrow> hpc_orgs w nameInput st1)"

text \<open>\<open>handleExistingProject(initialProjectName?)\<close>.\<close>

definition hep_selected ::
  "world \<Rightarrow> string \<Rightarrow> string \<Rightarrow> state \<Rightarrow> (error + SetupResult) \<times> state" where
  "hep_selected w nameInput selectedProjectId st =
     (case getProjectCredentials w selectedProjectId st of
        (Inl e, st1) \<Rightarrow> (Inl (Error (''Failed to get project credentials: '' @ message e)), st1)
      | (Inr credentials, st1) \<Rightarrow> hpc_finish w nameInput credentials None st1)"

definition hep_projects ::
  "world \<Rightarrow> string \<Rightarrow> state \<Rightarrow> (error + SetupResult) \<times> state" where
  "hep_projects w nameInput st =
     (case listProjects w st of
        (Inl e, st1) \<Rightarrow> (Inl (Error ''Failed to fetch projects''), st1)
      | (Inr projects, st1) \<Rightarrow>
          if projects = [] then
            (case select_prompt [''create'', ''manual'', ''cancel'']
                    (say LogWarn ''No projects found. Create one at https://supabase.com'' st1) of
               (None, st2) \<Rightarrow> cancelled ''Setup cancelled'' st2
             | (Some fallbackChoice, st2) \<Rightarrow>
                 if fallbackChoice = ''cancel'' then cancelled ''Setup cancelled'' st2
                 else if fallbackChoice = ''create'' then handleProjectCreation w (Some nameInput) st2
                 else
                   (case collectProjectInfo w (Some nameInput) st2 of
                      (Inl e, st3) \<Rightarrow> (Inl e, st3)
                    | (Inr config, st3) \<Rightarrow> (Inr (config, Manual), st3)))
          else
            (case select_prompt (map project_id projects) st1 of
               (None, st2) \<Rightarrow> cancelled ''Operation cancelled'' st2
             | (Some projectChoice, st2) \<Rightarrow> hep_selected w nameInput projectChoice st2))"

definition handleExistingProject ::
  "world \<Rightarrow> string option \<Rightarrow> state \<Rightarrow> (error + SetupResult) \<times> state" where
  "handleExistingProject w initialProjectName st =
     (case text_prompt validateProjectName st of
        (None, st1) \<Rightarrow> cancelled ''Operation cancelled'' st1
      | (Some nameInput, st1) \<Rightarrow> hep_projects w nameInput st1)"

text \<open>
  \<open>setupWithSupabaseCLI(projectName?)\<close>. One pass through its body is \<open>setup_pass\<close>,
  which ends with \<open>Finished\<close> and the value returned or thrown, or with \<open>Retry\<close> at the
  two places where the source returns \<open>await setupWithSupabaseCLI(projectName)\<close>. The
  steps are, from the last to the first: \<open>setup_branch\<close> (step 4 with its \<open>catch\<close>),
  \<open>setup_mode\<close> (step 3), \<open>setup_auth\<close> (step 2), \<open>setup_cli\<close> (step 1) and the check of
  the directory.
\<close>

datatype flow = Finished "error + SetupResult" | Retry

definition manual_path :: "world \<Rightarrow> string option \<Rightarrow> state \<Rightarrow> flow \<times> state" where
  "manual_path w nameArg st =
     (case collectProjectInfo w nameArg st of
        (Inl e, st1) \<Rightarrow> (Finished (Inl e), st1)
      | (Inr config, st1) \<Rightarrow> (Finished (Inr (config, Manual)), st1))"

definition cancel_flow :: "string \<Rightarrow> state \<Rightarrow> flow \<times> state" where
  "cancel_flow msg st = (Finished (Inr (None, Cancelled)), say CancelMsg msg st)"

definition isProjectLimitError :: "string \<Rightarrow> bool" where
  "isProjectLimitError errorMessage =
     (str_includes errorMessage ''maximum limits'' \<or>
      str_includes errorMessage ''project limit'' \<or>
      str_includes errorMessage ''free projects'')"

definition setup_branch :: "world \<Rightarrow> string option \<Rightarrow> string \<Rightarrow> state \<Rightarrow> flow \<times> state" where
  "setup_branch w nameArg setupChoice st =
     (case (if setupChoice = ''create'' then handleProjectCreation w nameArg st
            else handleExistingProject w nameArg st) of
        (Inr result, st1) \<Rightarrow> (Finished (Inr result), st1)
      | (Inl e, st1) \<Rightarrow>
          if isProjectLimitError (message e) then
            (case confirm_prompt (say Note ''Action Required'' (say LogError ''Project limit reached'' st1)) of
               (Some True, st2) \<Rightarrow> (Retry, st2)
             | (_, st2) \<Rightarrow> cancel_flow ''Setup cancelled'' st2)
          else
            (case select_prompt [''manual'', ''cancel'']
                    (say LogError (''Error: '' @ message e) st1) of
               (None, st2) \<Rightarrow> cancel_flow ''Setup cancelled'' st2
             | (Some fallbackChoice, st2) \<Rightarrow>
                 if fallbackChoice = ''cancel'' then cancel_flow ''Setup cancelled'' st2
                 else manual_path w nameArg st2))"

definition setup_mode :: "world \<Rightarrow> string option \<Rightarrow> state \<Rightarrow> flow \<times> state" where
  "setup_mode w nameArg st =
     (case select_prompt [''create'', ''existing'', ''manual''] st of
        (None, st1) \<Rightarrow> cancel_flow ''Operation cancelled'' st1
      | (Some setupChoice, st1) \<Rightarrow>
          if setupChoice = ''manual'' then manual_path w nameArg st1
          else setup_branch w nameArg setupChoice st1)"

definition setup_login_failed :: "world \<Rightarrow> string option \<Rightarrow> state \<Rightarrow> flow \<times> state" where
  "setup_login_failed w nameArg st =
     (case select_prompt [''retry'', ''manual'', ''cancel''] (say LogError ''Login failed'' st) of
        (None, st1) \<Rightarrow> cancel_flow ''Setup cancelled'' st1
      | (Some retryChoice, st1) \<Rightarrow>
          if retryChoice = ''cancel'' then cancel_flow ''Setup cancelled'' st1
          else if retryChoice = ''retry'' then
            (case login w st1 of
               (False, st2) \<Rightarrow> manual_path w nameArg (say LogError ''Login failed again'' st2)
             | (True, st2) \<Rightarrow> setup_mode w nameArg st2)
          else manual_path w nameArg st1)"

definition setup_auth :: "world \<Rightarrow> string option \<Rightarrow> state \<Rightarrow> flow \<times> state" where
  "setup_auth w nameArg st =
     (case isAuthenticated w st of
        (True, st1) \<Rightarrow> setup_mode w nameArg st1
      | (False, st1) \<Rightarrow>
          (case select_prompt [''login'', ''manual'', ''cancel''] st1 of
             (None, st2) \<Rightarrow> cancel_flow ''Operation cancelled'' st2
           | (Some authChoice, st2) \<Rightarrow>
               if authChoice = ''cancel'' then cancel_flow ''Setup cancelled'' st2
               else if authChoice = ''manual'' then manual_path w nameArg st2
               else
                 (case login w st2 of
                    (False, st3) \<Rightarrow> setup_login_failed w nameArg st3
                  | (True, st3) \<Rightarrow> setup_mode w nameArg st3)))"

definition setup_install_failed :: "world \<Rightarrow> string option \<Rightarrow> state \<Rightarrow> flow \<times> state" where
  "setup_install_failed w nameArg st =
     (case select_prompt [''install'', ''manual'', ''cancel'']
             (say LogError ''Failed to install Supabase CLI'' st) of
        (None, st1) \<Rightarrow> cancel_flow ''Setup cancelled'' st1
      | (Some fallbackChoice, st1) \<Rightarrow>
          if fallbackChoice = ''cancel'' then cancel_flow ''Setup cancelled'' st1
          else if fallbackChoice = ''install'' then
            (case installCLIManual w st1 of
               (False, st2) \<Rightarrow> (Retry, say LogError ''Installation failed'' st2)
             | (True, st2) \<Rightarrow>
                 (case hasSupabaseCLI w st2 of
                    (False, st3) \<Rightarrow> (Retry, say LogError ''Installation failed'' st3)
                  | (True, st3) \<Rightarrow> setup_auth w nameArg st3))
          else manual_path w nameArg st1)"

definition setup_cli :: "world \<Rightarrow> string option \<Rightarrow> state \<Rightarrow> flow \<times> state" where
  "setup_cli w nameArg st =
     (case hasSupabaseCLI w st of
        (True, st1) \<Rightarrow> setup_auth w nameArg st1
      | (False, st1) \<Rightarrow>
          (case select_prompt [''install'', ''manual'', ''cancel''] st1 of
             (None, st2) \<Rightarrow> cancel_flow ''Operation cancelled'' st2
           | (Some installChoice, st2) \<Rightarrow>
               if installChoice = ''cancel'' then cancel_flow ''Setup cancelled'' st2
               else if installChoice = ''manual'' then manual_path w nameArg st2
               else
                 (case installCLI w st2 of
                    (False, st3) \<Rightarrow> setup_install_failed w nameArg st3
                  | (True, st3) \<Rightarrow> setup_auth w nameArg st3)))"

definition setup_pass :: "world \<Rightarrow> string option \<Rightarrow> state \<Rightarrow> flow \<times> state" where
  "setup_pass w nameArg st =
     (case nameArg of
        None \<Rightarrow> setup_cli w nameArg st
      | Some n \<Rightarrow>
          if n \<noteq> [] \<and> exists_dir w (resolve_path w n) then
            (case confirm_prompt st of
               (Some True, st1) \<Rightarrow> setup_cli w nameArg st1
             | (_, st1) \<Rightarrow> cancel_flow ''Operation cancelled'' st1)
          else setup_cli w nameArg st)"

section \<open>Traces\<close>

text \<open>
  \<open>adds P st st'\<close>: the trace of \<open>st'\<close> is the trace of \<open>st\<close> followed by events that all
  satisfy \<open>P\<close>.
\<close>

definition adds :: "(event \<Rightarrow> bool) \<Rightarrow> state \<Rightarrow> state \<Rightarrow> bool" where
  "adds P st st' = (\<exists>evs. trace st' = trace st @ evs \<and> list_all P evs)"

text \<open>
  Events of the flows: \<open>is_create\<close> recognizes the project-creation command,
  \<open>plain\<close> events are commands other than that one, waits and messages, and a
  \<open>guarded\<close> event is plain or a creation command whose name argument is valid.
  \<open>evolves P st st'\<close>: from \<open>st\<close> to \<open>st'\<close> only events satisfying \<open>P\<close> were added and
  no answer was put back into the script.
\<close>

definition is_create :: "event \<Rightarrow> bool" where
  "is_create e = (case e of Spawn cmd \<Rightarrow> take 3 cmd = [''supabase'', ''projects'', ''create''] | _ \<Rightarrow> False)"

definition flow_event :: "event \<Rightarrow> bool" where
  "flow_event e = (case e of Spawn cmd \<Rightarrow> True | Sleep n \<Rightarrow> True | Say ch m \<Rightarrow> True | _ \<Rightarrow> False)"

definition plain :: "event \<Rightarrow> bool" where
  "plain e = (flow_event e \<and> \<not> is_create e)"

definition guarded :: "event \<Rightarrow> bool" where
  "guarded e =
     (flow_event e \<and>
      (is_create e \<longrightarrow> (case e of Spawn cmd \<Rightarrow> valid_name (cmd ! 3) | _ \<Rightarrow> False)))"

definition evolves :: "(event \<Rightarrow> bool) \<Rightarrow> state \<Rightarrow> state \<Rightarrow> bool" where
  "evolves P st st' = (adds P st st' \<and> length (script st') \<le> length (script st))"

definition admits :: "(event \<Rightarrow> bool) \<Rightarrow> bool" where
  "admits P = (\<forall>e. plain e \<longrightarrow> P e)"

definition says :: "(event \<Rightarrow> bool) \<Rightarrow> bool" where
  "says P = (\<forall>ch m. P (Say ch m))"

definition shorter :: "state \<Rightarrow> state \<Rightarrow> bool" where
  "shorter st0 st = (length (script st) < length (script st0))"

definition shrinks :: "state \<Rightarrow> flow \<times> state \<Rightarrow> bool" where
  "shrinks st0 r = (fst r = Retry \<longrightarrow> shorter st0 (snd r))"

section \<open>The flows add flow events and use up the script\<close>

text \<open>
  These facts come before \<open>setupWithSupabaseCLI\<close> because its termination rests on
  them: a pass that ends in \<open>Retry\<close> has taken at least one answer from the script.
\<close>

lemma adds_refl [simp]: "adds P st st"
  by (simp add: adds_def)

lemma adds_trans: "adds P st st1 \<Longrightarrow> adds P st1 st2 \<Longrightarrow> adds P st st2"
  by (auto simp: adds_def)

lemma adds_weaken: "adds P st st' \<Longrightarrow> (\<And>e. P e \<Longrightarrow> Q e) \<Longrightarrow> adds Q st st'"
  by (auto simp: adds_def list_all_iff)

lemma adds_emit: "P e \<Longrightarrow> adds P st (emit e st)"
  by (simp add: adds_def emit_def)

lemma adds_emit_after: "adds P st st1 \<Longrightarrow> P e \<Longrightarrow> adds P st (emit e st1)"
  by (auto simp: adds_def emit_def)

lemma adds_say_after: "adds P st st1 \<Longrightarrow> P (Say ch m) \<Longrightarrow> adds P st (say ch m st1)"
  by (simp add: say_def adds_emit_after)

lemma adds_spawn: "spawn w cmd st = (r, st1) \<Longrightarrow> P (Spawn cmd) \<Longrightarrow> adds P st st1"
  by (auto simp: spawn_def adds_emit)

lemma adds_mem: "adds P st st' \<Longrightarrow> e \<in> set (trace st') \<Longrightarrow> e \<in> set (trace st) \<or> P e"
  by (auto simp: adds_def list_all_iff)

lemma adds_keeps: "adds P st st' \<Longrightarrow> e \<in> set (trace st) \<Longrightarrow> e \<in> set (trace st')"
  by (auto simp: adds_def)

lemma evolves_refl [simp]: "evolves P st st"
  by (simp add: evolves_def)

lemma evolves_trans: "evolves P st st1 \<Longrightarrow> evolves P st1 st2 \<Longrightarrow> evolves P st st2"
  by (auto simp: evolves_def intro: adds_trans)

lemma evolves_weaken: "evolves P st st' \<Longrightarrow> (\<And>e. P e \<Longrightarrow> Q e) \<Longrightarrow> evolves Q st st'"
  by (auto simp: evolves_def intro: adds_weaken)

lemma plain_guarded: "plain e \<Longrightarrow> guarded e"
  by (simp add: plain_def guarded_def)

lemma evolves_plain_guarded: "evolves plain st st' \<Longrightarrow> evolves guarded st st'"
  by (erule evolves_weaken) (rule plain_guarded)

lemma evolves_emit: "P e \<Longrightarrow> evolves P st (emit e st)"
  by (simp add: evolves_def adds_def emit_def)

lemma evolves_say: "P (Say ch m) \<Longrightarrow> evolves P st (say ch m st)"
  by (simp add: say_def evolves_emit)

lemma plain_say [simp]: "plain (Say ch m)"
  by (simp add: plain_def flow_event_def is_create_def)

lemma plain_sleep [simp]: "plain (Sleep n)"
  by (simp add: plain_def flow_event_def is_create_def)

lemma plain_spawn: "take 3 cmd \<noteq> [''supabase'', ''projects'', ''create''] \<Longrightarrow> plain (Spawn cmd)"
  by (simp add: plain_def flow_event_def is_create_def)

lemma evolves_spawn: "P (Spawn cmd) \<Longrightarrow> evolves P st (snd (spawn w cmd st))"
  by (simp add: spawn_def evolves_def adds_def emit_def)

lemma ask_text_length: "length (snd (ask_text v xs)) \<le> length xs"
  by (induction v xs rule: ask_text.induct) (auto split: option.splits)

lemma ask_text_shorter: "fst (ask_text v xs) = Some x \<Longrightarrow> length (snd (ask_text v xs)) < length xs"
  by (induction v xs rule: ask_text.induct) (auto split: option.splits simp: less_Suc_eq_le)

lemma ask_text_valid: "fst (ask_text v xs) = Some x \<Longrightarrow> v x = None"
  by (induction v xs rule: ask_text.induct) (auto split: option.splits)

lemma ask_confirm_length: "length (snd (ask_confirm xs)) \<le> length xs"
  by (induction xs rule: ask_confirm.induct) auto

lemma ask_confirm_shorter: "fst (ask_confirm xs) = Some b \<Longrightarrow> length (snd (ask_confirm xs)) < length xs"
  by (induction xs rule: ask_confirm.induct) (auto simp: less_Suc_eq_le)

lemma text_prompt_evolves: "evolves P st (snd (text_prompt v st))"
  by (simp add: text_prompt_def case_prod_unfold Let_def evolves_def adds_def ask_text_length)

lemma text_prompt_shorter:
  "text_prompt v st = (Some x, st') \<Longrightarrow> length (script st') < length (script st)"
  using ask_text_shorter[of v "script st" x]
  by (auto simp: text_prompt_def case_prod_unfold Let_def)

lemma text_prompt_valid: "text_prompt v st = (Some x, st') \<Longrightarrow> v x = None"
  using ask_text_valid[of v "script st" x]
  by (auto simp: text_prompt_def case_prod_unfold Let_def)

lemma select_prompt_evolves: "evolves P st (snd (select_prompt opts st))"
  by (simp add: select_prompt_def text_prompt_evolves)

lemma select_prompt_shorter:
  "select_prompt opts st = (Some x, st') \<Longrightarrow> length (script st') < length (script st)"
  unfolding select_prompt_def by (rule text_prompt_shorter)

lemma confirm_prompt_evolves: "evolves P st (snd (confirm_prompt st))"
  by (simp add: confirm_prompt_def case_prod_unfold Let_def evolves_def adds_def ask_confirm_length)

lemma confirm_prompt_shorter:
  "confirm_prompt st = (Some b, st') \<Longrightarrow> length (script st') < length (script st)"
  using ask_confirm_shorter[of "script st" b]
  by (auto simp: confirm_prompt_def case_prod_unfold Let_def)

lemma hasSupabaseCLI_plain: "evolves plain st (snd (hasSupabaseCLI w st))"
  by (simp add: hasSupabaseCLI_def case_prod_unfold Let_def evolves_spawn plain_spawn)

lemma isAuthenticated_plain: "evolves plain st (snd (isAuthenticated w st))"
  by (simp add: isAuthenticated_def case_prod_unfold Let_def evolves_spawn plain_spawn)

lemma login_plain: "evolves plain st (snd (login w st))"
  by (simp add: login_def case_prod_unfold Let_def evolves_spawn plain_spawn)

lemma run_installer_plain:
  "take 3 cmd \<noteq> [''supabase'', ''projects'', ''create''] \<Longrightarrow>
     evolves plain st (snd (run_installer w cmd st))"
  by (simp add: run_installer_def case_prod_unfold Let_def evolves_spawn plain_spawn)

lemma installViaWindows_plain: "evolves plain st (snd (installViaWindows w st))"
  by (simp add: installViaWindows_def run_installer_plain)

lemma installCLIManual_plain: "evolves plain st (snd (installCLIManual w st))"
  by (cases "detectOS w")
     (simp_all add: installCLIManual_def installViaBrew_def installViaDirectDownload_def
        installViaWindows_plain run_installer_plain)

lemma installCLI_plain: "evolves plain st (snd (installCLI w st))"
proof (cases "detectOS w")
  case macos
  have a: "evolves plain st (snd (spawn w [''which'', ''brew''] st))"
    by (simp add: evolves_spawn plain_spawn)
  have b: "evolves plain s (snd (run_installer w [''brew'', ''install'', ''supabase/tap/supabase''] s))" for s
    by (simp add: run_installer_plain)
  have c: "evolves plain s (say LogError m s)" for s m
    by (simp add: evolves_say)
  from macos show ?thesis
    by (auto simp: installCLI_def case_prod_unfold Let_def intro: evolves_trans[OF a b] evolves_trans[OF a c])
next
  case linux
  have a: "evolves plain st (snd (spawn w [''sh'', ''-c'', linux_install_script] st))"
    by (simp add: evolves_spawn plain_spawn)
  have c: "evolves plain s (say LogError m (say LogError m' s))" for s m m'
    by (rule evolves_trans[OF evolves_say evolves_say]) simp_all
  from linux show ?thesis
    by (auto simp: installCLI_def case_prod_unfold Let_def intro: a evolves_trans[OF a c])
next
  case windows
  then show ?thesis by (simp add: installCLI_def installViaWindows_plain)
next
  case unknown
  then show ?thesis by (simp add: installCLI_def evolves_say)
qed

lemma getOrganizations_plain: "evolves plain st (snd (getOrganizations w st))"
proof -
  have a: "evolves plain st (snd (spawn w orgs_list_cmd st))"
    by (simp add: evolves_spawn plain_spawn orgs_list_cmd_def)
  then show ?thesis
    by (auto simp: getOrganizations_def case_prod_unfold Let_def split: json.splits)
qed

lemma listProjects_plain: "evolves plain st (snd (listProjects w st))"
proof -
  have a: "evolves plain st (snd (spawn w projects_list_cmd st))"
    by (simp add: evolves_spawn plain_spawn projects_list_cmd_def)
  then show ?thesis
    by (auto simp: listProjects_def case_prod_unfold Let_def split: json.splits)
qed

lemma getProjectCredentials_plain: "evolves plain st (snd (getProjectCredentials w ref st))"
proof -
  have a: "evolves plain st (snd (spawn w (api_keys_json_cmd ref) st))"
    by (simp add: evolves_spawn plain_spawn api_keys_json_cmd_def)
  then show ?thesis
    by (auto simp: getProjectCredentials_def case_prod_unfold Let_def split: json.splits)
qed

lemma readyLoop_plain: "evolves plain st (snd (readyLoop w ref n st))"
proof (induction w ref n st rule: readyLoop.induct)
  case (1 w projectRef checkCount st)
  let ?s0 = "emit (Sleep PROJECT_CHECK_INTERVAL_MS) st"
  let ?r = "spawn w (api_keys_cmd projectRef) ?s0"
  have a: "evolves plain st (snd ?r)"
    by (rule evolves_trans[OF evolves_emit evolves_spawn])
       (simp_all add: plain_spawn api_keys_cmd_def)
  have b: "evolves plain st (say ch m (snd ?r))" for ch m
    by (rule evolves_trans[OF a evolves_say]) simp
  show ?case
  proof (cases "status (fst ?r) = Some 0")
    case True
    then show ?thesis
      by (subst readyLoop.simps) (simp add: case_prod_unfold Let_def b)
  next
    case ns: False
    show ?thesis
    proof (cases "(checkCount + 1) * PROJECT_CHECK_INTERVAL_MS + check_lag w (checkCount + 1)
                    > MAX_PROJECT_WAIT_TIME_MS")
      case True
      with ns show ?thesis
        by (subst readyLoop.simps) (simp add: case_prod_unfold Let_def b)
    next
      case False
      have "evolves plain (snd ?r) (snd (readyLoop w projectRef (checkCount + 1) (snd ?r)))"
        by (rule "1.IH"[OF refl prod.collapse ns False])
      with a have "evolves plain st (snd (readyLoop w projectRef (checkCount + 1) (snd ?r)))"
        by (rule evolves_trans)
      with ns False show ?thesis
        by (subst readyLoop.simps) (simp add: case_prod_unfold Let_def)
    qed
  qed
qed

lemma waitForProjectReady_plain: "evolves plain st (snd (waitForProjectReady w ref st))"
  by (simp add: waitForProjectReady_def readyLoop_plain)



lemma admits_guarded [simp]: "admits guarded"
  by (simp add: admits_def plain_guarded)

lemma step_from:
  assumes "evolves plain st st'" and "admits P" and "evolves P st0 st"
  shows "evolves P st0 st'"
proof -
  from assms(1) have "evolves P st st'"
    by (rule evolves_weaken) (use assms(2) in \<open>simp add: admits_def\<close>)
  with assms(3) show ?thesis by (rule evolves_trans)
qed

lemma admits_says: "admits P \<Longrightarrow> says P"
  by (simp add: admits_def says_def)

lemma say_step: "says P \<Longrightarrow> evolves P st0 st \<Longrightarrow> evolves P st0 (say ch m st)"
  by (erule evolves_trans) (simp add: evolves_say says_def)

lemma text_prompt_step: "evolves P st0 st \<Longrightarrow> evolves P st0 (snd (text_prompt v st))"
  by (erule evolves_trans) (rule text_prompt_evolves)

lemma select_prompt_step: "evolves P st0 st \<Longrightarrow> evolves P st0 (snd (select_prompt opts st))"
  by (erule evolves_trans) (rule select_prompt_evolves)

lemma confirm_prompt_step: "evolves P st0 st \<Longrightarrow> evolves P st0 (snd (confirm_prompt st))"
  by (erule evolves_trans) (rule confirm_prompt_evolves)

lemmas plain_steps =
  step_from[OF hasSupabaseCLI_plain] step_from[OF isAuthenticated_plain]
  step_from[OF login_plain] step_from[OF installCLI_plain] step_from[OF installCLIManual_plain]
  step_from[OF getOrganizations_plain] step_from[OF listProjects_plain]
  step_from[OF getProjectCredentials_plain] step_from[OF waitForProjectReady_plain]
  say_step text_prompt_step select_prompt_step confirm_prompt_step admits_says

lemmas prompt_steps = say_step text_prompt_step select_prompt_step confirm_prompt_step

lemma ev_pair: "evolves P st0 b \<Longrightarrow> evolves P st0 (snd (a, b))"
  by simp

lemma ev_prod:
  "evolves P st0 (snd (f (fst p) (snd p))) \<Longrightarrow> evolves P st0 (snd (case p of (a, b) \<Rightarrow> f a b))"
  by (simp add: case_prod_unfold)

lemma ev_option:
  "(x = None \<Longrightarrow> evolves P st0 (snd a)) \<Longrightarrow> (\<And>y. x = Some y \<Longrightarrow> evolves P st0 (snd (f y))) \<Longrightarrow>
     evolves P st0 (snd (case x of None \<Rightarrow> a | Some y \<Rightarrow> f y))"
  by (cases x) auto

lemma ev_sum:
  "(\<And>e. x = Inl e \<Longrightarrow> evolves P st0 (snd (f e))) \<Longrightarrow>
   (\<And>y. x = Inr y \<Longrightarrow> evolves P st0 (snd (g y))) \<Longrightarrow>
     evolves P st0 (snd (case x of Inl e \<Rightarrow> f e | Inr y \<Rightarrow> g y))"
  by (cases x) auto

lemma ev_bool:
  "(x \<Longrightarrow> evolves P st0 (snd a)) \<Longrightarrow> (\<not> x \<Longrightarrow> evolves P st0 (snd b)) \<Longrightarrow>
     evolves P st0 (snd (case x of True \<Rightarrow> a | False \<Rightarrow> b))"
  by (cases x) auto

lemma ev_if:
  "(c \<Longrightarrow> evolves P st0 (snd a)) \<Longrightarrow> (\<not> c \<Longrightarrow> evolves P st0 (snd b)) \<Longrightarrow>
     evolves P st0 (snd (if c then a else b))"
  by simp

lemma ev_list:
  "(xs = [] \<Longrightarrow> evolves P st0 (snd a)) \<Longrightarrow>
   (\<And>y ys. xs = y # ys \<Longrightarrow> evolves P st0 (snd (f y ys))) \<Longrightarrow>
     evolves P st0 (snd (case xs of [] \<Rightarrow> a | y # ys \<Rightarrow> f y ys))"
  by (cases xs) auto

lemmas ev_cases = ev_pair ev_prod ev_option ev_sum ev_bool ev_if ev_list

lemma trailing_prompts_step:
  "says P \<Longrightarrow> evolves P st0 st \<Longrightarrow> evolves P st0 (snd (trailing_prompts w st))"
  unfolding trailing_prompts_def Let_def
  by (intro ev_cases prompt_steps; assumption)

lemma collectProjectInfo_step:
  "says P \<Longrightarrow> evolves P st0 st \<Longrightarrow> evolves P st0 (snd (collectProjectInfo w init st))"
  unfolding collectProjectInfo_def
  by (intro ev_cases prompt_steps trailing_prompts_step; assumption)

lemma guarded_create: "valid_name n \<Longrightarrow> guarded (Spawn (projects_create_cmd n org rgn pwd))"
  by (simp add: guarded_def flow_event_def is_create_def projects_create_cmd_def)

lemma supabase_createProject_step:
  assumes "valid_name n" and "evolves guarded st0 st"
  shows "evolves guarded st0 (snd (supabase_createProject w n org rgn pwd st))"
proof -
  have "evolves guarded st (snd (spawn w (projects_create_cmd n org rgn pwd) st))"
    by (rule evolves_spawn) (rule guarded_create[OF assms(1)])
  with assms(2) have "evolves guarded st0 (snd (spawn w (projects_create_cmd n org rgn pwd) st))"
    by (rule evolves_trans)
  then show ?thesis
    unfolding supabase_createProject_def Let_def
    by (intro ev_cases; assumption)
qed

lemma hpc_finish_step:
  "says P \<Longrightarrow> evolves P st0 st \<Longrightarrow> evolves P st0 (snd (hpc_finish w n c pwd st))"
  unfolding hpc_finish_def
  by (intro ev_cases trailing_prompts_step; assumption)

lemma hpc_create_step:
  "valid_name n \<Longrightarrow> evolves guarded st0 st \<Longrightarrow>
     evolves guarded st0 (snd (hpc_create w n org rgn pwd st))"
  unfolding hpc_create_def
  by (intro ev_cases plain_steps hpc_finish_step supabase_createProject_step admits_guarded;
      assumption)

lemma hpc_duplicate_step:
  "valid_name n \<Longrightarrow> evolves guarded st0 st \<Longrightarrow>
     evolves guarded st0 (snd (hpc_duplicate w n org rgn pwd st))"
  unfolding hpc_duplicate_def
  by (intro ev_cases plain_steps hpc_create_step admits_guarded; assumption)

lemma hpc_details_step:
  "valid_name n \<Longrightarrow> evolves guarded st0 st \<Longrightarrow>
     evolves guarded st0 (snd (hpc_details w n org st))"
  unfolding hpc_details_def cancelled_def
  by (intro ev_cases plain_steps hpc_duplicate_step admits_guarded; assumption)

lemma hpc_orgs_step:
  "valid_name n \<Longrightarrow> evolves guarded st0 st \<Longrightarrow> evolves guarded st0 (snd (hpc_orgs w n st))"
  unfolding hpc_orgs_def cancelled_def
  by (intro ev_cases plain_steps hpc_details_step collectProjectInfo_step admits_guarded;
      assumption)

lemma validateProjectName_valid: "validateProjectName v = None \<longleftrightarrow> valid_name v"
  by (auto simp: validateProjectName_def valid_name_def)

lemma prompted_name_valid:
  assumes "fst (text_prompt validateProjectName st) = Some n"
  shows "valid_name n"
proof -
  from assms have "text_prompt validateProjectName st =
      (Some n, snd (text_prompt validateProjectName st))"
    by (metis prod.collapse)
  then have "validateProjectName n = None" by (rule text_prompt_valid)
  then show ?thesis by (simp add: validateProjectName_valid)
qed

lemma handleProjectCreation_step:
  "evolves guarded st0 st \<Longrightarrow> evolves guarded st0 (snd (handleProjectCreation w init st))"
  unfolding handleProjectCreation_def cancelled_def
  by (intro ev_cases plain_steps hpc_orgs_step admits_guarded prompted_name_valid; assumption)

lemma hep_selected_step:
  "admits P \<Longrightarrow> evolves P st0 st \<Longrightarrow> evolves P st0 (snd (hep_selected w n pid st))"
  unfolding hep_selected_def
  by (intro ev_cases plain_steps hpc_finish_step; assumption)

lemma hep_projects_step:
  "evolves guarded st0 st \<Longrightarrow> evolves guarded st0 (snd (hep_projects w n st))"
  unfolding hep_projects_def cancelled_def
  by (intro ev_cases plain_steps hep_selected_step handleProjectCreation_step
        collectProjectInfo_step admits_guarded; assumption)

lemma handleExistingProject_step:
  "evolves guarded st0 st \<Longrightarrow> evolves guarded st0 (snd (handleExistingProject w init st))"
  unfolding handleExistingProject_def cancelled_def
  by (intro ev_cases plain_steps hep_projects_step admits_guarded; assumption)

lemma manual_path_step:
  "says P \<Longrightarrow> evolves P st0 st \<Longrightarrow> evolves P st0 (snd (manual_path w n st))"
  unfolding manual_path_def
  by (intro ev_cases collectProjectInfo_step; assumption)

lemma cancel_flow_step:
  "says P \<Longrightarrow> evolves P st0 st \<Longrightarrow> evolves P st0 (snd (cancel_flow m st))"
  by (simp add: cancel_flow_def say_step)

lemma setup_branch_step:
  "evolves guarded st0 st \<Longrightarrow> evolves guarded st0 (snd (setup_branch w n c st))"
  unfolding setup_branch_def
  by (intro ev_cases plain_steps manual_path_step cancel_flow_step
        handleProjectCreation_step handleExistingProject_step admits_guarded; assumption)

lemma setup_mode_step:
  "evolves guarded st0 st \<Longrightarrow> evolves guarded st0 (snd (setup_mode w n st))"
  unfolding setup_mode_def
  by (intro ev_cases plain_steps manual_path_step cancel_flow_step setup_branch_step
        admits_guarded; assumption)

lemma setup_login_failed_step:
  "evolves guarded st0 st \<Longrightarrow> evolves guarded st0 (snd (setup_login_failed w n st))"
  unfolding setup_login_failed_def
  by (intro ev_cases plain_steps manual_path_step cancel_flow_step setup_mode_step
        admits_guarded; assumption)

lemma setup_auth_step:
  "evolves guarded st0 st \<Longrightarrow> evolves guarded st0 (snd (setup_auth w n st))"
  unfolding setup_auth_def
  by (intro ev_cases plain_steps manual_path_step cancel_flow_step setup_mode_step
        setup_login_failed_step admits_guarded; assumption)

lemma setup_install_failed_step:
  "evolves guarded st0 st \<Longrightarrow> evolves guarded st0 (snd (setup_install_failed w n st))"
  unfolding setup_install_failed_def
  by (intro ev_cases plain_steps manual_path_step cancel_flow_step setup_auth_step
        admits_guarded; assumption)

lemma setup_cli_step:
  "evolves guarded st0 st \<Longrightarrow> evolves guarded st0 (snd (setup_cli w n st))"
  unfolding setup_cli_def
  by (intro ev_cases plain_steps manual_path_step cancel_flow_step setup_auth_step
        setup_install_failed_step admits_guarded; assumption)

lemma setup_pass_step:
  "evolves guarded st0 st \<Longrightarrow> evolves guarded st0 (snd (setup_pass w n st))"
  unfolding setup_pass_def
  by (intro ev_cases plain_steps cancel_flow_step setup_cli_step admits_guarded; assumption)


lemma sh_finished: "shrinks st0 (Finished x, s)"
  by (simp add: shrinks_def)

lemma sh_retry: "shorter st0 s \<Longrightarrow> shrinks st0 (Retry, s)"
  by (simp add: shrinks_def)

lemma sh_prod: "shrinks st0 (f (fst p) (snd p)) \<Longrightarrow> shrinks st0 (case p of (a, b) \<Rightarrow> f a b)"
  by (simp add: case_prod_unfold)

lemma sh_option:
  "(x = None \<Longrightarrow> shrinks st0 a) \<Longrightarrow> (\<And>y. x = Some y \<Longrightarrow> shrinks st0 (f y)) \<Longrightarrow>
     shrinks st0 (case x of None \<Rightarrow> a | Some y \<Rightarrow> f y)"
  by (cases x) auto

lemma sh_sum:
  "(\<And>e. x = Inl e \<Longrightarrow> shrinks st0 (f e)) \<Longrightarrow> (\<And>y. x = Inr y \<Longrightarrow> shrinks st0 (g y)) \<Longrightarrow>
     shrinks st0 (case x of Inl e \<Rightarrow> f e | Inr y \<Rightarrow> g y)"
  by (cases x) auto

lemma sh_bool:
  "(x \<Longrightarrow> shrinks st0 a) \<Longrightarrow> (\<not> x \<Longrightarrow> shrinks st0 b) \<Longrightarrow>
     shrinks st0 (case x of True \<Rightarrow> a | False \<Rightarrow> b)"
  by (cases x) auto

lemma sh_if:
  "(c \<Longrightarrow> shrinks st0 a) \<Longrightarrow> (\<not> c \<Longrightarrow> shrinks st0 b) \<Longrightarrow> shrinks st0 (if c then a else b)"
  by simp

lemmas sh_cases = sh_finished sh_prod sh_option sh_sum sh_bool sh_if

lemma shorter_from:
  "evolves P st st' \<Longrightarrow> shorter st0 st \<Longrightarrow> shorter st0 st'"
  by (simp add: evolves_def shorter_def)

lemma shorter_say: "shorter st0 st \<Longrightarrow> shorter st0 (say ch m st)"
  by (simp add: shorter_def say_def emit_def)

lemma shorter_select:
  assumes "fst (select_prompt opts st) = Some y" and "evolves guarded st0 st"
  shows "shorter st0 (snd (select_prompt opts st))"
proof -
  from assms(1) have "select_prompt opts st = (Some y, snd (select_prompt opts st))"
    by (metis prod.collapse)
  from select_prompt_shorter[OF this] assms(2) show ?thesis
    by (simp add: shorter_def evolves_def)
qed

lemma shorter_confirm:
  assumes "fst (confirm_prompt st) = Some y" and "evolves guarded st0 st"
  shows "shorter st0 (snd (confirm_prompt st))"
proof -
  from assms(1) have "confirm_prompt st = (Some y, snd (confirm_prompt st))"
    by (metis prod.collapse)
  from confirm_prompt_shorter[OF this] assms(2) show ?thesis
    by (simp add: shorter_def evolves_def)
qed

lemma manual_path_shrinks: "shrinks st0 (manual_path w n st)"
  unfolding manual_path_def by (intro sh_cases)

lemma cancel_flow_shrinks: "shrinks st0 (cancel_flow m st)"
  by (simp add: cancel_flow_def shrinks_def)

lemmas flow_steps =
  plain_steps manual_path_step cancel_flow_step handleProjectCreation_step
  handleExistingProject_step admits_guarded

lemma setup_branch_shrinks:
  "evolves guarded st0 st \<Longrightarrow> shrinks st0 (setup_branch w n c st)"
  unfolding setup_branch_def
  by (intro sh_cases manual_path_shrinks cancel_flow_shrinks sh_retry;
      (erule shorter_confirm)?; (intro flow_steps ev_if)?; assumption?)


lemma setup_mode_shrinks:
  "evolves guarded st0 st \<Longrightarrow> shrinks st0 (setup_mode w n st)"
  unfolding setup_mode_def
  by (intro sh_cases manual_path_shrinks cancel_flow_shrinks setup_branch_shrinks flow_steps;
      assumption)

lemma setup_login_failed_shrinks:
  "evolves guarded st0 st \<Longrightarrow> shrinks st0 (setup_login_failed w n st)"
  unfolding setup_login_failed_def
  by (intro sh_cases manual_path_shrinks cancel_flow_shrinks setup_mode_shrinks flow_steps;
      assumption)

lemma setup_auth_shrinks:
  "evolves guarded st0 st \<Longrightarrow> shrinks st0 (setup_auth w n st)"
  unfolding setup_auth_def
  by (intro sh_cases manual_path_shrinks cancel_flow_shrinks setup_mode_shrinks
        setup_login_failed_shrinks flow_steps; assumption)

lemma setup_install_failed_shrinks:
  "evolves guarded st0 st \<Longrightarrow> shrinks st0 (setup_install_failed w n st)"
  unfolding setup_install_failed_def
  by (intro sh_cases manual_path_shrinks cancel_flow_shrinks setup_auth_shrinks sh_retry
        shorter_say shorter_from[OF hasSupabaseCLI_plain] shorter_from[OF installCLIManual_plain];
      (erule shorter_select)?; (intro flow_steps)?; assumption?)

lemma setup_cli_shrinks:
  "evolves guarded st0 st \<Longrightarrow> shrinks st0 (setup_cli w n st)"
  unfolding setup_cli_def
  by (intro sh_cases manual_path_shrinks cancel_flow_shrinks setup_auth_shrinks
        setup_install_failed_shrinks flow_steps; assumption)

lemma setup_pass_shrinks:
  "evolves guarded st0 st \<Longrightarrow> shrinks st0 (setup_pass w n st)"
  unfolding setup_pass_def
  by (intro sh_cases cancel_flow_shrinks setup_cli_shrinks flow_steps; assumption)

lemma setup_pass_retry:
  "setup_pass w n st = (Retry, st') \<Longrightarrow> length (script st') < length (script st)"
  using setup_pass_shrinks[of st st w n] by (simp add: shrinks_def shorter_def)

section \<open>The setup loop and the entry point (setup-method.ts, cli.ts)\<close>

function setupWithSupabaseCLI ::
  "world \<Rightarrow> string option \<Rightarrow> state \<Rightarrow> (error + SetupResult) \<times> state" where
  "setupWithSupabaseCLI w nameArg st =
     (case setup_pass w nameArg st of
        (Finished r, st1) \<Rightarrow> (r, st1)
      | (Retry, st1) \<Rightarrow> setupWithSupabaseCLI w nameArg st1)"
  by pat_completeness auto
termination
  by (relation "measure (\<lambda>(w, n, st). length (script st))")
     (auto dest: setup_pass_retry[OF sym])

declare setupWithSupabaseCLI.simps [simp del]

text \<open>
  \<open>main()\<close> (cli.ts) and its \<open>catch\<close>: the exit status of the process and the final
  state. \<open>console.error('Error:', error)\<close> is recorded with the message of the error.
\<close>

definition main :: "world \<Rightarrow> string option \<Rightarrow> state \<Rightarrow> nat \<times> state" where
  "main w arg st =
     (case setupWithSupabaseCLI w (map_option trim arg) st of
        (Inl e, st1) \<Rightarrow> (1, say ConsoleError (''Error: '' @ message e) st1)
      | (Inr (None, method), st1) \<Rightarrow> (0, st1)
      | (Inr (Some config, method), st1) \<Rightarrow>
          (case createProject w config st1 of
             (Exited n, st2) \<Rightarrow> (n, st2)
           | (Thrown e, st2) \<Rightarrow> (1, say Outro (''Setup failed: '' @ message e) st2)
           | (Returned u, st2) \<Rightarrow> (0, say Outro ''Done'' st2)))"

section \<open>Sample hosts and inputs\<close>

text \<open>
  Concrete worlds, configurations and states on which the model is run: a host where
  every command succeeds, one where the first push meets a database that is still being
  provisioned, and one where \<open>supabase link\<close> fails.
\<close>

definition ok_result :: proc_result where
  "ok_result = \<lparr>status = Some 0, stdout = [], stderr = [], spawn_error = None\<rparr>"

definition failed :: "string \<Rightarrow> proc_result" where
  "failed msg = \<lparr>status = Some 1, stdout = [], stderr = msg, spawn_error = None\<rparr>"

definition sample_world :: world where
  "sample_world =
     \<lparr>platform = linux,
      which_status = (\<lambda>pm. Some 0),
      version_status = (\<lambda>pm. Some 0),
      run = (\<lambda>n cmd. ok_result),
      exists_dir = (\<lambda>d. False),
      resolve_path = (\<lambda>n. ''/work/'' @ n),
      copy_error = (\<lambda>d. None),
      patch_error = (\<lambda>d. None),
      write_error = (\<lambda>d f. None),
      migration_sql = (\<lambda>d. Inr ''create table t (id int);''),
      url_hostname = (\<lambda>u. if u = ''https://abcd.supabase.co'' then Some ''abcd.supabase.co'' else None),
      json_orgs = (\<lambda>s. JsonThrows),
      json_projects = (\<lambda>s. JsonThrows),
      json_project = (\<lambda>s. None),
      json_api_keys = (\<lambda>s. JsonThrows),
      json_error = (\<lambda>s. ''Unexpected end of JSON input''),
      check_lag = (\<lambda>k. 25),
      parse_int = (\<lambda>s. if s = ''3000'' then Some 3000 else None),
      create_client_error = (\<lambda>u k. None)\<rparr>"

definition provisioning_world :: world where
  "provisioning_world =
     sample_world\<lparr>run := (\<lambda>n cmd. if cmd = push_cmd \<and> n = 1
                                then failed ''FATAL: Tenant or user not found'' else ok_result)\<rparr>"

definition link_fail_world :: world where
  "link_fail_world =
     sample_world\<lparr>run := (\<lambda>n cmd. if take 2 cmd = [''supabase'', ''link'']
                                then failed ''cannot connect'' else ok_result)\<rparr>"

definition sample_config :: ProjectConfig where
  "sample_config =
     \<lparr>projectName = ''demo-app'',
      supabaseUrl = ''https://abcd.supabase.co'',
      supabaseAnonKey = ''anon-key'',
      supabaseServiceKey = ''service-key'',
      targetDir = ''/work/demo-app'',
      packageManager = npm,
      port = Some 3000,
      dbPassword = Some ''abcdefghijkl''\<rparr>"

definition start :: "answer list \<Rightarrow> state" where
  "start answers = \<lparr>script = answers, trace = []\<rparr>"

text \<open>Commands and waits.\<close>

definition is_cmd :: "event \<Rightarrow> bool" where
  "is_cmd e = (case e of Spawn c \<Rightarrow> True | Sleep n \<Rightarrow> True | _ \<Rightarrow> False)"

text \<open>What \<open>createProject\<close> does on the host where \<open>supabase link\<close> fails.\<close>

definition link_fail_trace :: "event list" where
  "link_fail_trace =
     [CopyTemplate ''/work/demo-app'',
      Say SpinnerStop ''Project directory created'',
      PatchPackageJson npm (Some 3000),
      WriteFile ''/work/demo-app'' EnvLocal (envContent ''https://abcd.supabase.co'' ''anon-key''),
      Say SpinnerStop ''Environment variables written'',
      Spawn [''supabase'', ''--version''],
      Spawn (link_cmd ''abcd'' ''abcdefghijkl''),
      Say SpinnerStop ''Database migrations require manual setup'',
      Say Note ''Manual Migration Required'',
      Spawn [''supabase'', ''--version''],
      Spawn (gen_types_cmd ''abcd''),
      Say SpinnerStop ''Types generation skipped (template includes placeholder)'',
      Say Note ''Type Generation'',
      Spawn [''npm'', ''install''],
      Say SpinnerStop ''Dependencies installed'',
      Say Note ''Security Note'']"

text \<open>
  An event is \<open>env_write_ok\<close> unless it writes \<open>.env.local\<close> somewhere else or with
  another content than \<open>envContent\<close> of the URL and the anonymous key.
\<close>

definition env_write_ok :: "ProjectConfig \<Rightarrow> event \<Rightarrow> bool" where
  "env_write_ok config e =
     (case e of
        WriteFile d f c \<Rightarrow>
          f = EnvLocal \<longrightarrow>
            d = targetDir config \<and> c = envContent (supabaseUrl config) (supabaseAnonKey config)
      | _ \<Rightarrow> True)"

text \<open>
  Whether a key occurs in one of the fixed comment lines, or in one of the two variable
  names, of the environment file; \<open>glue\<close> concatenates segments, each followed by its
  separator.
\<close>

definition inComments :: "string \<Rightarrow> bool" where
  "inComments k = list_ex (\<lambda>c. str_includes c k) commentLines"

definition inVariableNames :: "string \<Rightarrow> bool" where
  "inVariableNames k = list_ex (\<lambda>c. str_includes c k) variableNames"

fun glue :: "(string \<times> char) list \<Rightarrow> string" where
  "glue [] = []"
| "glue ((s, c) # rest) = s @ c # glue rest"

text \<open>A configuration whose service key is part of a variable name of the file.\<close>

definition label_key_config :: ProjectConfig where
  "label_key_config = sample_config\<lparr>supabaseServiceKey := ''NEXT_PUBLIC''\<rparr>"

text \<open>What \<open>createProject\<close> does on the host where every command succeeds.\<close>

definition sample_trace :: "event list" where
  "sample_trace =
     [CopyTemplate ''/work/demo-app'',
      Say SpinnerStop ''Project directory created'',
      PatchPackageJson npm (Some 3000),
      WriteFile ''/work/demo-app'' EnvLocal (envContent ''https://abcd.supabase.co'' ''anon-key''),
      Say SpinnerStop ''Environment variables written'',
      Spawn [''supabase'', ''--version''],
      Spawn (link_cmd ''abcd'' ''abcdefghijkl''),
      Spawn push_cmd,
      Say SpinnerStop ''Database migrations applied (CLI)'',
      Spawn [''supabase'', ''--version''],
      Spawn (gen_types_cmd ''abcd''),
      Say SpinnerStop ''Types generation skipped (template includes placeholder)'',
      Say Note ''Type Generation'',
      Spawn [''npm'', ''install''],
      Say SpinnerStop ''Dependencies installed'',
      Say Note ''Security Note'']"

text \<open>A host whose organization list is the empty JSON array.\<close>

definition empty_orgs_world :: world where
  "empty_orgs_world =
     sample_world\<lparr>run := (\<lambda>n cmd. ok_result\<lparr>stdout := ''[]'' @ [nl]\<rparr>),
                  json_orgs := (\<lambda>s. if s = ''[]'' then JsonArray [] else JsonThrows)\<rparr>"

text \<open>
  A host with an older CLI that prints the organization list as a table: a header, a
  separator and three rows.
\<close>

definition orgs_table :: string where
  "orgs_table =
     ''  ID                   | NAME'' @ [nl] @
     ''  ---------------------|----------------'' @ [nl] @
     ''  azoyksukebdkeaelzlfm | Growth Stories'' @ [nl] @
     ''  bcdefghjklmnopqrstuv | Video Lab'' @ [nl] @
     ''  cdefghjklmnopqrstuvw | Acme'' @ [nl]"

definition table_world :: world where
  "table_world = sample_world\<lparr>run := (\<lambda>n cmd. ok_result\<lparr>stdout := orgs_table\<rparr>)\<rparr>"

text \<open>
  \<open>included w option\<close>: the candidate passes the filter of the detector on this host.
\<close>

definition included :: "world \<Rightarrow> pm_option \<Rightarrow> bool" where
  "included w option =
     ((isWindows w \<and> opt_value option = npm) \<or> isPackageManagerInstalled w (opt_value option))"

text \<open>
  A host without any package manager; flow results without a configuration (\<open>nc\<close>,
  \<open>nci\<close> and \<open>ncf\<close> for the three result types); the event of copying the template.
\<close>

definition bare_world :: world where
  "bare_world = sample_world\<lparr>which_status := (\<lambda>pm. Some 1)\<rparr>"

text \<open>
  A host with one organization, one project and its two API keys, and the same host with
  a failing \<open>npm install\<close>.
\<close>

definition abcd_project :: SupabaseProject where
  "abcd_project =
     \<lparr>project_id = ''abcd'', project_name = ''Demo-App'', organization_id = ''org1'',
      project_region = ''us-east-1'', created_at = ''2025-01-01''\<rparr>"

definition ready_world :: world where
  "ready_world =
     sample_world
       \<lparr>json_orgs := (\<lambda>s. JsonArray [\<lparr>org_id = ''org1'', org_name = ''Acme''\<rparr>]),
        json_projects := (\<lambda>s. JsonArray [abcd_project]),
        json_api_keys := (\<lambda>s. JsonArray [\<lparr>key_name = ''anon'', api_key = ''anon-key''\<rparr>,
                                        \<lparr>key_name = ''service_role'', api_key = ''service-key''\<rparr>])\<rparr>"


definition existing_script :: "answer list" where
  "existing_script =
     [Input ''existing'', Input ''demo-app'', Input ''abcd'', Input ''npm'', Input ''3000'']"


definition existing_setup_trace :: "event list" where
  "existing_setup_trace =
     [Spawn [''supabase'', ''--version''],
      Spawn [''supabase'', ''projects'', ''list''],
      Spawn projects_list_cmd,
      Spawn (api_keys_json_cmd ''abcd'')]"

definition no_config :: "error + SetupResult \<Rightarrow> bool" where
  "no_config r = (case r of Inr (Some c, m) \<Rightarrow> False | _ \<Rightarrow> True)"

definition nc :: "(error + SetupResult) \<times> state \<Rightarrow> bool" where
  "nc r = no_config (fst r)"

definition nci :: "(error + ProjectConfig option) \<times> state \<Rightarrow> bool" where
  "nci r = (fst r = Inr None)"

definition ncf :: "flow \<times> state \<Rightarrow> bool" where
  "ncf r = (case fst r of Finished x \<Rightarrow> no_config x | Retry \<Rightarrow> True)"

definition copies :: "event \<Rightarrow> bool" where
  "copies e = (case e of CopyTemplate d \<Rightarrow> True | _ \<Rightarrow> False)"




definition named :: "(error + ProjectConfig option) \<times> state \<Rightarrow> bool" where
  "named r = (case fst r of Inr (Some c) \<Rightarrow> valid_name (projectName c) | _ \<Rightarrow> True)"






text \<open>
  The answers of a user who enters the credentials by hand and types a space before the
  project name, and the configuration that comes out.
\<close>

definition long_key :: string where
  "long_key = replicate 100 (CHR ''k'')"






text \<open>
  \<open>quiet r\<close>: the flow did not throw. \<open>quieti\<close> is the same for the manual path.
\<close>

definition quiet :: "flow \<times> state \<Rightarrow> bool" where
  "quiet r = (case fst r of Finished (Inl e) \<Rightarrow> False | _ \<Rightarrow> True)"

definition quieti :: "(error + ProjectConfig option) \<times> state \<Rightarrow> bool" where
  "quieti r = (case fst r of Inl e \<Rightarrow> False | _ \<Rightarrow> True)"

text \<open>
  A host with the platform CLI, one organization and one project, but without any
  package manager; the answers of a user who selects the existing project, and of a user
  who enters the credentials by hand.
\<close>

definition bare_ready_world :: world where
  "bare_ready_world = ready_world\<lparr>which_status := (\<lambda>pm. Some 1)\<rparr>"

definition select_script :: "answer list" where
  "select_script = [Input ''existing'', Input ''demo-app'', Input ''abcd'']"

definition by_hand_script :: "answer list" where
  "by_hand_script =
     [Input ''manual'', Input ''my-app'', Input ''https://abcd.supabase.co'', Input long_key,
      Input long_key]"

definition no_manager_message :: string where
  "no_manager_message = ''No package manager found. Please install npm, pnpm, or bun.''"

definition by_hand_trace :: "event list" where
  "by_hand_trace =
     [Spawn [''supabase'', ''--version''],
      Spawn [''supabase'', ''projects'', ''list''],
      Say Note ''Setup Guide'',
      Say CancelMsg no_manager_message]"

section \<open>Substrings across a separator\<close>

lemma prefix_sep:
  assumes "prefix k (c # b)" and "c \<notin> set k"
  shows "k = []"
  using assms by (cases k) auto

lemma sublist_sep:
  assumes "sublist k (a @ c # b)" and "c \<notin> set k"
  shows "sublist k a \<or> sublist k b"
proof -
  from assms(1) consider (l) "sublist k a" | (r) "sublist k (c # b)"
    | (m) k1 k2 where "k = k1 @ k2" "suffix k1 a" "prefix k2 (c # b)"
    by (auto simp: sublist_append)
  then show ?thesis
  proof cases
    case l
    then show ?thesis by simp
  next
    case r
    then have "prefix k (c # b) \<or> sublist k b"
      by (simp add: sublist_Cons_right)
    with assms(2) show ?thesis
      by (auto dest: prefix_sep)
  next
    case m
    from m(1) assms(2) have "c \<notin> set k2" by simp
    with m(3) have "k2 = []" by (rule prefix_sep)
    with m(1,2) show ?thesis by auto
  qed
qed

section \<open>Migration Applier: the CLI strategy\<close>

lemma hasSupabaseCLI_adds:
  "hasSupabaseCLI w st = (b, st1) \<Longrightarrow> adds (\<lambda>e. e = Spawn [''supabase'', ''--version'']) st st1"
  by (auto simp: hasSupabaseCLI_def spawn_def adds_def emit_def)

lemma viaCLI_link_fail:
  assumes "spawn w (link_cmd ref pw) st = (l, st1)" and "status l \<noteq> Some 0"
  shows "applyMigrationsViaCLI w dir ref pw r st = (Inl (Error ''Failed to link project''), st1)"
  using assms by (subst applyMigrationsViaCLI.simps) simp

lemma viaCLI_push_ok:
  assumes "spawn w (link_cmd ref pw) st = (l, st1)" and "status l = Some 0"
    and "spawn w push_cmd st1 = (p, st2)" and "status p = Some 0"
  shows "applyMigrationsViaCLI w dir ref pw r st = (Inr (), st2)"
  using assms by (subst applyMigrationsViaCLI.simps) simp

lemma viaCLI_retry:
  assumes "spawn w (link_cmd ref pw) st = (l, st1)" and "status l = Some 0"
    and "spawn w push_cmd st1 = (p, st2)" and "status p \<noteq> Some 0"
    and "isProvisioningIssue (stderr p)" and "r < MAX_MIGRATION_RETRIES"
  shows "applyMigrationsViaCLI w dir ref pw r st =
           applyMigrationsViaCLI w dir ref pw (r + 1)
             (emit (Sleep ((r + 1) * MIGRATION_RETRY_BASE_DELAY_MS)) st2)"
  using assms by (subst applyMigrationsViaCLI.simps) simp

lemma viaCLI_push_fail:
  assumes "spawn w (link_cmd ref pw) st = (l, st1)" and "status l = Some 0"
    and "spawn w push_cmd st1 = (p, st2)" and "status p \<noteq> Some 0"
    and "\<not> (isProvisioningIssue (stderr p) \<and> r < MAX_MIGRATION_RETRIES)"
  shows "applyMigrationsViaCLI w dir ref pw r st =
           (Inl (Error (''Migration push failed: '' @ stderr p)), st2)"
  using assms by (subst applyMigrationsViaCLI.simps) auto

lemma viaCLI_adds:
  "applyMigrationsViaCLI w dir ref pw r st = (res, st') \<Longrightarrow>
     adds (\<lambda>e. e = Spawn (link_cmd ref pw) \<or> e = Spawn push_cmd \<or> (\<exists>n. e = Sleep n)) st st'"
proof (induction w dir ref pw r st arbitrary: res st' rule: applyMigrationsViaCLI.induct)
  case (1 w targetDir projectRef dbPassword retryCount st)
  let ?P = "\<lambda>e. e = Spawn (link_cmd projectRef dbPassword) \<or> e = Spawn push_cmd \<or> (\<exists>n. e = Sleep n)"
  obtain l st1 where l: "spawn w (link_cmd projectRef dbPassword) st = (l, st1)"
    by (cases "spawn w (link_cmd projectRef dbPassword) st")
  obtain p st2 where p: "spawn w push_cmd st1 = (p, st2)"
    by (cases "spawn w push_cmd st1")
  have a1: "adds ?P st st1" using l by (rule adds_spawn) simp
  have a2: "adds ?P st1 st2" using p by (rule adds_spawn) simp
  have a12: "adds ?P st st2" using a1 a2 by (rule adds_trans)
  show ?case
  proof (cases "status l = Some 0")
    case False
    from viaCLI_link_fail[OF l False] "1.prems" have "st' = st1" by simp
    with a1 show ?thesis by simp
  next
    case lk: True
    show ?thesis
    proof (cases "status p = Some 0")
      case True
      from viaCLI_push_ok[OF l lk p True] "1.prems" have "st' = st2" by simp
      with a12 show ?thesis by simp
    next
      case pf: False
      show ?thesis
      proof (cases "isProvisioningIssue (stderr p) \<and> retryCount < MAX_MIGRATION_RETRIES")
        case False
        from viaCLI_push_fail[OF l lk p pf False] "1.prems" have "st' = st2" by simp
        with a12 show ?thesis by simp
      next
        case True
        let ?st3 = "emit (Sleep ((retryCount + 1) * MIGRATION_RETRY_BASE_DELAY_MS)) st2"
        from True have t1: "isProvisioningIssue (stderr p)" and t2: "retryCount < MAX_MIGRATION_RETRIES"
          by simp_all
        from viaCLI_retry[OF l lk p pf t1 t2] "1.prems"
        have rec: "applyMigrationsViaCLI w targetDir projectRef dbPassword (retryCount + 1) ?st3 = (res, st')"
          by simp
        have "adds ?P ?st3 st'"
          by (rule "1.IH"[OF l[symmetric] refl _ p[symmetric] refl _ _ refl rec]) (use lk pf True in simp_all)
        moreover have "adds ?P st ?st3" using a12 by (rule adds_emit_after) simp
        ultimately show ?thesis by (rule adds_trans[rotated])
      qed
    qed
  qed
qed


lemma viaCLI_begins_with_link:
  "\<exists>evs. trace (snd (applyMigrationsViaCLI w dir ref pw r st)) =
           trace st @ Spawn (link_cmd ref pw) # evs"
proof -
  let ?P = "\<lambda>e. e = Spawn (link_cmd ref pw) \<or> e = Spawn push_cmd \<or> (\<exists>n. e = Sleep n)"
  obtain res st' where run: "applyMigrationsViaCLI w dir ref pw r st = (res, st')"
    by (cases "applyMigrationsViaCLI w dir ref pw r st")
  obtain l st1 where l: "spawn w (link_cmd ref pw) st = (l, st1)"
    by (cases "spawn w (link_cmd ref pw) st")
  obtain p st2 where p: "spawn w push_cmd st1 = (p, st2)"
    by (cases "spawn w push_cmd st1")
  have st1: "trace st1 = trace st @ [Spawn (link_cmd ref pw)]"
    using l by (auto simp: spawn_def emit_def)
  have a2: "adds ?P st1 st2" using p by (rule adds_spawn) simp
  have "adds ?P st1 st'"
  proof (cases "status l = Some 0")
    case False
    from viaCLI_link_fail[OF l False] run have "st' = st1" by simp
    then show ?thesis by simp
  next
    case lk: True
    show ?thesis
    proof (cases "status p = Some 0")
      case True
      from viaCLI_push_ok[OF l lk p True] run have "st' = st2" by simp
      with a2 show ?thesis by simp
    next
      case pf: False
      show ?thesis
      proof (cases "isProvisioningIssue (stderr p) \<and> r < MAX_MIGRATION_RETRIES")
        case False
        from viaCLI_push_fail[OF l lk p pf False] run have "st' = st2" by simp
        with a2 show ?thesis by simp
      next
        case True
        let ?st3 = "emit (Sleep ((r + 1) * MIGRATION_RETRY_BASE_DELAY_MS)) st2"
        from True have t1: "isProvisioningIssue (stderr p)" and t2: "r < MAX_MIGRATION_RETRIES"
          by simp_all
        from viaCLI_retry[OF l lk p pf t1 t2] run
        have "applyMigrationsViaCLI w dir ref pw (r + 1) ?st3 = (res, st')" by simp
        then have "adds ?P ?st3 st'" by (rule viaCLI_adds)
        moreover have "adds ?P st1 ?st3" using a2 by (rule adds_emit_after) simp
        ultimately show ?thesis by (rule adds_trans[rotated])
      qed
    qed
  qed
  then obtain evs where "trace st' = trace st1 @ evs" by (auto simp: adds_def)
  with st1 run show ?thesis by simp
qed

text \<open>
  C2 (as amended). When the link has succeeded and the push has failed, the push is
  retried exactly when its stderr contains "Tenant or user not found" or "no route to
  host" and \<open>retryCount < 3\<close>; the retry waits \<open>(retryCount + 1) * 10000\<close> ms and then
  runs the whole CLI strategy again with \<open>retryCount + 1\<close>, which starts with the link
  command. Otherwise (any stderr at \<open>retryCount = 3\<close>, or a stderr without these
  substrings) the error "Migration push failed: " followed by the raw stderr is raised
  at once.
\<close>

theorem push_retry_policy:
  assumes "spawn w (link_cmd ref pw) st = (l, st1)" and "status l = Some 0"
    and "spawn w push_cmd st1 = (p, st2)" and "status p \<noteq> Some 0"
  shows "applyMigrationsViaCLI w dir ref pw retryCount st =
           (if (str_includes (stderr p) ''Tenant or user not found'' \<or>
                str_includes (stderr p) ''no route to host'') \<and> retryCount < 3
            then applyMigrationsViaCLI w dir ref pw (retryCount + 1)
                   (emit (Sleep ((retryCount + 1) * 10000)) st2)
            else (Inl (Error (''Migration push failed: '' @ stderr p)), st2))
         \<and> (\<exists>evs. trace (snd (applyMigrationsViaCLI w dir ref pw (retryCount + 1)
                                  (emit (Sleep ((retryCount + 1) * 10000)) st2))) =
                     trace st2 @ Sleep ((retryCount + 1) * 10000) # Spawn (link_cmd ref pw) # evs)"
proof
  show "applyMigrationsViaCLI w dir ref pw retryCount st =
           (if (str_includes (stderr p) ''Tenant or user not found'' \<or>
                str_includes (stderr p) ''no route to host'') \<and> retryCount < 3
            then applyMigrationsViaCLI w dir ref pw (retryCount + 1)
                   (emit (Sleep ((retryCount + 1) * 10000)) st2)
            else (Inl (Error (''Migration push failed: '' @ stderr p)), st2))"
  proof -
    have c: "((str_includes (stderr p) ''Tenant or user not found'' \<or>
               str_includes (stderr p) ''no route to host'') \<and> retryCount < 3) =
             (isProvisioningIssue (stderr p) \<and> retryCount < MAX_MIGRATION_RETRIES)"
      by (simp add: isProvisioningIssue_def MAX_MIGRATION_RETRIES_def)
    have d: "(retryCount + 1) * 10000 = (retryCount + 1) * MIGRATION_RETRY_BASE_DELAY_MS"
      by (simp add: MIGRATION_RETRY_BASE_DELAY_MS_def)
    show ?thesis
    proof (cases "isProvisioningIssue (stderr p) \<and> retryCount < MAX_MIGRATION_RETRIES")
      case True
      then have t1: "isProvisioningIssue (stderr p)" and t2: "retryCount < MAX_MIGRATION_RETRIES"
        by simp_all
      show ?thesis unfolding c d if_P[OF True]
        by (rule viaCLI_retry[OF assms t1 t2])
    next
      case False
      show ?thesis unfolding c d if_not_P[OF False]
        by (rule viaCLI_push_fail[OF assms False])
    qed
  qed
next
  from viaCLI_begins_with_link[of w dir ref pw "retryCount + 1"
         "emit (Sleep ((retryCount + 1) * 10000)) st2"]
  show "\<exists>evs. trace (snd (applyMigrationsViaCLI w dir ref pw (retryCount + 1)
                                  (emit (Sleep ((retryCount + 1) * 10000)) st2))) =
                     trace st2 @ Sleep ((retryCount + 1) * 10000) # Spawn (link_cmd ref pw) # evs"
    by (simp add: emit_def)
qed

theorem push_retry_policy_witness:
  "spawn provisioning_world (link_cmd ''abcd'' ''abcdefghijkl'') (start []) =
     (ok_result, \<lparr>script = [], trace = [Spawn (link_cmd ''abcd'' ''abcdefghijkl'')]\<rparr>)
   \<and> status ok_result = Some 0
   \<and> spawn provisioning_world push_cmd
        \<lparr>script = [], trace = [Spawn (link_cmd ''abcd'' ''abcdefghijkl'')]\<rparr> =
     (failed ''FATAL: Tenant or user not found'',
      \<lparr>script = [], trace = [Spawn (link_cmd ''abcd'' ''abcdefghijkl''), Spawn push_cmd]\<rparr>)
   \<and> status (failed ''FATAL: Tenant or user not found'') \<noteq> Some 0
   \<and> applyMigrationsViaCLI provisioning_world ''/work/demo-app'' ''abcd'' ''abcdefghijkl'' 0 (start []) =
       applyMigrationsViaCLI provisioning_world ''/work/demo-app'' ''abcd'' ''abcdefghijkl'' 1
         \<lparr>script = [], trace =
            [Spawn (link_cmd ''abcd'' ''abcdefghijkl''), Spawn push_cmd, Sleep 10000]\<rparr>"
proof -
  have h1: "spawn provisioning_world (link_cmd ''abcd'' ''abcdefghijkl'') (start []) =
     (ok_result, \<lparr>script = [], trace = [Spawn (link_cmd ''abcd'' ''abcdefghijkl'')]\<rparr>)"
    by (simp add: spawn_def emit_def start_def provisioning_world_def sample_world_def
          link_cmd_def push_cmd_def)
  have h2: "status ok_result = Some 0"
    by (simp add: ok_result_def)
  have h3: "spawn provisioning_world push_cmd
        \<lparr>script = [], trace = [Spawn (link_cmd ''abcd'' ''abcdefghijkl'')]\<rparr> =
     (failed ''FATAL: Tenant or user not found'',
      \<lparr>script = [], trace = [Spawn (link_cmd ''abcd'' ''abcdefghijkl''), Spawn push_cmd]\<rparr>)"
    by (simp add: spawn_def emit_def provisioning_world_def sample_world_def)
  have h4: "status (failed ''FATAL: Tenant or user not found'') \<noteq> Some 0"
    by (simp add: failed_def)
  have inc: "str_includes (stderr (failed ''FATAL: Tenant or user not found''))
               ''Tenant or user not found''"
    by (simp add: failed_def str_includes_def sublist_code(3))
  from push_retry_policy[OF h1 h2 h3 h4, of "''/work/demo-app''" 0] inc
  have "applyMigrationsViaCLI provisioning_world ''/work/demo-app'' ''abcd'' ''abcdefghijkl'' 0 (start []) =
       applyMigrationsViaCLI provisioning_world ''/work/demo-app'' ''abcd'' ''abcdefghijkl'' 1
         \<lparr>script = [], trace =
            [Spawn (link_cmd ''abcd'' ''abcdefghijkl''), Spawn push_cmd, Sleep 10000]\<rparr>"
    by (simp add: emit_def)
  with h1 h2 h3 h4 show ?thesis by simp
qed

text \<open>
  The claim as written says the retry does not repeat the link step. On a host whose
  first push fails with a provisioning message, the link command is started twice.
\<close>

theorem push_retry_relinks_counterexample:
  "applyMigrationsViaCLI provisioning_world ''/work/demo-app'' ''abcd'' ''abcdefghijkl'' 0 (start []) =
     (Inr (), \<lparr>script = [], trace =
        [Spawn (link_cmd ''abcd'' ''abcdefghijkl''), Spawn push_cmd, Sleep 10000,
         Spawn (link_cmd ''abcd'' ''abcdefghijkl''), Spawn push_cmd]\<rparr>)"
  by (simp add: applyMigrationsViaCLI.simps provisioning_world_def sample_world_def start_def
        spawn_def emit_def link_cmd_def push_cmd_def ok_result_def failed_def
        isProvisioningIssue_def str_includes_def sublist_code(3)
        MAX_MIGRATION_RETRIES_def MIGRATION_RETRY_BASE_DELAY_MS_def)

section \<open>Migration Applier: outcomes\<close>

lemma hasSupabaseCLI_cmd: "hasSupabaseCLI w st = (b, st1) \<Longrightarrow> adds is_cmd st st1"
  by (auto simp: hasSupabaseCLI_def spawn_def adds_def emit_def is_cmd_def)

lemma viaCLI_cmd:
  assumes "applyMigrationsViaCLI w dir ref pw r st = (res, st')"
  shows "adds is_cmd st st'"
  by (rule adds_weaken[OF viaCLI_adds[OF assms]]) (auto simp: is_cmd_def)

lemma applyMigrations_cmd:
  assumes "applyMigrations w dir url key pw st = (res, st')"
  shows "adds is_cmd st st'"
proof -
  obtain b st1 where h: "hasSupabaseCLI w st = (b, st1)"
    by (cases "hasSupabaseCLI w st")
  have a1: "adds is_cmd st st1" using h by (rule hasSupabaseCLI_cmd)
  have a2: "adds is_cmd st st2"
    if "applyMigrationsViaCLI w dir ref password 0 st1 = (r, st2)" for ref password r st2
    using a1 viaCLI_cmd[OF that] by (rule adds_trans)
  from assms h a1 a2 show ?thesis
    by (auto simp: applyMigrations_def split: sum.splits option.splits prod.splits if_splits)
qed

lemma applyMigrations_not_api:
  "fst (applyMigrations w dir url key pw st) \<noteq> Inr api"
  by (auto simp: applyMigrations_def Let_def split: sum.splits option.splits prod.splits)

lemma applyMigrations_returns:
  assumes "migration_sql w dir = Inr sql" and "url_hostname w url = Some h"
  shows "fst (applyMigrations w dir url key pw st) = Inr cli \<or>
         fst (applyMigrations w dir url key pw st) = Inr manual"
  using assms
  by (auto simp: applyMigrations_def Let_def split: sum.splits option.splits prod.splits)

lemma apiLoop_throws:
  "\<exists>s \<in> set ss. s \<noteq> [] \<Longrightarrow> \<exists>e. fst (apiLoop ss st) = Inl e"
  by (induction ss) auto

lemma statements_nonempty: "s \<in> set (statements_of sql) \<Longrightarrow> s \<noteq> []"
  by (auto simp: statements_of_def)

lemma viaAPI_throws:
  assumes "statements_of sql \<noteq> []"
  shows "\<exists>e. fst (applyMigrationsViaAPI w url key sql st) = Inl e"
proof (cases "create_client_error w url key")
  case (Some m)
  then show ?thesis by (simp add: applyMigrationsViaAPI_def)
next
  case None
  from assms obtain s where "s \<in> set (statements_of sql)"
    by (cases "statements_of sql") auto
  then have "\<exists>s \<in> set (statements_of sql). s \<noteq> []"
    using statements_nonempty by blast
  from apiLoop_throws[OF this] None show ?thesis
    by (simp add: applyMigrationsViaAPI_def)
qed

text \<open>
  C10. \<open>applyMigrations\<close> never returns \<open>'api'\<close>: whatever it returns is \<open>'cli'\<close> or
  \<open>'manual'\<close>, and it does return one of the two whenever the migration file can be read
  and the URL parses. It performs no query through the data API, and
  \<open>applyMigrationsViaAPI\<close> throws whenever its statement list is not empty.
\<close>

theorem api_outcome_unreachable:
  "fst (applyMigrations w dir url key pw st) \<noteq> Inr api
   \<and> (migration_sql w dir = Inr sql \<and> url_hostname w url = Some h \<longrightarrow>
        fst (applyMigrations w dir url key pw st) = Inr cli \<or>
        fst (applyMigrations w dir url key pw st) = Inr manual)
   \<and> (ApiQuery \<notin> set (trace st) \<longrightarrow>
        ApiQuery \<notin> set (trace (snd (applyMigrations w dir url key pw st))))
   \<and> (statements_of sql \<noteq> [] \<longrightarrow>
        (\<exists>e. fst (applyMigrationsViaAPI w url key sql st) = Inl e))"
proof (intro conjI impI)
  show "fst (applyMigrations w dir url key pw st) \<noteq> Inr api"
    by (rule applyMigrations_not_api)
next
  assume "migration_sql w dir = Inr sql \<and> url_hostname w url = Some h"
  then show "fst (applyMigrations w dir url key pw st) = Inr cli \<or>
        fst (applyMigrations w dir url key pw st) = Inr manual"
    using applyMigrations_returns by blast
next
  assume n: "ApiQuery \<notin> set (trace st)"
  obtain res st' where r: "applyMigrations w dir url key pw st = (res, st')"
    by (cases "applyMigrations w dir url key pw st")
  from adds_mem[OF applyMigrations_cmd[OF r], of ApiQuery] n r
  show "ApiQuery \<notin> set (trace (snd (applyMigrations w dir url key pw st)))"
    by (auto simp: is_cmd_def)
next
  assume "statements_of sql \<noteq> []"
  then show "\<exists>e. fst (applyMigrationsViaAPI w url key sql st) = Inl e"
    by (rule viaAPI_throws)
qed

theorem api_outcome_unreachable_witness:
  "migration_sql sample_world ''/work/demo-app'' = Inr ''create table t (id int);''
   \<and> url_hostname sample_world ''https://abcd.supabase.co'' = Some ''abcd.supabase.co''
   \<and> ApiQuery \<notin> set (trace (start []))
   \<and> statements_of ''create table t (id int);'' \<noteq> []
   \<and> fst (applyMigrations sample_world ''/work/demo-app'' ''https://abcd.supabase.co''
             ''service-key'' (Some ''abcdefghijkl'') (start [])) = Inr cli
   \<and> ApiQuery \<notin> set (trace (snd (applyMigrations sample_world ''/work/demo-app''
             ''https://abcd.supabase.co'' ''service-key'' (Some ''abcdefghijkl'') (start []))))
   \<and> fst (applyMigrationsViaAPI sample_world ''https://abcd.supabase.co'' ''service-key''
             ''create table t (id int);'' (start [])) =
       Inl (Error ''Direct SQL execution not supported via API'')"
proof -
  have h1: "migration_sql sample_world ''/work/demo-app'' = Inr ''create table t (id int);''"
    by (simp add: sample_world_def)
  have h2: "url_hostname sample_world ''https://abcd.supabase.co'' = Some ''abcd.supabase.co''"
    by (simp add: sample_world_def)
  have h3: "ApiQuery \<notin> set (trace (start []))"
    by (simp add: start_def)
  have h4: "statements_of ''create table t (id int);'' \<noteq> []"
    by (simp add: statements_of_def dollarAhead_def trim_def is_space_def startsWith_def)
  have r: "fst (applyMigrations sample_world ''/work/demo-app'' ''https://abcd.supabase.co''
             ''service-key'' (Some ''abcdefghijkl'') (start [])) = Inr cli"
    by (simp add: applyMigrations_def sample_world_def hasSupabaseCLI_def spawn_def emit_def
          start_def ok_result_def applyMigrationsViaCLI.simps link_cmd_def push_cmd_def
          first_label_def)
  have a: "fst (applyMigrationsViaAPI sample_world ''https://abcd.supabase.co'' ''service-key''
             ''create table t (id int);'' (start [])) =
       Inl (Error ''Direct SQL execution not supported via API'')"
    by (simp add: applyMigrationsViaAPI_def sample_world_def statements_of_def dollarAhead_def
          trim_def is_space_def startsWith_def)
  from api_outcome_unreachable[of sample_world "''/work/demo-app''" "''https://abcd.supabase.co''"
         "''service-key''" "Some ''abcdefghijkl''" "start []" "''create table t (id int);''"
         "''abcd.supabase.co''"] h1 h2 h3 h4 r a
  show ?thesis by simp
qed

section \<open>Materializer: a failed CLI strategy\<close>

lemma step6_installs:
  "Spawn [pm_name (packageManager config), ''install'']
     \<in> set (trace (snd (createProject_step6 w config st)))"
  by (auto simp: createProject_step6_def installDependencies_def spawn_def emit_def say_def
        split: prod.splits option.splits sum.splits)

lemma step5_installs:
  "Spawn [pm_name (packageManager config), ''install'']
     \<in> set (trace (snd (createProject_step5 w config st)))"
  by (simp add: createProject_step5_def Let_def step6_installs split: prod.splits)

text \<open>
  C1 (as amended). When the CLI strategy is selected (CLI present, password supplied)
  and \<open>applyMigrationsViaCLI\<close> raises (the link failed, or the push failed for good),
  \<open>applyMigrations\<close> catches the error and returns \<open>'manual'\<close>; the Materializer reports
  the manual outcome, goes on with type generation and starts the dependency install.
\<close>

theorem cli_failure_falls_back_to_manual:
  assumes "migration_sql w (targetDir config) = Inr sql"
    and "url_hostname w (supabaseUrl config) = Some hostname"
    and "hasSupabaseCLI w st = (True, st1)"
    and "dbPassword config = Some password" and "password \<noteq> []"
    and "applyMigrationsViaCLI w (targetDir config) (first_label hostname) password 0 st1 = (Inl e, st2)"
  shows "applyMigrations w (targetDir config) (supabaseUrl config) (supabaseServiceKey config)
           (dbPassword config) st = (Inr manual, st2)
       \<and> createProject_step4 w config st =
           createProject_step5 w config
             (say Note ''Manual Migration Required''
                (say SpinnerStop ''Database migrations require manual setup'' st2))
       \<and> Spawn [pm_name (packageManager config), ''install'']
            \<in> set (trace (snd (createProject_step4 w config st)))"
proof -
  have m: "applyMigrations w (targetDir config) (supabaseUrl config) (supabaseServiceKey config)
           (dbPassword config) st = (Inr manual, st2)"
    using assms by (simp add: applyMigrations_def)
  then have s4: "createProject_step4 w config st =
           createProject_step5 w config
             (say Note ''Manual Migration Required''
                (say SpinnerStop ''Database migrations require manual setup'' st2))"
    by (simp add: createProject_step4_def)
  from m s4 step5_installs show ?thesis by simp
qed

lemma link_fail_world_fields:
  "exists_dir link_fail_world d = False"
  "copy_error link_fail_world d = None"
  "patch_error link_fail_world d = None"
  "write_error link_fail_world d f = None"
  "migration_sql link_fail_world d = Inr ''create table t (id int);''"
  "url_hostname link_fail_world ''https://abcd.supabase.co'' = Some ''abcd.supabase.co''"
  "run link_fail_world n cmd =
     (if take 2 cmd = [''supabase'', ''link''] then failed ''cannot connect'' else ok_result)"
  by (simp_all add: link_fail_world_def sample_world_def)

lemma link_fail_migrations:
  "applyMigrations link_fail_world ''/work/demo-app'' ''https://abcd.supabase.co'' k
      (Some ''abcdefghijkl'') st =
    (Inr manual, emit (Spawn (link_cmd ''abcd'' ''abcdefghijkl''))
                   (emit (Spawn [''supabase'', ''--version'']) st))"
  by (simp add: applyMigrations_def link_fail_world_fields hasSupabaseCLI_def
        spawn_def first_label_def applyMigrationsViaCLI.simps link_cmd_def failed_def ok_result_def)

text \<open>
  The claim as written: a link failure aborts the pipeline. On the host where the link
  fails, \<open>createProject\<close> returns normally, after the manual note, the type generation
  and \<open>npm install\<close>.
\<close>

theorem link_failure_counterexample:
  "createProject link_fail_world sample_config (start []) =
     (Returned (), \<lparr>script = [], trace = link_fail_trace\<rparr>)"
  by (simp add: createProject_def createProject_step1_def createProject_step2_def
        createProject_step3_def createProject_step4_def createProject_step5_def
        createProject_step6_def copyTemplate_def setPackageManager_def writeEnvFile_def
        writeFile_def generateTypes_def installDependencies_def sample_config_def
        link_fail_migrations hasSupabaseCLI_def spawn_def emit_def say_def start_def
        link_fail_world_fields first_label_def gen_types_cmd_def link_cmd_def
        ok_result_def failed_def link_fail_trace_def)

theorem cli_failure_falls_back_to_manual_witness:
  "migration_sql link_fail_world (targetDir sample_config) = Inr ''create table t (id int);''
   \<and> url_hostname link_fail_world (supabaseUrl sample_config) = Some ''abcd.supabase.co''
   \<and> hasSupabaseCLI link_fail_world (start []) =
        (True, \<lparr>script = [], trace = [Spawn [''supabase'', ''--version'']]\<rparr>)
   \<and> dbPassword sample_config = Some ''abcdefghijkl''
   \<and> applyMigrationsViaCLI link_fail_world (targetDir sample_config)
        (first_label ''abcd.supabase.co'') ''abcdefghijkl'' 0
        \<lparr>script = [], trace = [Spawn [''supabase'', ''--version'']]\<rparr> =
      (Inl (Error ''Failed to link project''),
       \<lparr>script = [], trace = [Spawn [''supabase'', ''--version''],
                              Spawn (link_cmd ''abcd'' ''abcdefghijkl'')]\<rparr>)
   \<and> applyMigrations link_fail_world (targetDir sample_config) (supabaseUrl sample_config)
        (supabaseServiceKey sample_config) (dbPassword sample_config) (start []) =
      (Inr manual,
       \<lparr>script = [], trace = [Spawn [''supabase'', ''--version''],
                              Spawn (link_cmd ''abcd'' ''abcdefghijkl'')]\<rparr>)
   \<and> Spawn [''npm'', ''install'']
        \<in> set (trace (snd (createProject_step4 link_fail_world sample_config (start []))))"
proof -
  have h1: "migration_sql link_fail_world (targetDir sample_config) = Inr ''create table t (id int);''"
    by (simp add: link_fail_world_fields)
  have h2: "url_hostname link_fail_world (supabaseUrl sample_config) = Some ''abcd.supabase.co''"
    by (simp add: link_fail_world_fields sample_config_def)
  have h3: "hasSupabaseCLI link_fail_world (start []) =
        (True, \<lparr>script = [], trace = [Spawn [''supabase'', ''--version'']]\<rparr>)"
    by (simp add: hasSupabaseCLI_def spawn_def emit_def start_def link_fail_world_fields
          ok_result_def)
  have h4: "dbPassword sample_config = Some ''abcdefghijkl''"
    by (simp add: sample_config_def)
  have h5: "''abcdefghijkl'' \<noteq> []"
    by simp
  have h6: "applyMigrationsViaCLI link_fail_world (targetDir sample_config)
        (first_label ''abcd.supabase.co'') ''abcdefghijkl'' 0
        \<lparr>script = [], trace = [Spawn [''supabase'', ''--version'']]\<rparr> =
      (Inl (Error ''Failed to link project''),
       \<lparr>script = [], trace = [Spawn [''supabase'', ''--version''],
                              Spawn (link_cmd ''abcd'' ''abcdefghijkl'')]\<rparr>)"
    by (simp add: applyMigrationsViaCLI.simps spawn_def emit_def link_fail_world_fields
          first_label_def link_cmd_def failed_def)
  note t = cli_failure_falls_back_to_manual[OF h1 h2 h3 h4 h5 h6]
  have pm: "pm_name (packageManager sample_config) = ''npm''"
    by (simp add: sample_config_def)
  have c1: "applyMigrations link_fail_world (targetDir sample_config) (supabaseUrl sample_config)
        (supabaseServiceKey sample_config) (dbPassword sample_config) (start []) =
      (Inr manual,
       \<lparr>script = [], trace = [Spawn [''supabase'', ''--version''],
                              Spawn (link_cmd ''abcd'' ''abcdefghijkl'')]\<rparr>)"
    by (rule t[THEN conjunct1])
  have c3: "Spawn [''npm'', ''install'']
        \<in> set (trace (snd (createProject_step4 link_fail_world sample_config (start []))))"
    using t[THEN conjunct2, THEN conjunct2] unfolding pm .
  from h1 h2 h3 h4 h6 c1 c3 show ?thesis by blast
qed

section \<open>Materializer: the environment file\<close>

lemma is_cmd_env_ok: "is_cmd e \<Longrightarrow> env_write_ok config e"
  by (cases e) (auto simp: is_cmd_def env_write_ok_def)

lemma step6_env: "adds (env_write_ok config) st (snd (createProject_step6 w config st))"
  by (auto simp: createProject_step6_def installDependencies_def spawn_def emit_def say_def
        adds_def env_write_ok_def split: prod.splits option.splits sum.splits)

lemma generateTypes_env: "adds (env_write_ok config) st (snd (generateTypes w dir ref st))"
  by (auto simp: generateTypes_def hasSupabaseCLI_def writeFile_def spawn_def emit_def
        adds_def env_write_ok_def split: prod.splits option.splits sum.splits)

lemma say_env: "adds (env_write_ok config) st (say ch m st)"
  by (simp add: say_def emit_def adds_def env_write_ok_def)

lemma step5_env: "adds (env_write_ok config) st (snd (createProject_step5 w config st))"
proof -
  let ?P = "env_write_ok config"
  define pr where "pr = (case url_hostname w (supabaseUrl config) of
               None \<Rightarrow> ([], say SpinnerStop ''Types generation skipped (invalid Supabase URL)'' st)
             | Some hostname \<Rightarrow>
                 if first_label hostname = []
                 then ([], say SpinnerStop ''Types generation skipped (invalid Supabase URL)'' st)
                 else (first_label hostname, st))"
  define g where "g = (if fst pr \<noteq> [] then generateTypes w (targetDir config) (fst pr) (snd pr)
                       else (False, snd pr))"
  define st2 where "st2 = (if \<not> fst g
             then say Note ''Type Generation''
                    (say SpinnerStop ''Types generation skipped (template includes placeholder)'' (snd g))
             else say SpinnerStop ''Types generated'' (snd g))"
  have eq: "createProject_step5 w config st = createProject_step6 w config st2"
    unfolding createProject_step5_def st2_def g_def pr_def
    by (simp add: Let_def case_prod_unfold)
  have a0: "adds ?P st (snd pr)"
    by (simp add: pr_def say_env split: option.splits)
  have a1: "adds ?P (snd pr) (snd g)"
    by (simp add: g_def generateTypes_env)
  have a2: "adds ?P (snd g) st2"
    unfolding st2_def using adds_trans[OF say_env say_env] say_env by simp
  have a3: "adds ?P st2 (snd (createProject_step6 w config st2))"
    by (rule step6_env)
  from a0 a1 a2 a3 show ?thesis unfolding eq by (blast intro: adds_trans)
qed

lemma step4_env: "adds (env_write_ok config) st (snd (createProject_step4 w config st))"
proof -
  let ?P = "env_write_ok config"
  obtain res st1 where m: "applyMigrations w (targetDir config) (supabaseUrl config)
      (supabaseServiceKey config) (dbPassword config) st = (res, st1)"
    by (cases "applyMigrations w (targetDir config) (supabaseUrl config)
      (supabaseServiceKey config) (dbPassword config) st")
  have a1: "adds ?P st st1"
    by (rule adds_weaken[OF applyMigrations_cmd[OF m]]) (rule is_cmd_env_ok)
  show ?thesis
  proof (cases res)
    case (Inl e)
    with m a1 show ?thesis by (simp add: createProject_step4_def)
  next
    case (Inr r)
    define st2 where "st2 = (if r = manual
             then say Note ''Manual Migration Required''
                    (say SpinnerStop ''Database migrations require manual setup'' st1)
             else say SpinnerStop
                    (''Database migrations applied ('' @
                       (if r = cli then ''CLI'' else ''API'') @ '')'') st1)"
    have eq: "createProject_step4 w config st = createProject_step5 w config st2"
      using m Inr by (simp add: createProject_step4_def st2_def)
    have a2: "adds ?P st1 st2"
      unfolding st2_def using adds_trans[OF say_env say_env] say_env by simp
    have a3: "adds ?P st2 (snd (createProject_step5 w config st2))"
      by (rule step5_env)
    from a1 a2 a3 show ?thesis unfolding eq by (blast intro: adds_trans)
  qed
qed

lemma step3_env: "adds (env_write_ok config) st (snd (createProject_step3 w config st))"
proof -
  let ?P = "env_write_ok config"
  obtain res st1 where m: "writeEnvFile w (targetDir config) (supabaseUrl config)
      (supabaseAnonKey config) st = (res, st1)"
    by (cases "writeEnvFile w (targetDir config) (supabaseUrl config) (supabaseAnonKey config) st")
  then have a1: "adds ?P st st1"
    by (auto simp: writeEnvFile_def writeFile_def emit_def adds_def env_write_ok_def
          split: option.splits)
  show ?thesis
  proof (cases res)
    case (Inl e)
    with m a1 show ?thesis by (simp add: createProject_step3_def)
  next
    case (Inr r)
    have eq: "createProject_step3 w config st =
        createProject_step4 w config (say SpinnerStop ''Environment variables written'' st1)"
      using m Inr by (simp add: createProject_step3_def)
    from a1 say_env step4_env show ?thesis unfolding eq by (blast intro: adds_trans)
  qed
qed

lemma step2_env: "adds (env_write_ok config) st (snd (createProject_step2 w config st))"
proof -
  let ?P = "env_write_ok config"
  obtain res st1 where m: "setPackageManager w (targetDir config) (packageManager config)
      (port config) st = (res, st1)"
    by (cases "setPackageManager w (targetDir config) (packageManager config) (port config) st")
  then have a1: "adds ?P st st1"
    by (auto simp: setPackageManager_def emit_def adds_def env_write_ok_def split: option.splits)
  show ?thesis
  proof (cases res)
    case (Inl e)
    with m a1 show ?thesis by (simp add: createProject_step2_def)
  next
    case (Inr r)
    have eq: "createProject_step2 w config st = createProject_step3 w config st1"
      using m Inr by (simp add: createProject_step2_def)
    from a1 step3_env show ?thesis unfolding eq by (blast intro: adds_trans)
  qed
qed

lemma step1_env: "adds (env_write_ok config) st (snd (createProject_step1 w config st))"
proof -
  let ?P = "env_write_ok config"
  obtain res st1 where m: "copyTemplate w (targetDir config) st = (res, st1)"
    by (cases "copyTemplate w (targetDir config) st")
  then have a1: "adds ?P st st1"
    by (auto simp: copyTemplate_def emit_def adds_def env_write_ok_def Let_def split: option.splits)
  show ?thesis
  proof (cases res)
    case (Inl e)
    with m a1 show ?thesis by (simp add: createProject_step1_def)
  next
    case (Inr r)
    have eq: "createProject_step1 w config st =
        createProject_step2 w config (say SpinnerStop ''Project directory created'' st1)"
      using m Inr by (simp add: createProject_step1_def)
    from a1 say_env step2_env show ?thesis unfolding eq by (blast intro: adds_trans)
  qed
qed

lemma createProject_env: "adds (env_write_ok config) st (snd (createProject w config st))"
proof -
  let ?P = "env_write_ok config"
  define pr where "pr = (if exists_dir w (targetDir config) then
               (case confirm_prompt st of
                  (Some True, st') \<Rightarrow> (True, st')
                | (_, st') \<Rightarrow> (False, say CancelMsg ''Operation cancelled'' st'))
             else (True, st))"
  have t: "trace (snd (confirm_prompt st)) = trace st"
    by (simp add: confirm_prompt_def case_prod_unfold Let_def)
  have a0: "adds ?P st (snd pr)"
    using t
    by (auto simp: pr_def adds_def say_def emit_def env_write_ok_def
          split: prod.splits option.splits bool.splits)
  have a1: "adds ?P (snd pr) (snd (createProject_step1 w config (snd pr)))"
    by (rule step1_env)
  have "adds ?P (snd pr) (snd (createProject w config st))"
    unfolding createProject_def pr_def[symmetric]
    using a1 adds_trans[OF a1 say_env]
    by (auto simp: case_prod_unfold split: sum.splits)
  with a0 show ?thesis by (rule adds_trans)
qed

lemma sublist_glue:
  assumes "sublist k (glue segs)" and "\<forall>(s, c) \<in> set segs. c \<notin> set k" and "k \<noteq> []"
  shows "\<exists>(s, c) \<in> set segs. sublist k s"
  using assms
proof (induction segs)
  case Nil
  then show ?case by simp
next
  case (Cons a segs)
  obtain s c where a: "a = (s, c)" by (cases a)
  from Cons.prems(1) a have "sublist k (s @ c # glue segs)" by simp
  moreover from Cons.prems(2) a have "c \<notin> set k" by simp
  ultimately have "sublist k s \<or> sublist k (glue segs)" by (rule sublist_sep)
  then show ?case
  proof
    assume "sublist k s"
    with a show ?thesis by auto
  next
    assume "sublist k (glue segs)"
    with Cons.IH Cons.prems(2,3) show ?thesis by auto
  qed
qed

lemma envContent_glue:
  "envContent url anon =
     glue [(''# Supabase Configuration'', nl),
           (''# Get these from https://app.supabase.com/project/_/settings/api'', nl),
           (''NEXT_PUBLIC_SUPABASE_URL'', CHR ''=''),
           (url, nl),
           (''NEXT_PUBLIC_SUPABASE_ANON_KEY'', CHR ''=''),
           (anon, nl),
           ([], nl),
           (''# Note: Service role key NOT needed for runtime'', nl),
           (''# Only used during initial setup by create-supalite CLI'', nl)]"
  by (simp add: envContent_def)

lemma envContent_omits:
  assumes "nl \<notin> set k" and "CHR ''='' \<notin> set k"
    and "\<not> str_includes url k" and "\<not> str_includes anon k"
    and "\<not> inComments k" and "\<not> inVariableNames k"
  shows "\<not> str_includes (envContent url anon) k"
proof
  assume "str_includes (envContent url anon) k"
  then have s: "sublist k (glue [(''# Supabase Configuration'', nl),
           (''# Get these from https://app.supabase.com/project/_/settings/api'', nl),
           (''NEXT_PUBLIC_SUPABASE_URL'', CHR ''=''),
           (url, nl),
           (''NEXT_PUBLIC_SUPABASE_ANON_KEY'', CHR ''=''),
           (anon, nl),
           ([], nl),
           (''# Note: Service role key NOT needed for runtime'', nl),
           (''# Only used during initial setup by create-supalite CLI'', nl)])"
    by (simp only: str_includes_def envContent_glue)
  from assms(3) have ne: "k \<noteq> []" by (auto simp: str_includes_def)
  from sublist_glue[OF s _ ne] assms(1,2)
  have "sublist k ''# Supabase Configuration'' \<or>
        sublist k ''# Get these from https://app.supabase.com/project/_/settings/api'' \<or>
        sublist k ''NEXT_PUBLIC_SUPABASE_URL'' \<or> sublist k url \<or>
        sublist k ''NEXT_PUBLIC_SUPABASE_ANON_KEY'' \<or> sublist k anon \<or> sublist k [] \<or>
        sublist k ''# Note: Service role key NOT needed for runtime'' \<or>
        sublist k ''# Only used during initial setup by create-supalite CLI''"
    by simp
  with assms(3-6) ne show False
    by (auto simp: str_includes_def inComments_def inVariableNames_def commentLines_def
          variableNames_def)
qed

lemma split_on_sep: "c \<notin> set a \<Longrightarrow> split_on c (a @ c # rest) = a # split_on c rest"
  by (induction a) auto

lemma split_on_none: "c \<notin> set a \<Longrightarrow> split_on c a = [a]"
  by (induction a) auto

lemma envContent_lines:
  assumes "nl \<notin> set url" and "nl \<notin> set anon"
  shows "split_on nl (envContent url anon) =
     [''# Supabase Configuration'',
      ''# Get these from https://app.supabase.com/project/_/settings/api'',
      ''NEXT_PUBLIC_SUPABASE_URL='' @ url,
      ''NEXT_PUBLIC_SUPABASE_ANON_KEY='' @ anon,
      [],
      ''# Note: Service role key NOT needed for runtime'',
      ''# Only used during initial setup by create-supalite CLI'',
      []]"
  using assms by (simp add: envContent_def split_on_sep)

lemma sample_world_fields:
  "exists_dir sample_world d = False"
  "copy_error sample_world d = None"
  "patch_error sample_world d = None"
  "write_error sample_world d f = None"
  "migration_sql sample_world d = Inr ''create table t (id int);''"
  "url_hostname sample_world ''https://abcd.supabase.co'' = Some ''abcd.supabase.co''"
  "run sample_world n cmd = ok_result"
  by (simp_all add: sample_world_def)

lemma sample_migrations:
  "applyMigrations sample_world ''/work/demo-app'' ''https://abcd.supabase.co'' k
      (Some ''abcdefghijkl'') st =
    (Inr cli, emit (Spawn push_cmd) (emit (Spawn (link_cmd ''abcd'' ''abcdefghijkl''))
                   (emit (Spawn [''supabase'', ''--version'']) st)))"
  by (simp add: applyMigrations_def sample_world_fields hasSupabaseCLI_def
        spawn_def first_label_def applyMigrationsViaCLI.simps link_cmd_def ok_result_def)

lemma sample_run:
  "createProject sample_world (sample_config\<lparr>supabaseServiceKey := k\<rparr>) (start []) =
     (Returned (), \<lparr>script = [], trace = sample_trace\<rparr>)"
  by (simp add: createProject_def createProject_step1_def createProject_step2_def
        createProject_step3_def createProject_step4_def createProject_step5_def
        createProject_step6_def copyTemplate_def setPackageManager_def writeEnvFile_def
        writeFile_def generateTypes_def installDependencies_def sample_config_def
        sample_migrations hasSupabaseCLI_def spawn_def emit_def say_def start_def
        sample_world_fields first_label_def gen_types_cmd_def link_cmd_def push_cmd_def
        ok_result_def sample_trace_def)

text \<open>
  C3 (as amended). The environment file that \<open>createProject\<close> writes has the content
  \<open>envContent\<close> of the URL and the anonymous key. It does not contain the service key
  whenever that key has no line break and no \<open>=\<close> and is not a substring of the URL, of
  the anonymous key, of a fixed comment line or of one of the two variable names. When
  the URL and the anonymous key have no line break, the lines of the file are the two
  leading comments, the URL line, the anonymous-key line, an empty line and the two
  closing comments.
\<close>

theorem env_file_omits_service_key:
  assumes "WriteFile dir EnvLocal content \<in> set (trace (snd (createProject w config st)))"
    and "WriteFile dir EnvLocal content \<notin> set (trace st)"
    and "nl \<notin> set (supabaseServiceKey config)"
    and "CHR ''='' \<notin> set (supabaseServiceKey config)"
    and "\<not> str_includes (supabaseUrl config) (supabaseServiceKey config)"
    and "\<not> str_includes (supabaseAnonKey config) (supabaseServiceKey config)"
    and "\<not> inComments (supabaseServiceKey config)"
    and "\<not> inVariableNames (supabaseServiceKey config)"
  shows "content = envContent (supabaseUrl config) (supabaseAnonKey config)
       \<and> \<not> str_includes content (supabaseServiceKey config)
       \<and> (nl \<notin> set (supabaseUrl config) \<and> nl \<notin> set (supabaseAnonKey config) \<longrightarrow>
            split_on nl content =
              [''# Supabase Configuration'',
               ''# Get these from https://app.supabase.com/project/_/settings/api'',
               ''NEXT_PUBLIC_SUPABASE_URL='' @ supabaseUrl config,
               ''NEXT_PUBLIC_SUPABASE_ANON_KEY='' @ supabaseAnonKey config,
               [],
               ''# Note: Service role key NOT needed for runtime'',
               ''# Only used during initial setup by create-supalite CLI'',
               []])"
proof -
  from adds_mem[OF createProject_env assms(1)] assms(2)
  have "env_write_ok config (WriteFile dir EnvLocal content)" by blast
  then have c: "content = envContent (supabaseUrl config) (supabaseAnonKey config)"
    by (simp add: env_write_ok_def)
  have o: "\<not> str_includes content (supabaseServiceKey config)"
    unfolding c by (rule envContent_omits[OF assms(3-8)])
  from c o envContent_lines show ?thesis by blast
qed

theorem env_file_omits_service_key_witness:
  "WriteFile ''/work/demo-app'' EnvLocal (envContent ''https://abcd.supabase.co'' ''anon-key'')
      \<in> set (trace (snd (createProject sample_world sample_config (start []))))
   \<and> WriteFile ''/work/demo-app'' EnvLocal (envContent ''https://abcd.supabase.co'' ''anon-key'')
      \<notin> set (trace (start []))
   \<and> nl \<notin> set (supabaseServiceKey sample_config)
   \<and> CHR ''='' \<notin> set (supabaseServiceKey sample_config)
   \<and> \<not> str_includes (supabaseUrl sample_config) (supabaseServiceKey sample_config)
   \<and> \<not> str_includes (supabaseAnonKey sample_config) (supabaseServiceKey sample_config)
   \<and> \<not> inComments (supabaseServiceKey sample_config)
   \<and> \<not> inVariableNames (supabaseServiceKey sample_config)
   \<and> \<not> str_includes (envContent ''https://abcd.supabase.co'' ''anon-key'')
          (supabaseServiceKey sample_config)
   \<and> nl \<notin> set (supabaseUrl sample_config) \<and> nl \<notin> set (supabaseAnonKey sample_config)
   \<and> length (split_on nl (envContent ''https://abcd.supabase.co'' ''anon-key'')) = 8"
proof -
  have r: "createProject sample_world sample_config (start []) =
     (Returned (), \<lparr>script = [], trace = sample_trace\<rparr>)"
    using sample_run[of "supabaseServiceKey sample_config"] by simp
  have h1: "WriteFile ''/work/demo-app'' EnvLocal (envContent ''https://abcd.supabase.co'' ''anon-key'')
      \<in> set (trace (snd (createProject sample_world sample_config (start []))))"
    by (simp add: r sample_trace_def)
  have h2: "WriteFile ''/work/demo-app'' EnvLocal (envContent ''https://abcd.supabase.co'' ''anon-key'')
      \<notin> set (trace (start []))"
    by (simp add: start_def)
  have k: "supabaseServiceKey sample_config = ''service-key''"
    by (simp add: sample_config_def)
  have h3: "nl \<notin> set (supabaseServiceKey sample_config)"
    and h4: "CHR ''='' \<notin> set (supabaseServiceKey sample_config)"
    by (simp_all add: k)
  have h5: "\<not> str_includes (supabaseUrl sample_config) (supabaseServiceKey sample_config)"
    and h6: "\<not> str_includes (supabaseAnonKey sample_config) (supabaseServiceKey sample_config)"
    by (simp_all add: sample_config_def str_includes_def sublist_code(3))
  have h7: "\<not> inComments (supabaseServiceKey sample_config)"
    by (simp add: k inComments_def commentLines_def str_includes_def sublist_code(3))
  have h8: "\<not> inVariableNames (supabaseServiceKey sample_config)"
    by (simp add: k inVariableNames_def variableNames_def str_includes_def sublist_code(3))
  have h9: "nl \<notin> set (supabaseUrl sample_config) \<and> nl \<notin> set (supabaseAnonKey sample_config)"
    by (simp add: sample_config_def)
  note t = env_file_omits_service_key[OF h1 h2 h3 h4 h5 h6 h7 h8]
  from t have c1: "\<not> str_includes (envContent ''https://abcd.supabase.co'' ''anon-key'')
          (supabaseServiceKey sample_config)"
    by blast
  have c2: "length (split_on nl (envContent ''https://abcd.supabase.co'' ''anon-key'')) = 8"
    unfolding mp[OF t[THEN conjunct2, THEN conjunct2] h9] by simp
  from h1 h2 h3 h4 h5 h6 h7 h8 h9 c1 c2 show ?thesis by blast
qed

text \<open>
  The claim as written only excludes keys inside the URL, the anonymous key and the
  comments: the key \<open>NEXT_PUBLIC\<close> is in none of them and is in the file.
\<close>

theorem env_file_label_counterexample:
  "WriteFile ''/work/demo-app'' EnvLocal (envContent ''https://abcd.supabase.co'' ''anon-key'')
      \<in> set (trace (snd (createProject sample_world label_key_config (start []))))
   \<and> \<not> str_includes (supabaseUrl label_key_config) (supabaseServiceKey label_key_config)
   \<and> \<not> str_includes (supabaseAnonKey label_key_config) (supabaseServiceKey label_key_config)
   \<and> \<not> inComments (supabaseServiceKey label_key_config)
   \<and> str_includes (envContent ''https://abcd.supabase.co'' ''anon-key'')
          (supabaseServiceKey label_key_config)"
proof -
  have h1: "WriteFile ''/work/demo-app'' EnvLocal (envContent ''https://abcd.supabase.co'' ''anon-key'')
      \<in> set (trace (snd (createProject sample_world label_key_config (start []))))"
    by (simp add: label_key_config_def sample_run sample_trace_def)
  have k: "supabaseServiceKey label_key_config = ''NEXT_PUBLIC''"
    by (simp add: label_key_config_def)
  have h2: "\<not> str_includes (supabaseUrl label_key_config) (supabaseServiceKey label_key_config)"
    and h3: "\<not> str_includes (supabaseAnonKey label_key_config) (supabaseServiceKey label_key_config)"
    by (simp_all add: label_key_config_def sample_config_def str_includes_def sublist_code(3))
  have h4: "\<not> inComments (supabaseServiceKey label_key_config)"
    by (simp add: k inComments_def commentLines_def str_includes_def sublist_code(3))
  have h5: "str_includes (envContent ''https://abcd.supabase.co'' ''anon-key'')
          (supabaseServiceKey label_key_config)"
    by (simp add: k envContent_def str_includes_def sublist_code(3))
  from h1 h2 h3 h4 h5 show ?thesis by blast
qed

section \<open>Platform CLI Adapter: the organization list\<close>

text \<open>
  C5 (as amended). With exit code 0, \<open>getOrganizations\<close> throws the parse error if and
  only if the output is not a JSON array and the tabular parse yields no entry. A JSON
  array is returned as it is, the empty one included; otherwise a non-empty result of
  the tabular parse is returned.
\<close>

theorem organizations_parse_error:
  assumes "spawn w orgs_list_cmd st = (result, st1)" and "status result = Some 0"
  shows "(fst (getOrganizations w st) = Inl (Error ''Failed to parse organizations list'')
            \<longleftrightarrow> (\<forall>orgs. json_orgs w (trim (stdout result)) \<noteq> JsonArray orgs) \<and>
                 parse_table (split_on nl (trim (stdout result))) = [])
       \<and> (\<forall>orgs. json_orgs w (trim (stdout result)) = JsonArray orgs \<longrightarrow>
             fst (getOrganizations w st) = Inr orgs)
       \<and> ((\<forall>orgs. json_orgs w (trim (stdout result)) \<noteq> JsonArray orgs) \<and>
             parse_table (split_on nl (trim (stdout result))) \<noteq> [] \<longrightarrow>
             fst (getOrganizations w st) = Inr (parse_table (split_on nl (trim (stdout result)))))"
proof (cases "json_orgs w (trim (stdout result))")
  case JsonThrows
  with assms show ?thesis
    by (simp add: getOrganizations_def Let_def)
next
  case JsonOther
  with assms show ?thesis
    by (simp add: getOrganizations_def Let_def)
next
  case (JsonArray orgs)
  with assms show ?thesis
    by (simp add: getOrganizations_def Let_def)
qed

lemma empty_orgs_spawn:
  "spawn empty_orgs_world orgs_list_cmd (start []) =
     (ok_result\<lparr>stdout := ''[]'' @ [nl]\<rparr>, \<lparr>script = [], trace = [Spawn orgs_list_cmd]\<rparr>)"
  by (simp add: spawn_def emit_def start_def empty_orgs_world_def sample_world_def)

lemma empty_orgs_output: "trim (stdout (ok_result\<lparr>stdout := ''[]'' @ [nl]\<rparr>)) = ''[]''"
  by (simp add: trim_def is_space_def)

lemma empty_orgs_json: "json_orgs empty_orgs_world ''[]'' = JsonArray []"
  by (simp add: empty_orgs_world_def)

theorem organizations_parse_error_witness:
  "spawn empty_orgs_world orgs_list_cmd (start []) =
     (ok_result\<lparr>stdout := ''[]'' @ [nl]\<rparr>, \<lparr>script = [], trace = [Spawn orgs_list_cmd]\<rparr>)
   \<and> status (ok_result\<lparr>stdout := ''[]'' @ [nl]\<rparr>) = Some 0
   \<and> json_orgs empty_orgs_world ''[]'' = JsonArray []
   \<and> fst (getOrganizations empty_orgs_world (start [])) = Inr []
   \<and> fst (getOrganizations empty_orgs_world (start []))
        \<noteq> Inl (Error ''Failed to parse organizations list'')"
proof -
  have h2: "status (ok_result\<lparr>stdout := ''[]'' @ [nl]\<rparr>) = Some 0"
    by (simp add: ok_result_def)
  note t = organizations_parse_error[OF empty_orgs_spawn h2, unfolded empty_orgs_output]
  from t empty_orgs_json have r: "fst (getOrganizations empty_orgs_world (start [])) = Inr []"
    by blast
  then have n: "fst (getOrganizations empty_orgs_world (start []))
        \<noteq> Inl (Error ''Failed to parse organizations list'')"
    by simp
  from empty_orgs_spawn h2 empty_orgs_json r n show ?thesis by blast
qed

text \<open>
  The claim as written: when both formats give no entry the operation fails. For the
  output \<open>[]\<close> (no table row, an empty JSON array) it returns the empty list.
\<close>

theorem empty_json_array_counterexample:
  "parse_table (split_on nl ''[]'') = []
   \<and> fst (getOrganizations empty_orgs_world (start [])) = Inr []"
  by (simp add: getOrganizations_def empty_orgs_spawn empty_orgs_json trim_def is_space_def
        ok_result_def table_row_def str_includes_def sublist_code(3))

lemma table_world_spawn:
  "spawn table_world orgs_list_cmd (start []) =
     (ok_result\<lparr>stdout := orgs_table\<rparr>, \<lparr>script = [], trace = [Spawn orgs_list_cmd]\<rparr>)"
  by (simp add: spawn_def emit_def start_def table_world_def sample_world_def)

lemma table_world_json: "json_orgs table_world s = JsonThrows"
  by (simp add: table_world_def sample_world_def)

lemma orgs_table_lines:
  "split_on nl (trim orgs_table) =
     [''ID                   | NAME'',
      ''  ---------------------|----------------'',
      ''  azoyksukebdkeaelzlfm | Growth Stories'',
      ''  bcdefghjklmnopqrstuv | Video Lab'',
      ''  cdefghjklmnopqrstuvw | Acme'']"
  by (simp add: orgs_table_def trim_def is_space_def)

lemma table_rows:
  "\<not> table_row ''ID                   | NAME''"
  "\<not> table_row ''  ---------------------|----------------''"
  "table_row ''  azoyksukebdkeaelzlfm | Growth Stories''"
  "\<not> table_row ''  bcdefghjklmnopqrstuv | Video Lab''"
  "table_row ''  cdefghjklmnopqrstuvw | Acme''"
  by (simp_all add: table_row_def str_includes_def sublist_code(3) toUpperCase_def
        upper_chars_def upper_char_def lower_letters_def upper_letters_def lower_latin_def
        upper_latin_def)

text \<open>
  C6 (the code departs from it). The table of \<open>table_world\<close> has a header, a separator
  and three data rows with non-empty fields; the row of "Video Lab" contains "ID" once
  it is upper-cased, is taken for a header and dropped: two organizations are returned.
\<close>

theorem table_row_dropped:
  "fst (getOrganizations table_world (start [])) =
     Inr [\<lparr>org_id = ''azoyksukebdkeaelzlfm'', org_name = ''Growth Stories''\<rparr>,
          \<lparr>org_id = ''cdefghjklmnopqrstuvw'', org_name = ''Acme''\<rparr>]"
proof -
  have "parse_table (split_on nl (trim orgs_table)) =
     [\<lparr>org_id = ''azoyksukebdkeaelzlfm'', org_name = ''Growth Stories''\<rparr>,
      \<lparr>org_id = ''cdefghjklmnopqrstuvw'', org_name = ''Acme''\<rparr>]"
    unfolding orgs_table_lines
    by (simp add: table_rows trim_def is_space_def)
  then show ?thesis
    by (simp add: getOrganizations_def table_world_spawn table_world_json ok_result_def)
qed

section \<open>Package Manager Detector: the default\<close>

lemma available_sorted_filter:
  "getAvailablePackageManagers w = sort_key priority (filter (included w) allOptions)"
proof -
  have "(\<lambda>option. if opt_value option = npm then True
                     else isPackageManagerInstalled w (opt_value option)) = included w"
    if "isWindows w"
    using that by (auto simp: included_def fun_eq_iff)
  moreover have "(\<lambda>option. isPackageManagerInstalled w (opt_value option)) = included w"
    if "\<not> isWindows w"
    using that by (auto simp: included_def fun_eq_iff)
  ultimately show ?thesis
    by (simp add: getAvailablePackageManagers_def)
qed

lemma available_sorted: "sorted (map priority (getAvailablePackageManagers w))"
  by (simp add: available_sorted_filter)

lemma available_set:
  "set (getAvailablePackageManagers w) = {option \<in> set allOptions. included w option}"
  by (simp add: available_sorted_filter)

lemma default_of_nonempty:
  assumes "getAvailablePackageManagers w = first # rest"
  shows "getDefaultPackageManager w = Inr (opt_value first)"
    and "\<forall>option \<in> set (getAvailablePackageManagers w). priority first \<le> priority option"
proof -
  show "getDefaultPackageManager w = Inr (opt_value first)"
    using assms by (simp add: getDefaultPackageManager_def)
  from available_sorted[of w] assms
  show "\<forall>option \<in> set (getAvailablePackageManagers w). priority first \<le> priority option"
    by auto
qed

lemma default_throws_iff:
  "getDefaultPackageManager w =
      Inl (Error ''No package manager found. Please install npm, pnpm, or bun.'')
   \<longleftrightarrow> getAvailablePackageManagers w = []"
  by (cases "getAvailablePackageManagers w") (simp_all add: getDefaultPackageManager_def)

section \<open>No package manager, no configuration\<close>

lemma trailing_none:
  "getAvailablePackageManagers w = [] \<Longrightarrow> fst (trailing_prompts w st) = Inr None"
  by (simp add: trailing_prompts_def)

lemma g_prod: "Q (f (fst p) (snd p)) \<Longrightarrow> Q (case p of (a, b) \<Rightarrow> f a b)"
  by (simp add: case_prod_unfold)

lemma g_option:
  "(x = None \<Longrightarrow> Q a) \<Longrightarrow> (\<And>y. x = Some y \<Longrightarrow> Q (f y)) \<Longrightarrow>
     Q (case x of None \<Rightarrow> a | Some y \<Rightarrow> f y)"
  by (cases x) auto

lemma g_sum:
  "(\<And>e. x = Inl e \<Longrightarrow> Q (f e)) \<Longrightarrow> (\<And>y. x = Inr y \<Longrightarrow> Q (g y)) \<Longrightarrow>
     Q (case x of Inl e \<Rightarrow> f e | Inr y \<Rightarrow> g y)"
  by (cases x) auto

lemma g_bool:
  "(x \<Longrightarrow> Q a) \<Longrightarrow> (\<not> x \<Longrightarrow> Q b) \<Longrightarrow> Q (case x of True \<Rightarrow> a | False \<Rightarrow> b)"
  by (cases x) auto

lemma g_if: "(c \<Longrightarrow> Q a) \<Longrightarrow> (\<not> c \<Longrightarrow> Q b) \<Longrightarrow> Q (if c then a else b)"
  by simp

lemma g_list:
  "(xs = [] \<Longrightarrow> Q a) \<Longrightarrow> (\<And>y ys. xs = y # ys \<Longrightarrow> Q (f y ys)) \<Longrightarrow>
     Q (case xs of [] \<Rightarrow> a | y # ys \<Rightarrow> f y ys)"
  by (cases xs) auto

lemmas nc_cases =
  g_prod[where Q=nc] g_option[where Q=nc] g_sum[where Q=nc] g_bool[where Q=nc]
  g_if[where Q=nc] g_list[where Q=nc]

lemmas nci_cases =
  g_prod[where Q=nci] g_option[where Q=nci] g_sum[where Q=nci] g_bool[where Q=nci]
  g_if[where Q=nci] g_list[where Q=nci]

lemmas ncf_cases =
  g_prod[where Q=ncf] g_option[where Q=ncf] g_sum[where Q=ncf] g_bool[where Q=ncf]
  g_if[where Q=ncf] g_list[where Q=ncf]

lemma nc_leaf [simp]: "nc (Inl e, s)" "nc (Inr (None, m), s)"
  by (simp_all add: nc_def no_config_def)

lemma nci_leaf [simp]: "nci (Inr None, s)"
  by (simp add: nci_def)

lemma ncf_leaf [simp]: "ncf (Retry, s)" "ncf (Finished (Inl e), s)" "ncf (Finished (Inr (None, m)), s)"
  by (simp_all add: ncf_def no_config_def)

lemma collect_none:
  assumes "getAvailablePackageManagers w = []"
  shows "nci (collectProjectInfo w i st)"
  unfolding collectProjectInfo_def
  by (intro nci_cases; simp add: trailing_none[OF assms])

lemma hpc_finish_none:
  assumes "getAvailablePackageManagers w = []"
  shows "nc (hpc_finish w n c p st)"
  unfolding hpc_finish_def
  by (intro nc_cases; simp add: trailing_none[OF assms])

lemma hpc_create_none:
  assumes "getAvailablePackageManagers w = []"
  shows "nc (hpc_create w n org rgn p st)"
  unfolding hpc_create_def
  by (intro nc_cases hpc_finish_none[OF assms]; simp)

lemma hpc_duplicate_none:
  assumes "getAvailablePackageManagers w = []"
  shows "nc (hpc_duplicate w n org rgn p st)"
  unfolding hpc_duplicate_def
  by (intro nc_cases hpc_create_none[OF assms]; simp)

lemma hpc_details_none:
  assumes "getAvailablePackageManagers w = []"
  shows "nc (hpc_details w n org st)"
  unfolding hpc_details_def cancelled_def
  by (intro nc_cases hpc_duplicate_none[OF assms]; simp)

lemma collect_none_fst:
  "getAvailablePackageManagers w = [] \<Longrightarrow> fst (collectProjectInfo w i st) = Inr None"
  using collect_none[of w i st] by (simp add: nci_def)

lemma hpc_orgs_none:
  assumes "getAvailablePackageManagers w = []"
  shows "nc (hpc_orgs w n st)"
  unfolding hpc_orgs_def cancelled_def
  by (intro nc_cases hpc_details_none[OF assms]; simp add: collect_none_fst[OF assms])

lemma handleProjectCreation_none:
  assumes "getAvailablePackageManagers w = []"
  shows "nc (handleProjectCreation w i st)"
  unfolding handleProjectCreation_def cancelled_def
  by (intro nc_cases hpc_orgs_none[OF assms]; simp)

lemma hep_selected_none:
  assumes "getAvailablePackageManagers w = []"
  shows "nc (hep_selected w n p st)"
  unfolding hep_selected_def
  by (intro nc_cases hpc_finish_none[OF assms]; simp)

lemma hep_projects_none:
  assumes "getAvailablePackageManagers w = []"
  shows "nc (hep_projects w n st)"
  unfolding hep_projects_def cancelled_def
  by (intro nc_cases hep_selected_none[OF assms] handleProjectCreation_none[OF assms];
      simp add: collect_none_fst[OF assms])

lemma handleExistingProject_none:
  assumes "getAvailablePackageManagers w = []"
  shows "nc (handleExistingProject w i st)"
  unfolding handleExistingProject_def cancelled_def
  by (intro nc_cases hep_projects_none[OF assms]; simp)

lemma manual_path_none:
  assumes "getAvailablePackageManagers w = []"
  shows "ncf (manual_path w n st)"
  unfolding manual_path_def
  by (intro ncf_cases; simp add: collect_none_fst[OF assms])

lemma cancel_flow_none: "ncf (cancel_flow m st)"
  by (simp add: cancel_flow_def)

lemma setup_branch_none:
  assumes "getAvailablePackageManagers w = []"
  shows "ncf (setup_branch w n c st)"
proof -
  have "nc (if c = ''create'' then handleProjectCreation w n st
            else handleExistingProject w n st)"
    by (simp add: handleProjectCreation_none[OF assms] handleExistingProject_none[OF assms])
  then have a: "fst (if c = ''create'' then handleProjectCreation w n st
            else handleExistingProject w n st) = Inr y \<Longrightarrow> ncf (Finished (Inr y), s)" for y s
    by (simp add: nc_def ncf_def)
  show ?thesis
    unfolding setup_branch_def
    by (intro ncf_cases manual_path_none[OF assms] cancel_flow_none a; simp)
qed

lemma setup_mode_none:
  assumes "getAvailablePackageManagers w = []"
  shows "ncf (setup_mode w n st)"
  unfolding setup_mode_def
  by (intro ncf_cases manual_path_none[OF assms] cancel_flow_none setup_branch_none[OF assms])

lemma setup_login_failed_none:
  assumes "getAvailablePackageManagers w = []"
  shows "ncf (setup_login_failed w n st)"
  unfolding setup_login_failed_def
  by (intro ncf_cases manual_path_none[OF assms] cancel_flow_none setup_mode_none[OF assms])

lemma setup_auth_none:
  assumes "getAvailablePackageManagers w = []"
  shows "ncf (setup_auth w n st)"
  unfolding setup_auth_def
  by (intro ncf_cases manual_path_none[OF assms] cancel_flow_none setup_mode_none[OF assms]
        setup_login_failed_none[OF assms])

lemma setup_install_failed_none:
  assumes "getAvailablePackageManagers w = []"
  shows "ncf (setup_install_failed w n st)"
  unfolding setup_install_failed_def
  by (intro ncf_cases manual_path_none[OF assms] cancel_flow_none setup_auth_none[OF assms]
        ncf_leaf)

lemma setup_cli_none:
  assumes "getAvailablePackageManagers w = []"
  shows "ncf (setup_cli w n st)"
  unfolding setup_cli_def
  by (intro ncf_cases manual_path_none[OF assms] cancel_flow_none setup_auth_none[OF assms]
        setup_install_failed_none[OF assms])

lemma setup_pass_none:
  assumes "getAvailablePackageManagers w = []"
  shows "ncf (setup_pass w n st)"
  unfolding setup_pass_def
  by (intro ncf_cases cancel_flow_none setup_cli_none[OF assms])

lemma setup_none:
  "getAvailablePackageManagers w = [] \<Longrightarrow> nc (setupWithSupabaseCLI w n st)"
proof (induction w n st rule: setupWithSupabaseCLI.induct)
  case (1 w nameArg st)
  obtain f st1 where p: "setup_pass w nameArg st = (f, st1)"
    by (cases "setup_pass w nameArg st")
  show ?case
  proof (cases f)
    case (Finished r)
    with setup_pass_none[OF "1.prems", of nameArg st] p have "no_config r"
      by (simp add: ncf_def)
    with p Finished show ?thesis
      by (subst setupWithSupabaseCLI.simps) (simp add: nc_def)
  next
    case Retry
    with p have "nc (setupWithSupabaseCLI w nameArg st1)"
      using "1.IH"[OF p[symmetric]] "1.prems" by simp
    with p Retry show ?thesis
      by (subst setupWithSupabaseCLI.simps) simp
  qed
qed

lemma setup_evolves: "evolves guarded st (snd (setupWithSupabaseCLI w n st))"
proof (induction w n st rule: setupWithSupabaseCLI.induct)
  case (1 w nameArg st)
  obtain f st1 where p: "setup_pass w nameArg st = (f, st1)"
    by (cases "setup_pass w nameArg st")
  from setup_pass_step[OF evolves_refl, of st w nameArg] p
  have e1: "evolves guarded st st1" by simp
  show ?case
  proof (cases f)
    case (Finished r)
    with p e1 show ?thesis
      by (subst setupWithSupabaseCLI.simps) simp
  next
    case Retry
    with p have "evolves guarded st1 (snd (setupWithSupabaseCLI w nameArg st1))"
      using "1.IH"[OF p[symmetric]] by simp
    with e1 have "evolves guarded st (snd (setupWithSupabaseCLI w nameArg st1))"
      by (rule evolves_trans)
    with p Retry show ?thesis
      by (subst setupWithSupabaseCLI.simps) simp
  qed
qed

lemma guarded_not_copy: "guarded e \<Longrightarrow> \<not> copies e"
  by (cases e) (auto simp: guarded_def flow_event_def copies_def)


lemma bare_world_available: "getAvailablePackageManagers bare_world = []"
  by (simp add: getAvailablePackageManagers_def isWindows_def isPackageManagerInstalled_def
        bare_world_def sample_world_def allOptions_def)

lemma sample_world_available:
  "getAvailablePackageManagers sample_world =
     [\<lparr>opt_value = pnpm, label = ''pnpm (fast, efficient)'', priority = 1\<rparr>,
      \<lparr>opt_value = bun, label = ''bun (fastest)'', priority = 2\<rparr>,
      \<lparr>opt_value = npm, label = ''npm (default)'', priority = 3\<rparr>]"
  by (simp add: getAvailablePackageManagers_def isWindows_def isPackageManagerInstalled_def
        sample_world_def allOptions_def)

section \<open>Exit status\<close>










lemma valid_demo_app: "validateProjectName ''demo-app'' = None"
  by (simp add: validateProjectName_def valid_name_def name_char_def lower_letters_def)





section \<open>Duplicate project names\<close>
















lemma admits_says_plain [simp]: "says plain"
  by (simp add: says_def)






















section \<open>Validation of the project name\<close>

















lemma long_key_valid: "validateAnonKey long_key = None" "validateServiceKey long_key = None"
  by (simp_all add: validateAnonKey_def validateServiceKey_def long_key_def)

lemma abcd_url_valid: "validateUrl ''https://abcd.supabase.co'' = None"
  by (simp add: validateUrl_def startsWith_def str_includes_def sublist_code)




section \<open>No package manager on the host\<close>

lemma trailing_prompts_returns: "fst (trailing_prompts w st) \<noteq> Inl e"
proof (cases "getAvailablePackageManagers w")
  case Nil
  then show ?thesis by (simp add: trailing_prompts_def)
next
  case (Cons first rest)
  then have "getDefaultPackageManager w = Inr (opt_value first)"
    by (rule default_of_nonempty(1))
  with Cons show ?thesis
    by (simp add: trailing_prompts_def case_prod_unfold split: option.splits)
qed

lemma trailing_prompts_empty:
  "getAvailablePackageManagers w = [] \<Longrightarrow>
     trailing_prompts w st =
       (Inr None, say CancelMsg ''No package manager found. Please install npm, pnpm, or bun.'' st)"
  by (simp add: trailing_prompts_def)

lemma hpc_finish_empty:
  "getAvailablePackageManagers w = [] \<Longrightarrow>
     hpc_finish w n creds pw st =
       (Inr (None, Cancelled),
        say CancelMsg ''No package manager found. Please install npm, pnpm, or bun.'' st)"
  by (simp add: hpc_finish_def trailing_prompts_empty)

lemma collectProjectInfo_empty:
  assumes "getAvailablePackageManagers w = []"
    and "text_prompt validateManualName (say Note ''Setup Guide'' st) = (Some a, s1)"
    and "text_prompt validateUrl s1 = (Some b, s2)"
    and "text_prompt validateAnonKey s2 = (Some c, s3)"
    and "text_prompt validateServiceKey s3 = (Some d, s4)"
  shows "collectProjectInfo w init st =
       (Inr None, say CancelMsg ''No package manager found. Please install npm, pnpm, or bun.'' s4)"
  using assms by (simp add: collectProjectInfo_def trailing_prompts_empty)

lemma quiet_leaf [simp]:
  "quiet (Retry, s)" "quiet (Finished (Inr y), s)"
  by (simp_all add: quiet_def)

lemma quieti_leaf [simp]: "quieti (Inr x, s)"
  by (simp add: quieti_def)

lemmas quiet_cases =
  g_prod[where Q=quiet] g_option[where Q=quiet] g_sum[where Q=quiet] g_bool[where Q=quiet]
  g_if[where Q=quiet] g_list[where Q=quiet]

lemmas quieti_cases =
  g_prod[where Q=quieti] g_option[where Q=quieti] g_sum[where Q=quieti] g_bool[where Q=quieti]
  g_if[where Q=quieti] g_list[where Q=quieti]

lemma collectProjectInfo_returns: "quieti (collectProjectInfo w i st)"
  unfolding collectProjectInfo_def
  by (intro quieti_cases; simp add: trailing_prompts_returns)

lemma collectProjectInfo_returns_fst: "fst (collectProjectInfo w i st) \<noteq> Inl e"
  using collectProjectInfo_returns[of w i st] by (auto simp: quieti_def)

lemma manual_path_quiet: "quiet (manual_path w n st)"
  unfolding manual_path_def
  by (intro quiet_cases; simp add: collectProjectInfo_returns_fst)

lemma cancel_flow_quiet: "quiet (cancel_flow m st)"
  by (simp add: cancel_flow_def)

lemma setup_branch_quiet: "quiet (setup_branch w n c st)"
  unfolding setup_branch_def
  by (intro quiet_cases manual_path_quiet cancel_flow_quiet quiet_leaf)

lemma setup_mode_quiet: "quiet (setup_mode w n st)"
  unfolding setup_mode_def
  by (intro quiet_cases manual_path_quiet cancel_flow_quiet setup_branch_quiet)

lemma setup_login_failed_quiet: "quiet (setup_login_failed w n st)"
  unfolding setup_login_failed_def
  by (intro quiet_cases manual_path_quiet cancel_flow_quiet setup_mode_quiet)

lemma setup_auth_quiet: "quiet (setup_auth w n st)"
  unfolding setup_auth_def
  by (intro quiet_cases manual_path_quiet cancel_flow_quiet setup_mode_quiet
        setup_login_failed_quiet)

lemma setup_install_failed_quiet: "quiet (setup_install_failed w n st)"
  unfolding setup_install_failed_def
  by (intro quiet_cases manual_path_quiet cancel_flow_quiet setup_auth_quiet quiet_leaf)

lemma setup_cli_quiet: "quiet (setup_cli w n st)"
  unfolding setup_cli_def
  by (intro quiet_cases manual_path_quiet cancel_flow_quiet setup_auth_quiet
        setup_install_failed_quiet)

lemma setup_pass_quiet: "quiet (setup_pass w n st)"
  unfolding setup_pass_def
  by (intro quiet_cases cancel_flow_quiet setup_cli_quiet)

lemma setup_returns: "fst (setupWithSupabaseCLI w n st) \<noteq> Inl e"
proof (induction w n st rule: setupWithSupabaseCLI.induct)
  case (1 w nameArg st)
  obtain f st1 where p: "setup_pass w nameArg st = (f, st1)"
    by (cases "setup_pass w nameArg st")
  show ?case
  proof (cases f)
    case (Finished r)
    with setup_pass_quiet[of w nameArg st] p have "r \<noteq> Inl e"
      by (auto simp: quiet_def)
    with p Finished show ?thesis
      by (subst setupWithSupabaseCLI.simps) simp
  next
    case Retry
    with p have "fst (setupWithSupabaseCLI w nameArg st1) \<noteq> Inl e"
      using "1.IH"[OF p[symmetric]] by simp
    with p Retry show ?thesis
      by (subst setupWithSupabaseCLI.simps) simp
  qed
qed

lemma setup_empty:
  assumes "getAvailablePackageManagers w = []"
  shows "\<exists>m st1. setupWithSupabaseCLI w n st = (Inr (None, m), st1)"
proof -
  obtain r st1 where p: "setupWithSupabaseCLI w n st = (r, st1)"
    by (cases "setupWithSupabaseCLI w n st")
  from setup_none[OF assms, of n st] p have "no_config r" by (simp add: nc_def)
  moreover from setup_returns[of w n st] p have "\<forall>e. r \<noteq> Inl e" by simp
  ultimately obtain m where "r = Inr (None, m)"
    by (cases r) (auto simp: no_config_def split: prod.splits option.splits)
  with p show ?thesis by simp
qed

lemma main_empty:
  assumes "getAvailablePackageManagers w = []"
  shows "\<exists>m st1. setupWithSupabaseCLI w (map_option trim arg) st = (Inr (None, m), st1) \<and>
                  main w arg st = (0, st1)"
proof -
  from setup_empty[OF assms, of "map_option trim arg" st]
  obtain m st1 where p: "setupWithSupabaseCLI w (map_option trim arg) st = (Inr (None, m), st1)"
    by blast
  then have "main w arg st = (0, st1)" by (simp add: main_def)
  with p show ?thesis by blast
qed

lemma main_empty_no_copy:
  assumes "getAvailablePackageManagers w = []"
  shows "\<forall>e \<in> set (trace (snd (main w arg st))). copies e \<longrightarrow> e \<in> set (trace st)"
proof -
  from main_empty[OF assms, of arg st] obtain m st1 where
    p: "setupWithSupabaseCLI w (map_option trim arg) st = (Inr (None, m), st1)" and
    q: "main w arg st = (0, st1)" by blast
  from setup_evolves[of st w "map_option trim arg"] p have "evolves guarded st st1" by simp
  then show ?thesis
    using guarded_not_copy q by (auto simp: evolves_def adds_def list_all_iff)
qed

text \<open>
  C9 (as amended). The detector returns the candidates that are available, sorted by
  ascending priority. \<open>getDefaultPackageManager\<close> throws "No package manager found. ..."
  exactly when that list is empty, and otherwise returns the first entry, whose priority
  is the lowest. In a run the empty case does not reach that throw: the prompts at the
  end of each flow check the list first, and when it is empty they cancel with the
  message "No package manager found. Please install npm, pnpm, or bun." and the flow
  returns no configuration. The setup flow then returns without a configuration and
  without an error, \<open>main\<close> exits with status 0 and prints nothing more, and no template is
  copied.
\<close>

theorem package_manager_default:
  "getAvailablePackageManagers w = sort_key priority (filter (included w) allOptions)
   \<and> sorted (map priority (getAvailablePackageManagers w))
   \<and> (getDefaultPackageManager w =
         Inl (Error ''No package manager found. Please install npm, pnpm, or bun.'')
       \<longleftrightarrow> getAvailablePackageManagers w = [])
   \<and> (\<forall>first rest. getAvailablePackageManagers w = first # rest \<longrightarrow>
         getDefaultPackageManager w = Inr (opt_value first) \<and>
         (\<forall>option \<in> set (getAvailablePackageManagers w). priority first \<le> priority option))
   \<and> (getAvailablePackageManagers w = [] \<longrightarrow>
         trailing_prompts w st =
           (Inr None,
            say CancelMsg ''No package manager found. Please install npm, pnpm, or bun.'' st) \<and>
         hpc_finish w n creds pw st =
           (Inr (None, Cancelled),
            say CancelMsg ''No package manager found. Please install npm, pnpm, or bun.'' st) \<and>
         (\<forall>a b c d s1 s2 s3 s4.
            text_prompt validateManualName (say Note ''Setup Guide'' st) = (Some a, s1) \<and>
            text_prompt validateUrl s1 = (Some b, s2) \<and>
            text_prompt validateAnonKey s2 = (Some c, s3) \<and>
            text_prompt validateServiceKey s3 = (Some d, s4) \<longrightarrow>
              collectProjectInfo w init st =
                (Inr None,
                 say CancelMsg ''No package manager found. Please install npm, pnpm, or bun.''
                   s4)) \<and>
         no_config (fst (setupWithSupabaseCLI w (map_option trim arg) st)) \<and>
         (\<exists>m st1. setupWithSupabaseCLI w (map_option trim arg) st = (Inr (None, m), st1) \<and>
                   main w arg st = (0, st1)) \<and>
         (\<forall>e \<in> set (trace (snd (main w arg st))). copies e \<longrightarrow> e \<in> set (trace st)))"
proof (intro conjI allI impI)
  show "getAvailablePackageManagers w = sort_key priority (filter (included w) allOptions)"
    by (rule available_sorted_filter)
  show "sorted (map priority (getAvailablePackageManagers w))"
    by (rule available_sorted)
  show "getDefaultPackageManager w =
         Inl (Error ''No package manager found. Please install npm, pnpm, or bun.'')
       \<longleftrightarrow> getAvailablePackageManagers w = []"
    by (rule default_throws_iff)
next
  fix first rest
  assume a: "getAvailablePackageManagers w = first # rest"
  show "getDefaultPackageManager w = Inr (opt_value first)"
    by (rule default_of_nonempty(1)[OF a])
  show "\<forall>option \<in> set (getAvailablePackageManagers w). priority first \<le> priority option"
    by (rule default_of_nonempty(2)[OF a])
next
  assume a: "getAvailablePackageManagers w = []"
  show "trailing_prompts w st =
           (Inr None,
            say CancelMsg ''No package manager found. Please install npm, pnpm, or bun.'' st)"
    by (rule trailing_prompts_empty[OF a])
  show "hpc_finish w n creds pw st =
           (Inr (None, Cancelled),
            say CancelMsg ''No package manager found. Please install npm, pnpm, or bun.'' st)"
    by (rule hpc_finish_empty[OF a])
  from setup_none[OF a]
  show "no_config (fst (setupWithSupabaseCLI w (map_option trim arg) st))"
    by (simp add: nc_def)
  show "\<exists>m st1. setupWithSupabaseCLI w (map_option trim arg) st = (Inr (None, m), st1) \<and>
                   main w arg st = (0, st1)"
    by (rule main_empty[OF a])
  show "\<forall>e \<in> set (trace (snd (main w arg st))). copies e \<longrightarrow> e \<in> set (trace st)"
    by (rule main_empty_no_copy[OF a])
next
  fix a b c d s1 s2 s3 s4
  assume e: "getAvailablePackageManagers w = []"
    and p: "text_prompt validateManualName (say Note ''Setup Guide'' st) = (Some a, s1) \<and>
            text_prompt validateUrl s1 = (Some b, s2) \<and>
            text_prompt validateAnonKey s2 = (Some c, s3) \<and>
            text_prompt validateServiceKey s3 = (Some d, s4)"
  from p show "collectProjectInfo w init st =
                (Inr None,
                 say CancelMsg ''No package manager found. Please install npm, pnpm, or bun.''
                   s4)"
    using collectProjectInfo_empty[OF e] by blast
qed

lemma bare_world_fields:
  "exists_dir bare_world d = False"
  "run bare_world k cmd = ok_result"
  by (simp_all add: bare_world_def sample_world_def)

lemma valid_manual_my_app: "validateManualName ''my-app'' = None"
  by (simp add: validateManualName_def valid_name_def name_char_def lower_letters_def
        trim_def is_space_def)

lemma by_hand_prompts:
  "text_prompt validateManualName
      \<lparr>script = [Input ''my-app'', Input ''https://abcd.supabase.co'', Input long_key,
                 Input long_key], trace = t\<rparr> =
     (Some ''my-app'',
      \<lparr>script = [Input ''https://abcd.supabase.co'', Input long_key, Input long_key],
       trace = t\<rparr>)"
  "text_prompt validateUrl
      \<lparr>script = [Input ''https://abcd.supabase.co'', Input long_key, Input long_key],
       trace = t\<rparr> =
     (Some ''https://abcd.supabase.co'', \<lparr>script = [Input long_key, Input long_key], trace = t\<rparr>)"
  "text_prompt validateAnonKey \<lparr>script = [Input long_key, Input long_key], trace = t\<rparr> =
     (Some long_key, \<lparr>script = [Input long_key], trace = t\<rparr>)"
  "text_prompt validateServiceKey \<lparr>script = [Input long_key], trace = t\<rparr> =
     (Some long_key, \<lparr>script = [], trace = t\<rparr>)"
  by (simp_all add: text_prompt_def valid_manual_my_app abcd_url_valid long_key_valid)

lemma by_hand_collect:
  "collectProjectInfo bare_world None
      \<lparr>script = [Input ''my-app'', Input ''https://abcd.supabase.co'', Input long_key,
                 Input long_key], trace = t\<rparr> =
     (Inr None,
      \<lparr>script = [], trace = t @ [Say Note ''Setup Guide'', Say CancelMsg no_manager_message]\<rparr>)"
  by (simp add: collectProjectInfo_def say_def emit_def by_hand_prompts
        trailing_prompts_empty[OF bare_world_available] no_manager_message_def)

lemma by_hand_setup:
  "setupWithSupabaseCLI bare_world None (start by_hand_script) =
     (Inr (None, Manual), \<lparr>script = [], trace = by_hand_trace\<rparr>)"
  by (simp add: setupWithSupabaseCLI.simps setup_pass_def setup_cli_def setup_auth_def
        setup_mode_def manual_path_def by_hand_collect hasSupabaseCLI_def isAuthenticated_def
        spawn_def emit_def start_def select_prompt_def text_prompt_def bare_world_fields
        ok_result_def by_hand_script_def by_hand_trace_def)

text \<open>
  On a host without a package manager, the user who enters the credentials by hand gets
  the cancellation message of the check, and the process exits with status 0: nothing is
  thrown.
\<close>

theorem no_manager_exit_counterexample:
  "getAvailablePackageManagers bare_world = []
   \<and> setupWithSupabaseCLI bare_world None (start by_hand_script) =
       (Inr (None, Manual), \<lparr>script = [], trace = by_hand_trace\<rparr>)
   \<and> main bare_world None (start by_hand_script) =
       (0, \<lparr>script = [], trace = by_hand_trace\<rparr>)
   \<and> last by_hand_trace =
       Say CancelMsg ''No package manager found. Please install npm, pnpm, or bun.''"
  by (simp add: bare_world_available by_hand_setup main_def by_hand_trace_def
        no_manager_message_def)

lemma bare_ready_world_fields:
  "exists_dir bare_ready_world d = False"
  "json_projects bare_ready_world s = JsonArray [abcd_project]"
  "json_api_keys bare_ready_world s =
     JsonArray [\<lparr>key_name = ''anon'', api_key = ''anon-key''\<rparr>,
                \<lparr>key_name = ''service_role'', api_key = ''service-key''\<rparr>]"
  "run bare_ready_world k cmd = ok_result"
  by (simp_all add: bare_ready_world_def ready_world_def sample_world_def)

lemma bare_ready_world_available: "getAvailablePackageManagers bare_ready_world = []"
  by (simp add: getAvailablePackageManagers_def isWindows_def isPackageManagerInstalled_def
        bare_ready_world_def ready_world_def sample_world_def allOptions_def)

lemma select_credentials:
  "getProjectCredentials bare_ready_world ''abcd'' \<lparr>script = sc, trace = t\<rparr> =
     (Inr \<lparr>cred_url = ''https://abcd.supabase.co'', anonKey = ''anon-key'',
           serviceKey = ''service-key''\<rparr>,
      \<lparr>script = sc, trace = t @ [Spawn (api_keys_json_cmd ''abcd'')]\<rparr>)"
  by (simp add: getProjectCredentials_def spawn_def emit_def bare_ready_world_fields
        api_keys_json_cmd_def ok_result_def find_key_def)

lemma select_projects:
  "hep_projects bare_ready_world ''demo-app'' \<lparr>script = [Input ''abcd''], trace = t\<rparr> =
     (Inr (None, Cancelled),
      \<lparr>script = [],
       trace = t @ [Spawn projects_list_cmd, Spawn (api_keys_json_cmd ''abcd''),
                    Say CancelMsg no_manager_message]\<rparr>)"
  by (simp add: hep_projects_def listProjects_def spawn_def emit_def say_def
        bare_ready_world_fields projects_list_cmd_def ok_result_def select_prompt_def
        text_prompt_def abcd_project_def hep_selected_def select_credentials
        hpc_finish_empty[OF bare_ready_world_available] no_manager_message_def)

lemma select_setup:
  "setupWithSupabaseCLI bare_ready_world (Some ''demo-app'') (start select_script) =
     (Inr (None, Cancelled),
      \<lparr>script = [], trace = existing_setup_trace @ [Say CancelMsg no_manager_message]\<rparr>)"
  by (simp add: setupWithSupabaseCLI.simps setup_pass_def setup_cli_def setup_auth_def
        setup_mode_def setup_branch_def handleExistingProject_def valid_demo_app
        select_projects hasSupabaseCLI_def isAuthenticated_def spawn_def
        emit_def start_def select_prompt_def text_prompt_def bare_ready_world_fields
        ok_result_def select_script_def existing_setup_trace_def)

theorem package_manager_default_witness:
  "getAvailablePackageManagers sample_world =
     [\<lparr>opt_value = pnpm, label = ''pnpm (fast, efficient)'', priority = 1\<rparr>,
      \<lparr>opt_value = bun, label = ''bun (fastest)'', priority = 2\<rparr>,
      \<lparr>opt_value = npm, label = ''npm (default)'', priority = 3\<rparr>]
   \<and> getDefaultPackageManager sample_world = Inr pnpm
   \<and> getAvailablePackageManagers bare_world = []
   \<and> getDefaultPackageManager bare_world =
        Inl (Error ''No package manager found. Please install npm, pnpm, or bun.'')
   \<and> collectProjectInfo bare_world None
        \<lparr>script = [Input ''my-app'', Input ''https://abcd.supabase.co'', Input long_key,
                   Input long_key], trace = []\<rparr> =
       (Inr None,
        \<lparr>script = [], trace = [Say Note ''Setup Guide'', Say CancelMsg no_manager_message]\<rparr>)
   \<and> main bare_world None (start by_hand_script) = (0, \<lparr>script = [], trace = by_hand_trace\<rparr>)
   \<and> filter copies (trace (snd (main bare_world None (start by_hand_script)))) = []
   \<and> getAvailablePackageManagers bare_ready_world = []
   \<and> hpc_finish bare_ready_world ''demo-app''
        \<lparr>cred_url = ''https://abcd.supabase.co'', anonKey = ''anon-key'',
          serviceKey = ''service-key''\<rparr> None \<lparr>script = [], trace = existing_setup_trace\<rparr> =
       (Inr (None, Cancelled),
        \<lparr>script = [], trace = existing_setup_trace @ [Say CancelMsg no_manager_message]\<rparr>)
   \<and> main bare_ready_world (Some ''demo-app'') (start select_script) =
       (0, \<lparr>script = [], trace = existing_setup_trace @ [Say CancelMsg no_manager_message]\<rparr>)"
proof -
  let ?creds = "\<lparr>cred_url = ''https://abcd.supabase.co'', anonKey = ''anon-key'',
                 serviceKey = ''service-key''\<rparr>"
  let ?q = "\<lparr>script = [Input ''my-app'', Input ''https://abcd.supabase.co'', Input long_key,
                        Input long_key], trace = []\<rparr>"
  note s = package_manager_default[of sample_world "start existing_script" "''demo-app''" ?creds
             None None "Some ''demo-app''"]
  note b = package_manager_default[of bare_world "start by_hand_script" "''demo-app''" ?creds
             None None None]
  note c = package_manager_default[of bare_world ?q "''demo-app''" ?creds None None None]
  note f = package_manager_default[of bare_ready_world
             "\<lparr>script = [], trace = existing_setup_trace\<rparr>" "''demo-app''" ?creds None None
             "Some ''demo-app''"]
  note r = package_manager_default[of bare_ready_world "start select_script" "''demo-app''"
             ?creds None None "Some ''demo-app''"]
  from s sample_world_available have d1: "getDefaultPackageManager sample_world = Inr pnpm"
    by simp
  from b bare_world_available have d2: "getDefaultPackageManager bare_world =
        Inl (Error ''No package manager found. Please install npm, pnpm, or bun.'')"
    by blast
  have pr: "text_prompt validateManualName (say Note ''Setup Guide'' ?q) =
              (Some ''my-app'',
               \<lparr>script = [Input ''https://abcd.supabase.co'', Input long_key, Input long_key],
                 trace = [Say Note ''Setup Guide'']\<rparr>) \<and>
            text_prompt validateUrl
               \<lparr>script = [Input ''https://abcd.supabase.co'', Input long_key, Input long_key],
                 trace = [Say Note ''Setup Guide'']\<rparr> =
              (Some ''https://abcd.supabase.co'',
               \<lparr>script = [Input long_key, Input long_key], trace = [Say Note ''Setup Guide'']\<rparr>) \<and>
            text_prompt validateAnonKey
               \<lparr>script = [Input long_key, Input long_key], trace = [Say Note ''Setup Guide'']\<rparr> =
              (Some long_key, \<lparr>script = [Input long_key], trace = [Say Note ''Setup Guide'']\<rparr>) \<and>
            text_prompt validateServiceKey
               \<lparr>script = [Input long_key], trace = [Say Note ''Setup Guide'']\<rparr> =
              (Some long_key, \<lparr>script = [], trace = [Say Note ''Setup Guide'']\<rparr>)"
    by (simp add: say_def emit_def by_hand_prompts)
  from c bare_world_available pr
  have "collectProjectInfo bare_world None ?q =
          (Inr None,
           say CancelMsg ''No package manager found. Please install npm, pnpm, or bun.''
             \<lparr>script = [], trace = [Say Note ''Setup Guide'']\<rparr>)"
    by blast
  then have d3: "collectProjectInfo bare_world None ?q =
       (Inr None,
        \<lparr>script = [], trace = [Say Note ''Setup Guide'', Say CancelMsg no_manager_message]\<rparr>)"
    by (simp add: say_def emit_def no_manager_message_def)
  from b bare_world_available
  obtain m st1 where
    "setupWithSupabaseCLI bare_world (map_option trim None) (start by_hand_script) =
       (Inr (None, m), st1)" and
    "main bare_world None (start by_hand_script) = (0, st1)"
    by blast
  then have d4: "main bare_world None (start by_hand_script) =
       (0, \<lparr>script = [], trace = by_hand_trace\<rparr>)"
    by (simp add: by_hand_setup)
  from b bare_world_available
  have "\<forall>e \<in> set (trace (snd (main bare_world None (start by_hand_script)))).
          copies e \<longrightarrow> e \<in> set (trace (start by_hand_script))"
    by blast
  then have d5: "filter copies (trace (snd (main bare_world None (start by_hand_script)))) = []"
    by (auto simp: filter_empty_conv start_def)
  from f bare_ready_world_available
  have "hpc_finish bare_ready_world ''demo-app'' ?creds None
          \<lparr>script = [], trace = existing_setup_trace\<rparr> =
        (Inr (None, Cancelled),
         say CancelMsg ''No package manager found. Please install npm, pnpm, or bun.''
           \<lparr>script = [], trace = existing_setup_trace\<rparr>)"
    by blast
  then have d6: "hpc_finish bare_ready_world ''demo-app'' ?creds None
          \<lparr>script = [], trace = existing_setup_trace\<rparr> =
       (Inr (None, Cancelled),
        \<lparr>script = [], trace = existing_setup_trace @ [Say CancelMsg no_manager_message]\<rparr>)"
    by (simp add: say_def emit_def no_manager_message_def)
  have tr: "trim ''demo-app'' = ''demo-app''"
    by (simp add: trim_def is_space_def)
  from r bare_ready_world_available
  obtain m2 st2 where
    "setupWithSupabaseCLI bare_ready_world (map_option trim (Some ''demo-app''))
        (start select_script) = (Inr (None, m2), st2)" and
    "main bare_ready_world (Some ''demo-app'') (start select_script) = (0, st2)"
    by blast
  then have d7: "main bare_ready_world (Some ''demo-app'') (start select_script) =
       (0, \<lparr>script = [], trace = existing_setup_trace @ [Say CancelMsg no_manager_message]\<rparr>)"
    by (simp add: tr select_setup)
  from sample_world_available d1 bare_world_available d2 d3 d4 d5 bare_ready_world_available
    d6 d7
  show ?thesis by blast
qed

end
